theory Spec2Isabelle
  imports Main
begin

section \<open>Strings and paths\<close>

text \<open>
  JavaScript strings are modelled as \<^typ>\<open>string\<close>, read as the UTF-8 bytes that
  \<^verbatim>\<open>fs.writeFileSync\<close> puts on disk and \<^verbatim>\<open>console.log\<close> prints. A character
  outside ASCII is therefore several \<^typ>\<open>char\<close>s.
\<close>

fun split_on :: "char \<Rightarrow> string \<Rightarrow> string list" where
  "split_on c [] = [[]]"
| "split_on c (x # xs) =
     (if x = c then [] # split_on c xs
      else (case split_on c xs of [] \<Rightarrow> [[x]] | y # ys \<Rightarrow> (x # y) # ys))"

fun join_with :: "string \<Rightarrow> string list \<Rightarrow> string" where
  "join_with sep [] = []"
| "join_with sep [x] = x"
| "join_with sep (x # y # ys) = x @ sep @ join_with sep (y # ys)"

fun is_prefix :: "string \<Rightarrow> string \<Rightarrow> bool" where
  "is_prefix [] s = True"
| "is_prefix (p # ps) [] = False"
| "is_prefix (p # ps) (x # xs) = (p = x \<and> is_prefix ps xs)"

text \<open>
  \<^verbatim>\<open>String.prototype.replace(pattern, replacement)\<close> with a string pattern replaces the
  first occurrence only.
\<close>

fun replace_first :: "string \<Rightarrow> string \<Rightarrow> string \<Rightarrow> string" where
  "replace_first pat rep [] = (if pat = [] then rep else [])"
| "replace_first pat rep (x # xs) =
     (if is_prefix pat (x # xs) then rep @ drop (length pat) (x # xs)
      else x # replace_first pat rep xs)"

text \<open>\<^verbatim>\<open>s.replace(/-/g, " ")\<close>: every hyphen becomes a space.\<close>

definition replace_hyphens :: "string \<Rightarrow> string" where
  "replace_hyphens s = map (\<lambda>c. if c = CHR ''-'' then CHR '' '' else c) s"

subsection \<open>Decoding a file as UTF-8\<close>

text \<open>
  \<^verbatim>\<open>fs.readFileSync(p, "utf-8")\<close> decodes the bytes of the file. A well-formed
  sequence decodes to its character, and encoding that character again gives the same
  bytes; every maximal ill-formed part becomes one replacement character U+FFFD. The
  decoder keeps the bytes of the character it is in, the number of continuation bytes
  still needed, and the range allowed for the next byte (narrower right after the lead
  bytes \<^verbatim>\<open>E0\<close>, \<^verbatim>\<open>ED\<close>, \<^verbatim>\<open>F0\<close> and \<^verbatim>\<open>F4\<close>). A byte outside the range ends the
  character with U+FFFD and is then read again as the start of the next one.
\<close>

definition replacement_character :: string where
  "replacement_character = [CHR 0xEF, CHR 0xBF, CHR 0xBD]"

definition utf8_lead :: "nat \<Rightarrow> (nat \<times> nat \<times> nat) option" where
  "utf8_lead b =
     (if 0xC2 \<le> b \<and> b \<le> 0xDF then Some (1, 0x80, 0xBF)
      else if b = 0xE0 then Some (2, 0xA0, 0xBF)
      else if b = 0xED then Some (2, 0x80, 0x9F)
      else if 0xE1 \<le> b \<and> b \<le> 0xEF then Some (2, 0x80, 0xBF)
      else if b = 0xF0 then Some (3, 0x90, 0xBF)
      else if b = 0xF4 then Some (3, 0x80, 0x8F)
      else if 0xF1 \<le> b \<and> b \<le> 0xF3 then Some (3, 0x80, 0xBF)
      else None)"

fun utf8_decoder :: "string \<Rightarrow> nat \<Rightarrow> nat \<Rightarrow> nat \<Rightarrow> string \<Rightarrow> string" where
  "utf8_decoder seen needed lower upper [] = (if needed = 0 then [] else replacement_character)"
| "utf8_decoder seen needed lower upper (c # cs) =
     (if needed \<noteq> 0 \<and> lower \<le> (of_char c :: nat) \<and> (of_char c :: nat) \<le> upper then
        (if needed = 1 then seen @ [c] @ utf8_decoder [] 0 0x80 0xBF cs
         else utf8_decoder (seen @ [c]) (needed - 1) 0x80 0xBF cs)
      else
        (if needed \<noteq> 0 then replacement_character else []) @
        (if (of_char c :: nat) < 0x80 then c # utf8_decoder [] 0 0x80 0xBF cs
         else case utf8_lead (of_char c) of
                Some (n, l, u) \<Rightarrow> utf8_decoder [c] n l u cs
              | None \<Rightarrow> replacement_character @ utf8_decoder [] 0 0x80 0xBF cs))"

definition decode_utf8 :: "string \<Rightarrow> string" where
  "decode_utf8 bytes = utf8_decoder [] 0 0x80 0xBF bytes"

subsection \<open>The posix \<^verbatim>\<open>path\<close> module of Node.js\<close>

text \<open>
  \<^verbatim>\<open>normalizeString\<close> walks the segments between slashes with a stack: empty segments
  and \<^verbatim>\<open>.\<close> are skipped, \<^verbatim>\<open>..\<close> pops a segment that is not itself \<^verbatim>\<open>..\<close>, and is kept
  in front of a relative path (\<open>allowAboveRoot\<close>) when there is nothing to pop.
\<close>

definition norm_step :: "bool \<Rightarrow> string list \<Rightarrow> string \<Rightarrow> string list" where
  "norm_step allowAboveRoot acc seg =
     (if seg = [] \<or> seg = ''.'' then acc
      else if seg = ''..'' then
        (if acc \<noteq> [] \<and> last acc \<noteq> ''..'' then butlast acc
         else if allowAboveRoot then acc @ [''..''] else acc)
      else acc @ [seg])"

definition is_absolute :: "string \<Rightarrow> bool" where
  "is_absolute p = (p \<noteq> [] \<and> hd p = CHR ''/'')"

definition normalize :: "string \<Rightarrow> string" where
  "normalize p =
     (if p = [] then ''.''
      else
        let isAbsolute = is_absolute p;
            trailingSeparator = (last p = CHR ''/'');
            body = join_with ''/'' (foldl (norm_step (\<not> isAbsolute)) [] (split_on CHR ''/'' p))
        in if body = [] then (if isAbsolute then ''/'' else if trailingSeparator then ''./'' else ''.'')
           else (if isAbsolute then ''/'' else []) @ body @ (if trailingSeparator then ''/'' else []))"

text \<open>\<^verbatim>\<open>path.join\<close>: the non-empty arguments, joined by a slash, then normalised.\<close>

definition path_join :: "string list \<Rightarrow> string" where
  "path_join parts =
     (let used = filter (\<lambda>a. a \<noteq> []) parts
      in if used = [] then ''.'' else normalize (join_with ''/'' used))"

text \<open>\<^verbatim>\<open>path.basename\<close>: the last segment, trailing slashes ignored.\<close>

definition basename :: "string \<Rightarrow> string" where
  "basename p =
     (let segs = filter (\<lambda>a. a \<noteq> []) (split_on CHR ''/'' p)
      in if segs = [] then [] else last segs)"

section \<open>The file system\<close>

text \<open>
  A file or directory is addressed by the list of its path components from the root.
  The operating system resolves a path string against the working directory of the
  process; symbolic links and permissions are not modelled.
\<close>

type_synonym fpath = "string list"

record filesystem =
  dirs :: "fpath set"
  files :: "fpath \<rightharpoonup> string"

definition resolve :: "fpath \<Rightarrow> string \<Rightarrow> fpath" where
  "resolve cwd p =
     foldl (norm_step False) (if is_absolute p then [] else cwd) (split_on CHR ''/'' p)"

text \<open>\<^verbatim>\<open>process.cwd()\<close>: the working directory as an absolute path string.\<close>

definition cwd_string :: "fpath \<Rightarrow> string" where
  "cwd_string cwd = ''/'' @ join_with ''/'' cwd"

definition is_dir :: "filesystem \<Rightarrow> fpath \<Rightarrow> bool" where
  "is_dir fs p = (p = [] \<or> p \<in> dirs fs)"

definition is_file :: "filesystem \<Rightarrow> fpath \<Rightarrow> bool" where
  "is_file fs p = (\<not> is_dir fs p \<and> files fs p \<noteq> None)"

datatype js_error =
    SystemError string string string  \<comment> \<open>code, system call, path\<close>
  | SystemErrorDest string string string string  \<comment> \<open>code, system call, path, destination\<close>
  | TypeError string

definition errno_text :: "string \<Rightarrow> string" where
  "errno_text code =
     (if code = ''ENOENT'' then ''no such file or directory''
      else if code = ''ENOTDIR'' then ''not a directory''
      else if code = ''EISDIR'' then ''illegal operation on a directory''
      else ''file already exists'')"

fun error_message :: "js_error \<Rightarrow> string" where
  "error_message (SystemError code syscall p) =
     code @ '': '' @ errno_text code @ '', '' @ syscall @ '' '' @ [CHR 0x27] @ p @ [CHR 0x27]"
| "error_message (SystemErrorDest code syscall p d) =
     code @ '': '' @ errno_text code @ '', '' @ syscall @ '' '' @ [CHR 0x27] @ p @ [CHR 0x27] @
     '' -> '' @ [CHR 0x27] @ d @ [CHR 0x27]"
| "error_message (TypeError m) = m"

definition existsSync :: "filesystem \<Rightarrow> fpath \<Rightarrow> string \<Rightarrow> bool" where
  "existsSync fs cwd p = (is_dir fs (resolve cwd p) \<or> is_file fs (resolve cwd p))"

fun prefixes_of :: "fpath \<Rightarrow> fpath list" where
  "prefixes_of [] = []"
| "prefixes_of (x # xs) = [x] # map ((#) x) (prefixes_of xs)"

text \<open>\<^verbatim>\<open>fs.mkdirSync(p, { recursive: true })\<close>: creates the directory and every missing
  ancestor; it fails when a component of the path is a file.\<close>

definition mkdirSync :: "fpath \<Rightarrow> string \<Rightarrow> filesystem \<Rightarrow> js_error + filesystem" where
  "mkdirSync cwd p fs =
     (let q = resolve cwd p
      in if is_file fs q then Inl (SystemError ''EEXIST'' ''mkdir'' p)
         else if list_ex (is_file fs) (prefixes_of q) then Inl (SystemError ''ENOTDIR'' ''mkdir'' p)
         else Inr (fs\<lparr>dirs := dirs fs \<union> set (prefixes_of q)\<rparr>))"

text \<open>
  Writing needs the parent directory to exist and the target not to be a directory.
  When the parent is not a directory the error code says why: a regular file on the way
  to it gives \<^verbatim>\<open>ENOTDIR\<close>, a missing component \<^verbatim>\<open>ENOENT\<close>.
\<close>

definition write_check :: "filesystem \<Rightarrow> fpath \<Rightarrow> string option" where
  "write_check fs q =
     (if is_dir fs q then Some ''EISDIR''
      else if is_dir fs (butlast q) then None
      else if list_ex (is_file fs) (prefixes_of (butlast q)) then Some ''ENOTDIR''
      else Some ''ENOENT'')"

definition writeFileSync :: "fpath \<Rightarrow> string \<Rightarrow> string \<Rightarrow> filesystem \<Rightarrow> js_error + filesystem" where
  "writeFileSync cwd p content fs =
     (let q = resolve cwd p
      in case write_check fs q of
           Some code \<Rightarrow> Inl (SystemError code ''open'' p)
         | None \<Rightarrow> Inr (fs\<lparr>files := (files fs)(q \<mapsto> content)\<rparr>))"

text \<open>\<^verbatim>\<open>fs.readFileSync(p)\<close>: the bytes of the file.\<close>

definition readFileSync :: "filesystem \<Rightarrow> fpath \<Rightarrow> string \<Rightarrow> js_error + string" where
  "readFileSync fs cwd p =
     (let q = resolve cwd p
      in if is_dir fs q then Inl (SystemError ''EISDIR'' ''read'' p)
         else case files fs q of
                Some content \<Rightarrow> Inr content
              | None \<Rightarrow>
                  if list_ex (is_file fs) (prefixes_of (butlast q))
                  then Inl (SystemError ''ENOTDIR'' ''open'' p)
                  else Inl (SystemError ''ENOENT'' ''open'' p))"

text \<open>\<^verbatim>\<open>fs.copyFileSync(src, dest)\<close> copies the bytes; its errors name both paths.\<close>

definition copyFileSync :: "fpath \<Rightarrow> string \<Rightarrow> string \<Rightarrow> filesystem \<Rightarrow> js_error + filesystem" where
  "copyFileSync cwd src dest fs =
     (case readFileSync fs cwd src of
        Inl (SystemError code syscall p) \<Rightarrow> Inl (SystemErrorDest code ''copyfile'' src dest)
      | Inl e \<Rightarrow> Inl e
      | Inr content \<Rightarrow>
          (case write_check fs (resolve cwd dest) of
             Some code \<Rightarrow> Inl (SystemErrorDest code ''copyfile'' src dest)
           | None \<Rightarrow> Inr (fs\<lparr>files := (files fs)(resolve cwd dest \<mapsto> content)\<rparr>)))"

section \<open>The process: console, exit status, exceptions\<close>

record world =
  disk :: filesystem
  console :: "string list"

text \<open>
  A statement completes normally, ends the process through \<^verbatim>\<open>process.exit(code)\<close>,
  or throws. The world it leaves behind is kept in each case: what was written before
  an exit or an exception stays on disk.
\<close>

datatype signal = Done | Exit nat | Throw js_error

type_synonym action = "world \<Rightarrow> signal \<times> world"

definition skip :: action where
  "skip w = (Done, w)"

definition seq :: "action \<Rightarrow> action \<Rightarrow> action" where
  "seq a b w = (case a w of (Done, w') \<Rightarrow> b w' | (Exit n, w') \<Rightarrow> (Exit n, w') | (Throw e, w') \<Rightarrow> (Throw e, w'))"

fun block :: "action list \<Rightarrow> action" where
  "block [] = skip"
| "block (a # as) = seq a (block as)"

definition try_catch :: "action \<Rightarrow> (js_error \<Rightarrow> action) \<Rightarrow> action" where
  "try_catch a handler w = (case a w of (Throw e, w') \<Rightarrow> handler e w' | (Done, w') \<Rightarrow> (Done, w') | (Exit n, w') \<Rightarrow> (Exit n, w'))"

definition throw :: "js_error \<Rightarrow> action" where
  "throw e w = (Throw e, w)"

definition fs_call :: "(filesystem \<Rightarrow> js_error + filesystem) \<Rightarrow> action" where
  "fs_call f w = (case f (disk w) of Inl e \<Rightarrow> (Throw e, w) | Inr fs' \<Rightarrow> (Done, w\<lparr>disk := fs'\<rparr>))"

definition when_fs :: "(filesystem \<Rightarrow> bool) \<Rightarrow> action \<Rightarrow> action" where
  "when_fs cond a w = (if cond (disk w) then a w else (Done, w))"

text \<open>The exit status of the process: an uncaught exception ends Node.js with status 1.\<close>

fun exit_status :: "signal \<Rightarrow> nat" where
  "exit_status Done = 0"
| "exit_status (Exit n) = n"
| "exit_status (Throw e) = 1"

subsection \<open>Console helpers (the same in both scripts)\<close>

datatype Color = Reset | Green | Blue | Yellow | Red | Cyan

fun color_code :: "Color \<Rightarrow> string" where
  "color_code Reset = [CHR 0x1B] @ ''[0m''"
| "color_code Green = [CHR 0x1B] @ ''[32m''"
| "color_code Blue = [CHR 0x1B] @ ''[34m''"
| "color_code Yellow = [CHR 0x1B] @ ''[33m''"
| "color_code Red = [CHR 0x1B] @ ''[31m''"
| "color_code Cyan = [CHR 0x1B] @ ''[36m''"

definition log :: "string \<Rightarrow> Color \<Rightarrow> action" where
  "log message color w =
     (Done, w\<lparr>console := console w @ [color_code color @ message @ color_code Reset]\<rparr>)"

definition error :: "string \<Rightarrow> action" where
  "error message =
     seq (log ([CHR 0xE2, CHR 0x9D, CHR 0x8C] @ '' Error: '' @ message) Red) (\<lambda>w. (Exit 1, w))"

definition success :: "string \<Rightarrow> action" where
  "success message = log ([CHR 0xE2, CHR 0x9C, CHR 0x85] @ '' '' @ message) Green"

definition info :: "string \<Rightarrow> action" where
  "info message =
     log ([CHR 0xE2, CHR 0x84, CHR 0xB9, CHR 0xEF, CHR 0xB8, CHR 0x8F] @ ''  '' @ message) Blue"

subsection \<open>Property lookup on an object literal\<close>

text \<open>
  Both registries are object literals, and \<^verbatim>\<open>REGISTRY[name]\<close> is a property lookup:
  an own property yields its descriptor, a name that \<^verbatim>\<open>Object.prototype\<close> defines
  yields an inherited function or object (truthy, with none of the descriptor's
  fields), and any other name yields \<^verbatim>\<open>undefined\<close>. \<^verbatim>\<open>Object.keys\<close> and
  \<^verbatim>\<open>Object.entries\<close> list the own properties only, in declaration order.
\<close>

datatype 'a property = Own 'a | Inherited | Undefined

definition object_prototype_keys :: "string list" where
  "object_prototype_keys =
     [''constructor'', ''__defineGetter__'', ''__defineSetter__'', ''hasOwnProperty'',
      ''__lookupGetter__'', ''__lookupSetter__'', ''isPrototypeOf'', ''propertyIsEnumerable'',
      ''toString'', ''valueOf'', ''__proto__'', ''toLocaleString'']"

definition get_property :: "(string \<times> 'a) list \<Rightarrow> string \<Rightarrow> 'a property" where
  "get_property obj k =
     (case map_of obj k of
        Some v \<Rightarrow> Own v
      | None \<Rightarrow> if k \<in> set object_prototype_keys then Inherited else Undefined)"

definition object_keys :: "(string \<times> 'a) list \<Rightarrow> string list" where
  "object_keys obj = map fst obj"

text \<open>The message of the \<^verbatim>\<open>TypeError\<close> that \<^verbatim>\<open>path.join\<close> throws on an argument that
  is \<^verbatim>\<open>undefined\<close>.\<close>

definition path_argument_error :: js_error where
  \<open>path_argument_error =
     TypeError ''The "path" argument must be of type string. Received undefined''\<close>

section \<open>The standalone-repository generator (\<^verbatim>\<open>scripts/create-fhevm-example.ts\<close>)\<close>

record ExampleConfig =
  contract :: string
  test :: string
  description :: string
  category :: string

definition EXAMPLES_MAP :: "(string \<times> ExampleConfig) list" where
  \<open>EXAMPLES_MAP =
     [(''fhe-add'',
       \<lparr>contract = ''contracts/basic/FHEAdd.sol'',
         test = ''test/basic/FHEAdd.ts'',
         description = ''Demonstrates FHE addition operations on encrypted values.'',
         category = ''Basic''\<rparr>),
      (''fhe-subtract'',
       \<lparr>contract = ''contracts/basic/FHESubtract.sol'',
         test = ''test/basic/FHESubtract.ts'',
         description = ''Shows how to perform subtraction on encrypted values with underflow protection.'',
         category = ''Basic''\<rparr>),
      (''fhe-equality'',
       \<lparr>contract = ''contracts/basic/FHEEquality.sol'',
         test = ''test/basic/FHEEquality.ts'',
         description = ''Compares encrypted values for equality returning encrypted boolean.'',
         category = ''Basic''\<rparr>),
      (''encrypt-single'',
       \<lparr>contract = ''contracts/encryption/EncryptSingleValue.sol'',
         test = ''test/encryption/EncryptSingleValue.ts'',
         description = ''Demonstrates receiving and storing a single encrypted value with input proofs.'',
         category = ''Encryption''\<rparr>),
      (''encrypt-multiple'',
       \<lparr>contract = ''contracts/encryption/EncryptMultipleValues.sol'',
         test = ''test/encryption/EncryptMultipleValues.ts'',
         description = ''Shows how to handle multiple encrypted values and permission management.'',
         category = ''Encryption''\<rparr>),
      (''user-decrypt'',
       \<lparr>contract = ''contracts/decryption/UserDecryptSingleValue.sol'',
         test = ''test/decryption/UserDecryptSingleValue.ts'',
         description = ''Demonstrates user decryption mechanism and permission requirements.'',
         category = ''Decryption''\<rparr>),
      (''public-decrypt'',
       \<lparr>contract = ''contracts/decryption/PublicDecryptSingleValue.sol'',
         test = ''test/decryption/PublicDecryptSingleValue.ts'',
         description = ''Shows public decryption for revealing encrypted values to everyone.'',
         category = ''Decryption''\<rparr>),
      (''blind-auction'',
       \<lparr>contract = ''contracts/advanced/BlindAuction.sol'',
         test = ''test/advanced/BlindAuction.ts'',
         description = ''Sealed-bid auction where bids remain encrypted during bidding phase.'',
         category = ''Advanced''\<rparr>),
      (''access-control'',
       \<lparr>contract = ''contracts/advanced/AccessControlExample.sol'',
         test = ''test/advanced/AccessControlExample.ts'',
         description = ''Complete guide to FHE permission system: allowThis, allow, and allowTransient.'',
         category = ''Advanced''\<rparr>),
      (''literature-review'',
       \<lparr>contract = ''contracts/LiteratureReviewSystem.sol'',
         test = ''test/LiteratureReviewSystem.ts'',
         description = ''A confidential literature awards platform using FHE to enable encrypted submissions, reviews, and winner selection.'',
         category = ''Advanced''\<rparr>),
      (''common-mistakes'',
       \<lparr>contract = ''contracts/antipatterns/CommonMistakes.sol'',
         test = ''test/antipatterns/CommonMistakes.ts'',
         description = ''Educational examples showing common mistakes and anti-patterns to avoid.'',
         category = ''Education''\<rparr>),
      (''handles-and-proofs'',
       \<lparr>contract = ''contracts/education/HandlesAndProofs.sol'',
         test = ''test/education/HandlesAndProofs.ts'',
         description = ''Complete explanation of FHE handles, input proofs, and symbolic execution.'',
         category = ''Education''\<rparr>),
      (''user-decrypt-multiple'',
       \<lparr>contract = ''contracts/decryption/UserDecryptMultipleValues.sol'',
         test = ''test/decryption/UserDecryptMultipleValues.ts'',
         description = ''User decryption mechanism for multiple encrypted values.'',
         category = ''Decryption''\<rparr>),
      (''public-decrypt-multiple'',
       \<lparr>contract = ''contracts/decryption/PublicDecryptMultipleValues.sol'',
         test = ''test/decryption/PublicDecryptMultipleValues.ts'',
         description = ''Public decryption for multiple encrypted values.'',
         category = ''Decryption''\<rparr>),
      (''confidential-erc20'',
       \<lparr>contract = ''contracts/openzeppelin/ConfidentialERC20.sol'',
         test = ''test/openzeppelin/ConfidentialERC20.ts'',
         description = ''Confidential ERC20 token with encrypted balances and transfers.'',
         category = ''OpenZeppelin''\<rparr>)]\<close>
definition readmeContent :: "string \<Rightarrow> ExampleConfig \<Rightarrow> string" where
  \<open>readmeContent exampleName exampleConfig = concat
    [''# '', replace_hyphens exampleName, '' - FHEVM Example\<newline>'',
     ''\<newline>'',
     description exampleConfig, ''\<newline>'',
     ''\<newline>'',
     ''## Quick Start\<newline>'',
     ''\<newline>'',
     ''### Installation\<newline>'',
     ''\<newline>'',
     ''```bash\<newline>'',
     ''npm install\<newline>'',
     ''```\<newline>'',
     ''\<newline>'',
     ''### Compilation\<newline>'',
     ''\<newline>'',
     ''```bash\<newline>'',
     ''npm run compile\<newline>'',
     ''```\<newline>'',
     ''\<newline>'',
     ''### Running Tests\<newline>'',
     ''\<newline>'',
     ''```bash\<newline>'',
     ''npm run test\<newline>'',
     ''```\<newline>'',
     ''\<newline>'',
     ''## Project Structure\<newline>'',
     ''\<newline>'',
     ''```\<newline>'',
     ''.\<newline>'',
     [CHR 0xE2, CHR 0x94, CHR 0x9C, CHR 0xE2, CHR 0x94, CHR 0x80, CHR 0xE2, CHR 0x94, CHR 0x80] @ '' contracts/\<newline>'',
     [CHR 0xE2, CHR 0x94, CHR 0x82] @ ''   '' @ [CHR 0xE2, CHR 0x94, CHR 0x94, CHR 0xE2, CHR 0x94, CHR 0x80, CHR 0xE2, CHR 0x94, CHR 0x80] @ '' '', basename (contract exampleConfig), ''\<newline>'',
     [CHR 0xE2, CHR 0x94, CHR 0x9C, CHR 0xE2, CHR 0x94, CHR 0x80, CHR 0xE2, CHR 0x94, CHR 0x80] @ '' test/\<newline>'',
     [CHR 0xE2, CHR 0x94, CHR 0x82] @ ''   '' @ [CHR 0xE2, CHR 0x94, CHR 0x94, CHR 0xE2, CHR 0x94, CHR 0x80, CHR 0xE2, CHR 0x94, CHR 0x80] @ '' '', basename (test exampleConfig), ''\<newline>'',
     [CHR 0xE2, CHR 0x94, CHR 0x9C, CHR 0xE2, CHR 0x94, CHR 0x80, CHR 0xE2, CHR 0x94, CHR 0x80] @ '' hardhat.config.ts\<newline>'',
     [CHR 0xE2, CHR 0x94, CHR 0x9C, CHR 0xE2, CHR 0x94, CHR 0x80, CHR 0xE2, CHR 0x94, CHR 0x80] @ '' package.json\<newline>'',
     [CHR 0xE2, CHR 0x94, CHR 0x94, CHR 0xE2, CHR 0x94, CHR 0x80, CHR 0xE2, CHR 0x94, CHR 0x80] @ '' tsconfig.json\<newline>'',
     ''```\<newline>'',
     ''\<newline>'',
     ''## Key Concepts\<newline>'',
     ''\<newline>'',
     ''This example demonstrates:\<newline>'',
     ''- FHE (Fully Homomorphic Encryption) implementation using FHEVM\<newline>'',
     ''- Privacy-preserving smart contract operations\<newline>'',
     ''- Encrypted data handling on blockchain\<newline>'',
     ''- Zero-knowledge proof validation\<newline>'',
     ''\<newline>'',
     ''## Dependencies\<newline>'',
     ''\<newline>'',
     ''- **@fhevm/solidity** - Core FHEVM Solidity library for FHE operations\<newline>'',
     ''- **@fhevm/hardhat-plugin** - Hardhat integration for FHEVM testing\<newline>'',
     ''- **Hardhat** - Development environment for smart contracts\<newline>'',
     ''- **TypeScript** - Type-safe development\<newline>'',
     ''\<newline>'',
     ''## Resources\<newline>'',
     ''\<newline>'',
     ''- [FHEVM Documentation](https://docs.zama.ai/fhevm)\<newline>'',
     ''- [Zama GitHub](https://github.com/zama-ai)\<newline>'',
     ''- [FHEVM Examples](https://github.com/zama-ai/fhevm-hardhat-template)\<newline>'',
     ''\<newline>'',
     ''## License\<newline>'',
     ''\<newline>'',
     ''BSD-3-Clause-Clear\<newline>'',
     ''\<newline>'',
     ''---\<newline>'',
     ''\<newline>'',
     ''Built with FHEVM by Zama\<newline>'']\<close>

definition generateReadme ::
  "fpath \<Rightarrow> string \<Rightarrow> ExampleConfig \<Rightarrow> string \<Rightarrow> filesystem \<Rightarrow> js_error + filesystem" where
  "generateReadme cwd exampleName exampleConfig outputDir =
     writeFileSync cwd (path_join [outputDir, ''README.md'']) (readmeContent exampleName exampleConfig)"

text \<open>
  \<^verbatim>\<open>JSON.stringify\<close> quotes a string with the escapes of JSON: the quote, the backslash
  and the control characters.
\<close>

definition hex_digit :: "nat \<Rightarrow> char" where
  "hex_digit n = ''0123456789abcdef'' ! (n mod 16)"

definition json_escape_char :: "char \<Rightarrow> string" where
  "json_escape_char c =
     (if c = CHR 0x22 then [CHR 0x5C, CHR 0x22]
      else if c = CHR 0x5C then [CHR 0x5C, CHR 0x5C]
      else if c = CHR 0x08 then [CHR 0x5C, CHR ''b'']
      else if c = CHR 0x09 then [CHR 0x5C, CHR ''t'']
      else if c = CHR 0x0A then [CHR 0x5C, CHR ''n'']
      else if c = CHR 0x0C then [CHR 0x5C, CHR ''f'']
      else if c = CHR 0x0D then [CHR 0x5C, CHR ''r'']
      else if (of_char c :: nat) < 32 then
        [CHR 0x5C] @ ''u00'' @ [hex_digit (of_char c div 16), hex_digit (of_char c)]
      else [c])"

definition json_escape :: "string \<Rightarrow> string" where
  "json_escape s = concat (map json_escape_char s)"

text \<open>The text of \<^verbatim>\<open>JSON.stringify(packageJson, null, 2)\<close>.\<close>

definition packageJson :: "string \<Rightarrow> string" where
  \<open>packageJson exampleName = concat
    [''{\<newline>'',
     ''  "name": "fhevm-example-'', json_escape exampleName, ''",\<newline>'',
     ''  "version": "1.0.0",\<newline>'',
     ''  "description": "FHEVM Example: '', json_escape exampleName, ''",\<newline>'',
     ''  "engines": {\<newline>'',
     ''    "node": ">=20",\<newline>'',
     ''    "npm": ">=7.0.0"\<newline>'',
     ''  },\<newline>'',
     ''  "license": "BSD-3-Clause-Clear",\<newline>'',
     ''  "keywords": [\<newline>'',
     ''    "fhevm",\<newline>'',
     ''    "zama",\<newline>'',
     ''    "fhe",\<newline>'',
     ''    "privacy",\<newline>'',
     ''    "blockchain",\<newline>'',
     ''    "ethereum"\<newline>'',
     ''  ],\<newline>'',
     ''  "dependencies": {\<newline>'',
     ''    "encrypted-types": "^0.0.4",\<newline>'',
     ''    "@fhevm/solidity": "^0.9.1"\<newline>'',
     ''  },\<newline>'',
     ''  "devDependencies": {\<newline>'',
     ''    "@fhevm/hardhat-plugin": "^0.3.0-1",\<newline>'',
     ''    "@nomicfoundation/hardhat-chai-matchers": "^2.1.0",\<newline>'',
     ''    "@nomicfoundation/hardhat-ethers": "^3.1.0",\<newline>'',
     ''    "@types/chai": "^4.3.20",\<newline>'',
     ''    "@types/mocha": "^10.0.10",\<newline>'',
     ''    "@types/node": "^20.19.8",\<newline>'',
     ''    "chai": "^4.5.0",\<newline>'',
     ''    "chai-as-promised": "^8.0.1",\<newline>'',
     ''    "cross-env": "^7.0.3",\<newline>'',
     ''    "ethers": "^6.15.0",\<newline>'',
     ''    "hardhat": "^2.26.0",\<newline>'',
     ''    "hardhat-deploy": "^0.11.45",\<newline>'',
     ''    "mocha": "^11.7.1",\<newline>'',
     ''    "ts-node": "^10.9.2",\<newline>'',
     ''    "typescript": "^5.8.3"\<newline>'',
     ''  },\<newline>'',
     ''  "scripts": {\<newline>'',
     ''    "compile": "cross-env TS_NODE_TRANSPILE_ONLY=true hardhat compile",\<newline>'',
     ''    "test": "hardhat test",\<newline>'',
     ''    "test:sepolia": "hardhat test --network sepolia",\<newline>'',
     ''    "build:ts": "tsc --project tsconfig.json",\<newline>'',
     ''    "typechain": "cross-env TS_NODE_TRANSPILE_ONLY=true hardhat typechain",\<newline>'',
     ''    "clean": "rimraf ./fhevmTemp ./artifacts ./cache ./coverage ./types"\<newline>'',
     ''  }\<newline>'',
     ''}'']\<close>

definition generatePackageJson ::
  "fpath \<Rightarrow> string \<Rightarrow> string \<Rightarrow> filesystem \<Rightarrow> js_error + filesystem" where
  "generatePackageJson cwd exampleName outputDir =
     writeFileSync cwd (path_join [outputDir, ''package.json'']) (packageJson exampleName)"

definition configContent :: string where
  \<open>configContent = concat
    [''import "@fhevm/hardhat-plugin";\<newline>'',
     ''import "@nomicfoundation/hardhat-chai-matchers";\<newline>'',
     ''import "@nomicfoundation/hardhat-ethers";\<newline>'',
     ''import type { HardhatUserConfig } from "hardhat/config";\<newline>'',
     ''import { vars } from "hardhat/config";\<newline>'',
     ''\<newline>'',
     ''const MNEMONIC: string = vars.get("MNEMONIC", "test test test test test test test test test test test junk");\<newline>'',
     ''const INFURA_API_KEY: string = vars.get("INFURA_API_KEY", "zzzzzzzzzzzzzzzzzzzzzzzzzzzzzzzz");\<newline>'',
     ''\<newline>'',
     ''const config: HardhatUserConfig = {\<newline>'',
     ''  defaultNetwork: "hardhat",\<newline>'',
     ''  etherscan: {\<newline>'',
     ''    apiKey: {\<newline>'',
     ''      sepolia: vars.get("ETHERSCAN_API_KEY", ""),\<newline>'',
     ''    },\<newline>'',
     ''  },\<newline>'',
     ''  networks: {\<newline>'',
     ''    hardhat: {\<newline>'',
     ''      accounts: {\<newline>'',
     ''        mnemonic: MNEMONIC,\<newline>'',
     ''      },\<newline>'',
     ''      chainId: 31337,\<newline>'',
     ''    },\<newline>'',
     ''    sepolia: {\<newline>'',
     ''      accounts: {\<newline>'',
     ''        mnemonic: MNEMONIC,\<newline>'',
     ''        path: "m/44'' @ [CHR 0x27] @ ''/60'' @ [CHR 0x27] @ ''/0'' @ [CHR 0x27] @ ''/0/",\<newline>'',
     ''        count: 10,\<newline>'',
     ''      },\<newline>'',
     ''      chainId: 11155111,\<newline>'',
     ''      url: `https://sepolia.infura.io/v3/${INFURA_API_KEY}`,\<newline>'',
     ''    },\<newline>'',
     ''  },\<newline>'',
     ''  paths: {\<newline>'',
     ''    artifacts: "./artifacts",\<newline>'',
     ''    cache: "./cache",\<newline>'',
     ''    sources: "./contracts",\<newline>'',
     ''    tests: "./test",\<newline>'',
     ''  },\<newline>'',
     ''  solidity: {\<newline>'',
     ''    version: "0.8.27",\<newline>'',
     ''    settings: {\<newline>'',
     ''      metadata: {\<newline>'',
     ''        bytecodeHash: "none",\<newline>'',
     ''      },\<newline>'',
     ''      optimizer: {\<newline>'',
     ''        enabled: true,\<newline>'',
     ''        runs: 800,\<newline>'',
     ''      },\<newline>'',
     ''      evmVersion: "cancun",\<newline>'',
     ''    },\<newline>'',
     ''  },\<newline>'',
     ''  typechain: {\<newline>'',
     ''    outDir: "types",\<newline>'',
     ''    target: "ethers-v6",\<newline>'',
     ''  },\<newline>'',
     ''};\<newline>'',
     ''\<newline>'',
     ''export default config;\<newline>'']\<close>

definition generateHardhatConfig :: "fpath \<Rightarrow> string \<Rightarrow> filesystem \<Rightarrow> js_error + filesystem" where
  "generateHardhatConfig cwd outputDir =
     writeFileSync cwd (path_join [outputDir, ''hardhat.config.ts'']) configContent"

text \<open>The text of \<^verbatim>\<open>JSON.stringify(tsConfig, null, 2)\<close>.\<close>

definition tsConfig :: string where
  \<open>tsConfig = concat
    [''{\<newline>'',
     ''  "compilerOptions": {\<newline>'',
     ''    "target": "ES2022",\<newline>'',
     ''    "module": "commonjs",\<newline>'',
     ''    "lib": [\<newline>'',
     ''      "ES2022"\<newline>'',
     ''    ],\<newline>'',
     ''    "moduleResolution": "node",\<newline>'',
     ''    "esModuleInterop": true,\<newline>'',
     ''    "skipLibCheck": true,\<newline>'',
     ''    "strict": true,\<newline>'',
     ''    "resolveJsonModule": true,\<newline>'',
     ''    "outDir": "./dist",\<newline>'',
     ''    "declaration": true,\<newline>'',
     ''    "declarationMap": true,\<newline>'',
     ''    "sourceMap": true,\<newline>'',
     ''    "forceConsistentCasingInFileNames": true,\<newline>'',
     ''    "typeRoots": [\<newline>'',
     ''      "./node_modules/@types",\<newline>'',
     ''      "./types"\<newline>'',
     ''    ]\<newline>'',
     ''  },\<newline>'',
     ''  "include": [\<newline>'',
     ''    "./test",\<newline>'',
     ''    "./types"\<newline>'',
     ''  ],\<newline>'',
     ''  "exclude": [\<newline>'',
     ''    "./node_modules",\<newline>'',
     ''    "./dist",\<newline>'',
     ''    "./cache",\<newline>'',
     ''    "./artifacts",\<newline>'',
     ''    "./coverage"\<newline>'',
     ''  ]\<newline>'',
     ''}'']\<close>

definition generateTsConfig :: "fpath \<Rightarrow> string \<Rightarrow> filesystem \<Rightarrow> js_error + filesystem" where
  "generateTsConfig cwd outputDir =
     writeFileSync cwd (path_join [outputDir, ''tsconfig.json'']) tsConfig"

text \<open>
  The body of the \<^verbatim>\<open>try\<close> block of \<^verbatim>\<open>main\<close> for a descriptor of the registry. The two
  calls of \<^verbatim>\<open>error\<close> inside it end the process; they do not reach the \<^verbatim>\<open>catch\<close>.
\<close>

definition create_example_try :: "fpath \<Rightarrow> string \<Rightarrow> ExampleConfig \<Rightarrow> string \<Rightarrow> action" where
  "create_example_try cwd exampleName exampleConfig outputDir =
     (let contractPath = path_join [cwd_string cwd, contract exampleConfig];
          testPath = path_join [cwd_string cwd, test exampleConfig]
      in block
        [fs_call (mkdirSync cwd (path_join [outputDir, ''contracts''])),
         fs_call (mkdirSync cwd (path_join [outputDir, ''test''])),
         when_fs (\<lambda>fs. \<not> existsSync fs cwd contractPath)
           (error (''Contract file not found: '' @ contractPath)),
         fs_call (copyFileSync cwd contractPath
           (path_join [outputDir, ''contracts'', basename (contract exampleConfig)])),
         when_fs (\<lambda>fs. \<not> existsSync fs cwd testPath)
           (error (''Test file not found: '' @ testPath)),
         fs_call (copyFileSync cwd testPath
           (path_join [outputDir, ''test'', basename (test exampleConfig)])),
         fs_call (generateReadme cwd exampleName exampleConfig outputDir),
         fs_call (generatePackageJson cwd exampleName outputDir),
         fs_call (generateHardhatConfig cwd outputDir),
         fs_call (generateTsConfig cwd outputDir),
         success ''Example created successfully!'',
         log ([CHR 0x0A] @ ''Next steps:'') Yellow,
         log (''1. cd '' @ outputDir) Reset,
         log ''2. npm install'' Reset,
         log ''3. npm run compile'' Reset,
         log ''4. npm run test'' Reset])"

text \<open>
  The same block when the name is an inherited property: the value has no
  \<^verbatim>\<open>contract\<close> field, so after the two directories are made
  \<^verbatim>\<open>path.join(process.cwd(), undefined)\<close> throws.
\<close>

definition create_example_try_inherited :: "fpath \<Rightarrow> string \<Rightarrow> action" where
  "create_example_try_inherited cwd outputDir =
     block
       [fs_call (mkdirSync cwd (path_join [outputDir, ''contracts''])),
        fs_call (mkdirSync cwd (path_join [outputDir, ''test''])),
        throw path_argument_error]"

definition create_example_catch :: "js_error \<Rightarrow> action" where
  "create_example_catch err = error (''Failed to create example: '' @ error_message err)"

text \<open>\<^verbatim>\<open>args[1] || `./${exampleName}`\<close>: a missing or empty second argument is falsy.\<close>

definition output_dir_arg :: "string list \<Rightarrow> string" where
  "output_dir_arg args =
     (if 1 < length args \<and> args ! 1 \<noteq> [] then args ! 1 else ''./'' @ args ! 0)"

definition create_fhevm_example_main :: "fpath \<Rightarrow> string list \<Rightarrow> action" where
  "create_fhevm_example_main cwd args =
     (if length args = 0 then
        block
          ([log ''Available examples:'' Cyan] @
           map (\<lambda>name. log (''  - '' @ name) Reset) (object_keys EXAMPLES_MAP) @
           [error ''Please specify an example name''])
      else
        let exampleName = args ! 0;
            outputDir = output_dir_arg args
        in case get_property EXAMPLES_MAP exampleName of
             Undefined \<Rightarrow> error (''Unknown example: '' @ exampleName)
           | Inherited \<Rightarrow>
               block
                 [info (''Creating example: '' @ exampleName),
                  info (''Output directory: '' @ outputDir),
                  try_catch (create_example_try_inherited cwd outputDir) create_example_catch]
           | Own exampleConfig \<Rightarrow>
               block
                 [info (''Creating example: '' @ exampleName),
                  info (''Output directory: '' @ outputDir),
                  try_catch (create_example_try cwd exampleName exampleConfig outputDir)
                    create_example_catch])"

section \<open>The documentation generator (\<^verbatim>\<open>scripts/generate-docs.ts\<close>)\<close>

text \<open>
  \<^verbatim>\<open>DocsConfig\<close> has the four fields of \<^verbatim>\<open>ExampleConfig\<close> and two more, so it is
  modelled as an extension of that record.
\<close>

record DocsConfig = ExampleConfig +
  title :: string
  output' :: string

definition EXAMPLES_CONFIG :: "(string \<times> DocsConfig) list" where
  \<open>EXAMPLES_CONFIG =
     [(''fhe-add'',
       \<lparr>contract = ''contracts/basic/FHEAdd.sol'',
         test = ''test/basic/FHEAdd.ts'',
         description = ''This example demonstrates how to perform addition on encrypted values using FHE.add().'',
         category = ''Basic'',
         title = ''FHE Addition Operations'',
         output' = ''docs/fhe-add.md''\<rparr>),
      (''fhe-subtract'',
       \<lparr>contract = ''contracts/basic/FHESubtract.sol'',
         test = ''test/basic/FHESubtract.ts'',
         description = ''This example shows how to perform subtraction on encrypted values with underflow considerations.'',
         category = ''Basic'',
         title = ''FHE Subtraction Operations'',
         output' = ''docs/fhe-subtract.md''\<rparr>),
      (''fhe-equality'',
       \<lparr>contract = ''contracts/basic/FHEEquality.sol'',
         test = ''test/basic/FHEEquality.ts'',
         description = ''This example demonstrates how to compare encrypted values for equality using FHE.eq().'',
         category = ''Basic'',
         title = ''FHE Equality Comparisons'',
         output' = ''docs/fhe-equality.md''\<rparr>),
      (''encrypt-single'',
       \<lparr>contract = ''contracts/encryption/EncryptSingleValue.sol'',
         test = ''test/encryption/EncryptSingleValue.ts'',
         description = ''This example demonstrates the FHE encryption mechanism for single values and common pitfalls.'',
         category = ''Encryption'',
         title = ''Encrypt Single Value'',
         output' = ''docs/encrypt-single.md''\<rparr>),
      (''encrypt-multiple'',
       \<lparr>contract = ''contracts/encryption/EncryptMultipleValues.sol'',
         test = ''test/encryption/EncryptMultipleValues.ts'',
         description = ''This example shows how to encrypt and handle multiple values in a single transaction.'',
         category = ''Encryption'',
         title = ''Encrypt Multiple Values'',
         output' = ''docs/encrypt-multiple.md''\<rparr>),
      (''user-decrypt'',
       \<lparr>contract = ''contracts/decryption/UserDecryptSingleValue.sol'',
         test = ''test/decryption/UserDecryptSingleValue.ts'',
         description = ''This example demonstrates the user decryption mechanism and permission requirements.'',
         category = ''Decryption'',
         title = ''User Decryption'',
         output' = ''docs/user-decrypt.md''\<rparr>),
      (''public-decrypt'',
       \<lparr>contract = ''contracts/decryption/PublicDecryptSingleValue.sol'',
         test = ''test/decryption/PublicDecryptSingleValue.ts'',
         description = ''This example shows public decryption for revealing encrypted values to everyone.'',
         category = ''Decryption'',
         title = ''Public Decryption'',
         output' = ''docs/public-decrypt.md''\<rparr>),
      (''blind-auction'',
       \<lparr>contract = ''contracts/advanced/BlindAuction.sol'',
         test = ''test/advanced/BlindAuction.ts'',
         description = ''This example demonstrates a sealed-bid auction where bids remain encrypted during the bidding phase.'',
         category = ''Advanced'',
         title = ''Blind Auction'',
         output' = ''docs/blind-auction.md''\<rparr>),
      (''access-control'',
       \<lparr>contract = ''contracts/advanced/AccessControlExample.sol'',
         test = ''test/advanced/AccessControlExample.ts'',
         description = ''This example provides a complete guide to FHEVM permission system: allowThis, allow, and allowTransient.'',
         category = ''Advanced'',
         title = ''Access Control with FHE'',
         output' = ''docs/access-control.md''\<rparr>),
      (''literature-review'',
       \<lparr>contract = ''contracts/LiteratureReviewSystem.sol'',
         test = ''test/LiteratureReviewSystem.ts'',
         description = ''This example demonstrates how to build a confidential literature awards platform using FHE, enabling encrypted submissions, confidential reviews, and fair winner selection.'',
         category = ''Advanced'',
         title = ''Literature Review System'',
         output' = ''docs/literature-review.md''\<rparr>),
      (''common-mistakes'',
       \<lparr>contract = ''contracts/antipatterns/CommonMistakes.sol'',
         test = ''test/antipatterns/CommonMistakes.ts'',
         description = ''This educational example shows common mistakes developers make when working with FHEVM and how to avoid them.'',
         category = ''Education'',
         title = ''Common Mistakes and Anti-Patterns'',
         output' = ''docs/common-mistakes.md''\<rparr>),
      (''handles-and-proofs'',
       \<lparr>contract = ''contracts/education/HandlesAndProofs.sol'',
         test = ''test/education/HandlesAndProofs.ts'',
         description = ''This guide explains how FHE handles work, what input proofs validate, and how symbolic execution ensures correctness.'',
         category = ''Education'',
         title = ''Handles, Input Proofs, and Symbolic Execution'',
         output' = ''docs/handles-and-proofs.md''\<rparr>),
      (''user-decrypt-multiple'',
       \<lparr>contract = ''contracts/decryption/UserDecryptMultipleValues.sol'',
         test = ''test/decryption/UserDecryptMultipleValues.ts'',
         description = ''This example demonstrates how users can decrypt multiple encrypted values with proper permission management.'',
         category = ''Decryption'',
         title = ''User Decrypt Multiple Values'',
         output' = ''docs/user-decrypt-multiple.md''\<rparr>),
      (''public-decrypt-multiple'',
       \<lparr>contract = ''contracts/decryption/PublicDecryptMultipleValues.sol'',
         test = ''test/decryption/PublicDecryptMultipleValues.ts'',
         description = ''This example shows public decryption for multiple values, useful for leaderboards and results.'',
         category = ''Decryption'',
         title = ''Public Decrypt Multiple Values'',
         output' = ''docs/public-decrypt-multiple.md''\<rparr>),
      (''confidential-erc20'',
       \<lparr>contract = ''contracts/openzeppelin/ConfidentialERC20.sol'',
         test = ''test/openzeppelin/ConfidentialERC20.ts'',
         description = ''This example demonstrates a confidential ERC20 token with encrypted balances and transfers, inspired by OpenZeppelin.'',
         category = ''OpenZeppelin'',
         title = ''Confidential ERC20 Token'',
         output' = ''docs/confidential-erc20.md''\<rparr>)]\<close>

text \<open>The source text of an example, or a placeholder when the file cannot be read.\<close>

definition readFileContent :: "filesystem \<Rightarrow> fpath \<Rightarrow> string \<Rightarrow> string" where
  "readFileContent fs cwd filePath =
     (case readFileSync fs cwd filePath of
        Inr content \<Rightarrow> decode_utf8 content
      | Inl e \<Rightarrow> ''File not found: '' @ filePath)"

text \<open>
  The pieces that \<^verbatim>\<open>generateDocumentation\<close> appends to \<^verbatim>\<open>doc\<close>, in order, as a
  function of the descriptor and of the two source texts.
\<close>

definition documentation_parts :: "DocsConfig \<Rightarrow> string \<Rightarrow> string \<Rightarrow> string list" where
  \<open>documentation_parts config contractContent testContent =
      [''# '', title config, ''\<newline>\<newline>'',
       ''**Category:** '', category config, ''\<newline>\<newline>'',
       ''## Overview\<newline>\<newline>'',
       description config, ''\<newline>\<newline>'',
       ''## Key Concepts\<newline>\<newline>'',
       ''### What is FHE (Fully Homomorphic Encryption)?\<newline>\<newline>'',
       ''FHE allows computation on encrypted data without decryption. This enables:\<newline>\<newline>'',
       ''- **Privacy:** Data remains encrypted throughout computation\<newline>'',
       ''- **Confidentiality:** Smart contract logic operates on encrypted values\<newline>'',
       ''- **Zero-Knowledge:** Proofs verify correct encryption binding\<newline>\<newline>'',
       ''### FHEVM Integration\<newline>\<newline>'',
       ''This example uses FHEVM from Zama to:\<newline>\<newline>'',
       ''- Encrypt user inputs with zero-knowledge proofs\<newline>'',
       ''- Perform operations on encrypted values\<newline>'',
       ''- Control access to encrypted data\<newline>'',
       ''- Decrypt results through relayers\<newline>\<newline>'',
       ''## Smart Contract\<newline>\<newline>'',
       ''### Contract Code\<newline>\<newline>'',
       ''```solidity\<newline>'',
       contractContent,
       ''\<newline>```\<newline>\<newline>'',
       ''## Test Examples\<newline>\<newline>'',
       ''### Test File\<newline>\<newline>'',
       ''```typescript\<newline>'',
       testContent,
       ''\<newline>```\<newline>\<newline>'',
       ''## Critical Patterns\<newline>\<newline>'',
       ''### '' @ [CHR 0xE2, CHR 0x9C, CHR 0x85] @ '' Correct: Grant Both Permissions\<newline>\<newline>'',
       ''```solidity\<newline>'',
       ''FHE.allowThis(encryptedValue);        // Contract permission\<newline>'',
       ''FHE.allow(encryptedValue, msg.sender); // User permission\<newline>'',
       ''```\<newline>\<newline>'',
       ''### '' @ [CHR 0xE2, CHR 0x9D, CHR 0x8C] @ '' Incorrect: Missing allowThis\<newline>\<newline>'',
       ''```solidity\<newline>'',
       ''FHE.allow(encryptedValue, msg.sender); // Missing allowThis - will fail!\<newline>'',
       ''```\<newline>\<newline>'',
       ''### '' @ [CHR 0xE2, CHR 0x9C, CHR 0x85] @ '' Correct: Match Encryption Signer\<newline>\<newline>'',
       ''```typescript\<newline>'',
       ''const enc = await fhevm.createEncryptedInput(contractAddr, alice.address)\<newline>'',
       ''    .add32(123).encrypt();\<newline>'',
       ''await contract.connect(alice).operate(enc.handles[0], enc.inputProof);\<newline>'',
       ''```\<newline>\<newline>'',
       ''### '' @ [CHR 0xE2, CHR 0x9D, CHR 0x8C] @ '' Incorrect: Mismatched Signer\<newline>\<newline>'',
       ''```typescript\<newline>'',
       ''const enc = await fhevm.createEncryptedInput(contractAddr, alice.address)\<newline>'',
       ''    .add32(123).encrypt();\<newline>'',
       ''await contract.connect(bob).operate(enc.handles[0], enc.inputProof); // Fails!\<newline>'',
       ''```\<newline>\<newline>'',
       ''## Running the Example\<newline>\<newline>'',
       ''### Installation\<newline>\<newline>'',
       ''```bash\<newline>'',
       ''npm install\<newline>'',
       ''```\<newline>\<newline>'',
       ''### Compilation\<newline>\<newline>'',
       ''```bash\<newline>'',
       ''npm run compile\<newline>'',
       ''```\<newline>\<newline>'',
       ''### Run Tests\<newline>\<newline>'',
       ''```bash\<newline>'',
       ''npm run test\<newline>'',
       ''```\<newline>\<newline>'',
       ''### Deploy to Sepolia\<newline>\<newline>'',
       ''```bash\<newline>'',
       ''npm run deploy:sepolia\<newline>'',
       ''```\<newline>\<newline>'',
       ''## Common Pitfalls\<newline>\<newline>'',
       ''### 1. Forgetting FHE.allowThis()\<newline>\<newline>'',
       ''Always grant contract permission before user permission:\<newline>'',
       ''```solidity\<newline>'',
       ''FHE.allowThis(encryptedValue);        // Contract permission first\<newline>'',
       ''FHE.allow(encryptedValue, msg.sender); // Then user permission\<newline>'',
       ''```\<newline>\<newline>'',
       ''### 2. Using Encrypted Values in View Functions\<newline>\<newline>'',
       ''View functions cannot work with encrypted values. They must return\<newline>'',
       ''plaintext or handles only:\<newline>'',
       ''```solidity\<newline>'',
       ''// '' @ [CHR 0xE2, CHR 0x9D, CHR 0x8C] @ '' WRONG - view function with encryption\<newline>'',
       ''function getValue() external view returns (euint32) { ... }\<newline>\<newline>'',
       ''// '' @ [CHR 0xE2, CHR 0x9C, CHR 0x85] @ '' CORRECT - view function returns handles\<newline>'',
       ''function getValue() external view returns (string memory) { ... }\<newline>'',
       ''```\<newline>\<newline>'',
       ''### 3. Mismatched Encryption Signers\<newline>\<newline>'',
       ''Ensure the encryption signer matches the caller:\<newline>'',
       ''```typescript\<newline>'',
       ''// Encrypt with user'' @ [CHR 0x27] @ ''s address\<newline>'',
       ''const enc = await fhevm.createEncryptedInput(contract.address, userAddress);\<newline>'',
       ''// Call with same user\<newline>'',
       ''await contract.connect(user).process(enc.handles[0], enc.inputProof);\<newline>'',
       ''```\<newline>\<newline>'',
       ''## Resources\<newline>\<newline>'',
       ''- [FHEVM Documentation](https://docs.zama.ai/fhevm)\<newline>'',
       ''- [Zama GitHub](https://github.com/zama-ai)\<newline>'',
       ''- [FHEVM Hardhat Template](https://github.com/zama-ai/fhevm-hardhat-template)\<newline>'',
       ''- [Zama Community](https://www.zama.ai/community)\<newline>\<newline>'',
       ''## License\<newline>\<newline>'',
       ''BSD-3-Clause-Clear\<newline>\<newline>'',
       ''---\<newline>\<newline>'',
       ''Built with FHEVM by Zama\<newline>'']\<close>

definition generateDocumentation ::
  "filesystem \<Rightarrow> fpath \<Rightarrow> string \<Rightarrow> DocsConfig \<Rightarrow> string" where
  "generateDocumentation fs cwd exampleName config =
     (let contractContent = readFileContent fs cwd (contract config);
          testContent = readFileContent fs cwd (test config)
      in concat (documentation_parts config contractContent testContent))"

text \<open>
  One line of the table of contents. The names come from \<^verbatim>\<open>Object.keys\<close>, so the
  lookup finds an own property; the other two cases are what the lookup would do on
  any other name (a falsy value is skipped, an inherited one has no \<^verbatim>\<open>output\<close>
  field to call \<^verbatim>\<open>replace\<close> on).
\<close>

definition summary_entry :: "string \<Rightarrow> js_error + string" where
  \<open>summary_entry exampleName =
     (case get_property EXAMPLES_CONFIG exampleName of
        Own config \<Rightarrow>
          (let docPath = replace_first ''.md'' [] (replace_first ''docs/'' [] (output' config))
           in Inr (''- ['' @ title config @ '']('' @ docPath @ ''.md)\<newline>''))
      | Undefined \<Rightarrow> Inr []
      | Inherited \<Rightarrow>
          Inl (TypeError (''Cannot read properties of undefined (reading '' @ [CHR 0x27] @
                 ''replace'' @ [CHR 0x27] @ '')'')))\<close>

fun summary_entries :: "string list \<Rightarrow> js_error + string" where
  "summary_entries [] = Inr []"
| "summary_entries (exampleName # rest) =
     (case summary_entry exampleName of
        Inl e \<Rightarrow> Inl e
      | Inr line \<Rightarrow> (case summary_entries rest of Inl e \<Rightarrow> Inl e | Inr lines \<Rightarrow> Inr (line @ lines)))"

definition summary_header :: string where
  \<open>summary_header = concat
    [''# FHEVM Examples Documentation\<newline>\<newline>'',
     ''## Table of Contents\<newline>\<newline>'']\<close>

definition summary_footer :: string where
  \<open>summary_footer = concat
    [''\<newline>## Overview\<newline>\<newline>'',
     ''This documentation provides comprehensive guides for FHEVM examples, covering:\<newline>\<newline>'',
     ''- FHE (Fully Homomorphic Encryption) concepts\<newline>'',
     ''- FHEVM integration patterns\<newline>'',
     ''- Practical smart contract examples\<newline>'',
     ''- Test implementations\<newline>'',
     ''- Common pitfalls and best practices\<newline>'']\<close>

definition generateSummary ::
  "fpath \<Rightarrow> string list \<Rightarrow> string \<Rightarrow> filesystem \<Rightarrow> js_error + filesystem" where
  "generateSummary cwd examples outputDir fs =
     (case summary_entries examples of
        Inl e \<Rightarrow> Inl e
      | Inr entries \<Rightarrow>
          writeFileSync cwd (path_join [outputDir, ''SUMMARY.md''])
            (summary_header @ entries @ summary_footer) fs)"

text \<open>The write of one example's document; the sources are read from the disk as it is
  at that moment.\<close>

definition write_documentation :: "fpath \<Rightarrow> string \<Rightarrow> string \<Rightarrow> DocsConfig \<Rightarrow> action" where
  "write_documentation cwd outputDir exampleName config =
     fs_call (\<lambda>fs. writeFileSync cwd (path_join [outputDir, output' config])
                      (generateDocumentation fs cwd exampleName config) fs)"

text \<open>The callback of \<^verbatim>\<open>Object.entries(EXAMPLES_CONFIG).forEach\<close> in \<^verbatim>\<open>main\<close>.\<close>

definition generate_entry :: "fpath \<Rightarrow> string \<Rightarrow> string \<times> DocsConfig \<Rightarrow> action" where
  "generate_entry cwd outputDir entry =
     (case entry of (name, config) \<Rightarrow>
        block
          [info (''Generating '' @ name @ ''...''),
           write_documentation cwd outputDir name config,
           success (''Generated '' @ output' config)])"

definition generate_all :: "fpath \<Rightarrow> string \<Rightarrow> (string \<times> DocsConfig) list \<Rightarrow> action" where
  "generate_all cwd outputDir entries = block (map (generate_entry cwd outputDir) entries)"

definition generate_docs_main :: "fpath \<Rightarrow> string list \<Rightarrow> action" where
  "generate_docs_main cwd args =
     (if length args = 0 then
        block
          ([log ''Available examples:'' Cyan] @
           map (\<lambda>name. log (''  - '' @ name) Reset) (object_keys EXAMPLES_CONFIG) @
           [error ''Please specify an example name or use --all''])
      else
        let exampleName = args ! 0;
            outputDir = ''docs''
        in block
          [when_fs (\<lambda>fs. \<not> existsSync fs cwd outputDir) (fs_call (mkdirSync cwd outputDir)),
           (if exampleName = ''--all'' then
              block
                [info ''Generating documentation for all examples...'',
                 generate_all cwd outputDir EXAMPLES_CONFIG,
                 fs_call (generateSummary cwd (object_keys EXAMPLES_CONFIG) outputDir)]
            else
              (case get_property EXAMPLES_CONFIG exampleName of
                 Undefined \<Rightarrow> error (''Unknown example: '' @ exampleName)
               | Inherited \<Rightarrow>
                   block
                     [info (''Generating documentation for '' @ exampleName @ ''...''),
                      throw path_argument_error]
               | Own config \<Rightarrow>
                   block
                     [info (''Generating documentation for '' @ exampleName @ ''...''),
                      write_documentation cwd outputDir exampleName config,
                      success (''Documentation generated: '' @ path_join [outputDir, output' config])])),
           log ([CHR 0x0A] @ ''Documentation generation completed!'') Green])"

section \<open>Notions used in the verification\<close>

text \<open>
  A plain path component is an ordinary name: not empty, not \<^verbatim>\<open>.\<close> or \<^verbatim>\<open>..\<close>, and
  without a slash. The components of the working directory are plain, and so are the
  segments of every path in the two registries.
\<close>

definition plain :: "string \<Rightarrow> bool" where
  "plain s = (s \<noteq> [] \<and> s \<noteq> ''.'' \<and> s \<noteq> ''..'' \<and> CHR ''/'' \<notin> set s)"

text \<open>A segment that \<^verbatim>\<open>normalizeString\<close> may leave on its stack (\<^verbatim>\<open>..\<close> included).\<close>

definition seg_ok :: "string \<Rightarrow> bool" where
  "seg_ok s = (s \<noteq> [] \<and> s \<noteq> ''.'' \<and> CHR ''/'' \<notin> set s)"

text \<open>Whether a file can be written at a path depends on the directories only.\<close>

definition writable :: "fpath set \<Rightarrow> fpath \<Rightarrow> bool" where
  "writable ds q = (q \<noteq> [] \<and> q \<notin> ds \<and> (butlast q = [] \<or> butlast q \<in> ds))"

text \<open>The directories that the two \<^verbatim>\<open>mkdirSync\<close> calls of the standalone generator make.\<close>

definition dirs_made :: "fpath \<Rightarrow> string \<Rightarrow> fpath set" where
  "dirs_made cwd outputDir =
     set (prefixes_of (resolve cwd (path_join [outputDir, ''contracts'']))) \<union>
     set (prefixes_of (resolve cwd (path_join [outputDir, ''test''])))"

text \<open>
  The registry entries are well formed: the segments of both paths are plain, the two
  base names differ, and neither is the name of a generated file.
\<close>

definition generated_names :: "string list" where
  "generated_names = [''README.md'', ''package.json'', ''hardhat.config.ts'', ''tsconfig.json'']"

definition well_formed_config :: "'a ExampleConfig_scheme \<Rightarrow> bool" where
  "well_formed_config c =
     (list_all plain (split_on CHR ''/'' (contract c)) \<and>
      list_all plain (split_on CHR ''/'' (test c)) \<and>
      basename (contract c) \<noteq> basename (test c) \<and>
      basename (contract c) \<notin> set generated_names \<and>
      basename (test c) \<notin> set generated_names)"

text \<open>The world after the two \<^verbatim>\<open>info\<close> lines that precede the \<^verbatim>\<open>try\<close> block.\<close>

definition announced :: "string \<Rightarrow> string \<Rightarrow> world \<Rightarrow> world" where
  "announced name outputDir w =
     snd (block [info (''Creating example: '' @ name), info (''Output directory: '' @ outputDir)] w)"

text \<open>The first six statements of the \<^verbatim>\<open>try\<close> block: the directories and the two copies.\<close>

definition copy_sources :: "fpath \<Rightarrow> ExampleConfig \<Rightarrow> string \<Rightarrow> action" where
  "copy_sources cwd exampleConfig outputDir =
     block
        [fs_call (mkdirSync cwd (path_join [outputDir, ''contracts''])),
         fs_call (mkdirSync cwd (path_join [outputDir, ''test''])),
         when_fs (\<lambda>fs. \<not> existsSync fs cwd (path_join [cwd_string cwd, contract exampleConfig]))
           (error (''Contract file not found: '' @ path_join [cwd_string cwd, contract exampleConfig])),
         fs_call (copyFileSync cwd (path_join [cwd_string cwd, contract exampleConfig])
           (path_join [outputDir, ''contracts'', basename (contract exampleConfig)])),
         when_fs (\<lambda>fs. \<not> existsSync fs cwd (path_join [cwd_string cwd, test exampleConfig]))
           (error (''Test file not found: '' @ path_join [cwd_string cwd, test exampleConfig])),
         fs_call (copyFileSync cwd (path_join [cwd_string cwd, test exampleConfig])
           (path_join [outputDir, ''test'', basename (test exampleConfig)]))]"

text \<open>How every line printed by \<^verbatim>\<open>error\<close> starts.\<close>

definition error_prefix :: string where
  "error_prefix = color_code Red @ [CHR 0xE2, CHR 0x9D, CHR 0x8C] @ '' Error: ''"

text \<open>
  A Hoare triple for actions, with one postcondition for normal completion and one for
  an exit or an exception.
\<close>

definition hoare ::
  "(world \<Rightarrow> bool) \<Rightarrow> action \<Rightarrow> (world \<Rightarrow> bool) \<Rightarrow> (signal \<Rightarrow> world \<Rightarrow> bool) \<Rightarrow> bool" where
  "hoare P a N X =
     (\<forall>w. P w \<longrightarrow> (case a w of (Done, w') \<Rightarrow> N w' | (Exit n, w') \<Rightarrow> X (Exit n) w'
                               | (Throw e, w') \<Rightarrow> X (Throw e) w'))"

definition stopped ::
  "(fpath \<rightharpoonup> string) \<Rightarrow> fpath set \<Rightarrow> string list \<Rightarrow> fpath \<Rightarrow> fpath \<Rightarrow> signal \<Rightarrow> world \<Rightarrow> bool" where
  "stopped m0 ds k0 src dst s w =
     ((files (disk w) = m0 \<or> (m0 src \<noteq> None \<and> files (disk w) = m0(dst := m0 src))) \<and>
      dirs (disk w) \<subseteq> ds \<and>
      (case s of
         Exit n \<Rightarrow> n = 1 \<and> (\<exists>m. console w = k0 @ [error_prefix @ m])
       | Throw e \<Rightarrow> console w = k0
       | Done \<Rightarrow> False))"

text \<open>Two small worlds for concrete runs: one holds the sources of \<^verbatim>\<open>fhe-add\<close>, one is
  an empty working directory.\<close>

definition sample_disk :: filesystem where
  "sample_disk =
     \<lparr>dirs = {[''repo''], [''repo'', ''contracts''], [''repo'', ''contracts'', ''basic''],
             [''repo'', ''test''], [''repo'', ''test'', ''basic'']},
      files = [[''repo'', ''contracts'', ''basic'', ''FHEAdd.sol''] \<mapsto> ''contract FHEAdd {}'',
               [''repo'', ''test'', ''basic'', ''FHEAdd.ts''] \<mapsto> ''describe()'']\<rparr>"

definition sample_world :: world where
  "sample_world = \<lparr>disk = sample_disk, console = []\<rparr>"

text \<open>A working directory that holds the contract of \<^verbatim>\<open>fhe-add\<close> but not its test.\<close>

definition contract_only_world :: world where
  "contract_only_world =
     \<lparr>disk = \<lparr>dirs = {[''repo''], [''repo'', ''contracts''], [''repo'', ''contracts'', ''basic'']},
              files = [[''repo'', ''contracts'', ''basic'', ''FHEAdd.sol''] \<mapsto> ''contract FHEAdd {}'']\<rparr>,
      console = []\<rparr>"

definition fhe_add_config :: ExampleConfig where
  "fhe_add_config =
     \<lparr>contract = ''contracts/basic/FHEAdd.sol'',
      test = ''test/basic/FHEAdd.ts'',
      description = ''Demonstrates FHE addition operations on encrypted values.'',
      category = ''Basic''\<rparr>"

definition empty_world :: world where
  "empty_world = \<lparr>disk = \<lparr>dirs = {[''repo'']}, files = Map.empty\<rparr>, console = []\<rparr>"

definition unknown_example_line :: "string \<Rightarrow> string" where
  "unknown_example_line name = error_prefix @ ''Unknown example: '' @ name @ color_code Reset"

text \<open>Where the document of an example is written.\<close>

definition doc_target :: "fpath \<Rightarrow> string \<Rightarrow> DocsConfig \<Rightarrow> fpath" where
  "doc_target cwd outputDir config = resolve cwd (path_join [outputDir, output' config])"

text \<open>
  The entries of the documentation registry are well formed: the segments of the three
  paths are plain, the output path starts with \<^verbatim>\<open>docs\<close>, and the source paths do not.
\<close>

definition well_formed_docs :: "DocsConfig \<Rightarrow> bool" where
  "well_formed_docs c =
     (list_all plain (split_on CHR ''/'' (contract c)) \<and>
      list_all plain (split_on CHR ''/'' (test c)) \<and>
      list_all plain (split_on CHR ''/'' (output' c)) \<and>
      hd (split_on CHR ''/'' (contract c)) \<noteq> ''docs'' \<and>
      hd (split_on CHR ''/'' (test c)) \<noteq> ''docs'' \<and>
      hd (split_on CHR ''/'' (output' c)) = ''docs'')"

text \<open>
  The part of a document that shows the two sources: each text stands between the
  fences of its own code block.
\<close>

definition source_sections :: "string \<Rightarrow> string \<Rightarrow> string" where
  \<open>source_sections contractContent testContent =
     concat
       [''## Smart Contract\<newline>\<newline>'',
        ''### Contract Code\<newline>\<newline>'',
        ''```solidity\<newline>'',
        contractContent,
        ''\<newline>```\<newline>\<newline>'',
        ''## Test Examples\<newline>\<newline>'',
        ''### Test File\<newline>\<newline>'',
        ''```typescript\<newline>'',
        testContent,
        ''\<newline>```\<newline>\<newline>'']\<close>

text \<open>The line of the table of contents for one registry entry.\<close>

definition summary_line :: "string \<times> DocsConfig \<Rightarrow> string" where
  \<open>summary_line entry =
     (case entry of (name, config) \<Rightarrow> ''- ['' @ title config @ '']('' @ name @ ''.md)\<newline>'')\<close>

text \<open>
  Two more worlds: in the first the directory \<^verbatim>\<open>docs/docs\<close> exists, in the second the
  place of the first document, \<^verbatim>\<open>docs/docs/fhe-add.md\<close>, is taken by a directory.
\<close>

definition docs_world :: world where
  "docs_world =
     \<lparr>disk = sample_disk\<lparr>dirs := dirs sample_disk \<union> {[''repo'', ''docs''], [''repo'', ''docs'', ''docs'']}\<rparr>,
      console = []\<rparr>"

definition blocked_world :: world where
  "blocked_world =
     \<lparr>disk = sample_disk\<lparr>dirs := dirs sample_disk \<union>
        {[''repo'', ''docs''], [''repo'', ''docs'', ''docs''],
         [''repo'', ''docs'', ''docs'', ''fhe-add.md'']}\<rparr>,
      console = []\<rparr>"

definition fhe_add_docs :: DocsConfig where
  "fhe_add_docs =
     \<lparr>contract = ''contracts/basic/FHEAdd.sol'',
      test = ''test/basic/FHEAdd.ts'',
      description = ''This example demonstrates how to perform addition on encrypted values using FHE.add().'',
      category = ''Basic'',
      title = ''FHE Addition Operations'',
      output' = ''docs/fhe-add.md''\<rparr>"

definition fhe_subtract_docs :: DocsConfig where
  "fhe_subtract_docs =
     \<lparr>contract = ''contracts/basic/FHESubtract.sol'',
      test = ''test/basic/FHESubtract.ts'',
      description = ''This example shows how to perform subtraction on encrypted values with underflow considerations.'',
      category = ''Basic'',
      title = ''FHE Subtraction Operations'',
      output' = ''docs/fhe-subtract.md''\<rparr>"

section \<open>Paths: resolution after normalisation\<close>

lemma split_on_nonempty: "split_on c xs \<noteq> []"
  by (induction xs) (auto split: list.splits)

lemma split_on_append: "split_on c (xs @ c # ys) = split_on c xs @ split_on c ys"
  by (induction xs) (auto split: list.splits simp: split_on_nonempty)

lemma split_on_single: "c \<notin> set s \<Longrightarrow> split_on c s = [s]"
  by (induction s) auto

lemma split_on_no_sep: "s \<in> set (split_on c xs) \<Longrightarrow> c \<notin> set s"
  by (induction xs arbitrary: s) (auto split: if_splits list.splits)

lemma split_on_join:
  "xs \<noteq> [] \<Longrightarrow> \<forall>x\<in>set xs. c \<notin> set x \<Longrightarrow> split_on c (join_with [c] xs) = xs"
proof (induction "[c]" xs rule: join_with.induct)
  case 1
  then show ?case by simp
next
  case (2 x)
  then show ?case by (simp add: split_on_single)
next
  case (3 x y ys)
  then show ?case by (simp add: split_on_append split_on_single)
qed

lemma norm_step_plain: "plain s \<Longrightarrow> norm_step b acc s = acc @ [s]"
  by (simp add: norm_step_def plain_def)

lemma foldl_norm_step_plain:
  "list_all plain segs \<Longrightarrow> foldl (norm_step b) acc segs = acc @ segs"
  by (induction segs arbitrary: acc) (simp_all add: norm_step_plain)

lemma plain_seg_ok: "plain s \<Longrightarrow> seg_ok s"
  by (simp add: plain_def seg_ok_def)

lemma seg_ok_plain: "seg_ok s \<Longrightarrow> s \<noteq> ''..'' \<Longrightarrow> plain s"
  by (simp add: plain_def seg_ok_def)

lemma norm_step_seg_ok:
  "list_all seg_ok acc \<Longrightarrow> CHR ''/'' \<notin> set s \<Longrightarrow> list_all seg_ok (norm_step b acc s)"
  by (auto simp: norm_step_def seg_ok_def list_all_iff dest: in_set_butlastD)

lemma foldl_norm_step_seg_ok:
  "list_all seg_ok acc \<Longrightarrow> \<forall>s\<in>set segs. CHR ''/'' \<notin> set s \<Longrightarrow>
   list_all seg_ok (foldl (norm_step b) acc segs)"
  by (induction segs arbitrary: acc) (simp_all add: norm_step_seg_ok)

lemma norm_step_abs_plain:
  "list_all plain acc \<Longrightarrow> CHR ''/'' \<notin> set s \<Longrightarrow> list_all plain (norm_step False acc s)"
  by (auto simp: norm_step_def plain_def list_all_iff dest: in_set_butlastD)

lemma foldl_norm_step_abs_plain:
  "list_all plain acc \<Longrightarrow> \<forall>s\<in>set segs. CHR ''/'' \<notin> set s \<Longrightarrow>
   list_all plain (foldl (norm_step False) acc segs)"
  by (induction segs arbitrary: acc) (simp_all add: norm_step_abs_plain)

lemma resolve_after_norm_step:
  assumes "list_all seg_ok A"
  shows "foldl (norm_step False) st (norm_step True A x) =
         norm_step False (foldl (norm_step False) st A) x"
proof (cases "x = ''..'' \<and> A \<noteq> [] \<and> last A \<noteq> ''..''")
  case True
  then obtain B y where A: "A = B @ [y]" and y: "y \<noteq> ''..''"
    by (metis append_butlast_last_id)
  from assms A have "seg_ok y" by simp
  with y have py: "plain y" by (simp add: seg_ok_plain)
  have "foldl (norm_step False) st A = foldl (norm_step False) st B @ [y]"
    by (simp add: A norm_step_plain[OF py])
  moreover have "norm_step True A x = B"
    using True A y by (simp add: norm_step_def)
  ultimately show ?thesis
    using True y by (simp add: norm_step_def)
next
  case False
  then show ?thesis
    by (auto simp: norm_step_def)
qed

lemma resolve_after_normalize_segments:
  "\<forall>s\<in>set segs. CHR ''/'' \<notin> set s \<Longrightarrow>
   foldl (norm_step False) st (foldl (norm_step True) [] segs) = foldl (norm_step False) st segs"
proof (induction segs rule: rev_induct)
  case Nil
  then show ?case by simp
next
  case (snoc x xs)
  have ok: "list_all seg_ok (foldl (norm_step True) [] xs)"
    using snoc.prems by (intro foldl_norm_step_seg_ok) simp_all
  show ?case
    using snoc by (simp add: resolve_after_norm_step[OF ok])
qed

lemma resolve_after_normalize_segments_abs:
  "\<forall>s\<in>set segs. CHR ''/'' \<notin> set s \<Longrightarrow>
   foldl (norm_step False) [] (foldl (norm_step False) [] segs) = foldl (norm_step False) [] segs"
proof -
  assume "\<forall>s\<in>set segs. CHR ''/'' \<notin> set s"
  then have "list_all plain (foldl (norm_step False) [] segs)"
    by (intro foldl_norm_step_abs_plain) simp_all
  then show ?thesis by (simp add: foldl_norm_step_plain)
qed

lemma join_with_Nil_iff: "\<forall>x\<in>set xs. x \<noteq> [] \<Longrightarrow> join_with sep xs = [] \<longleftrightarrow> xs = []"
  by (induction sep xs rule: join_with.induct) auto

lemma join_with_hd: "xs \<noteq> [] \<Longrightarrow> hd xs \<noteq> [] \<Longrightarrow> hd (join_with sep xs) = hd (hd xs)"
  by (induction sep xs rule: join_with.induct) auto

lemma split_on_trailing: "split_on c (xs @ [c]) = split_on c xs @ [[]]"
  using split_on_append[of c xs "[]"] by simp

lemma split_on_leading: "split_on c (c # xs) = [] # split_on c xs"
  by simp

lemma norm_step_empty [simp]: "norm_step b acc [] = acc"
  by (simp add: norm_step_def)

lemma norm_step_dot [simp]: "norm_step b acc ''.'' = acc"
  by (simp add: norm_step_def)

text \<open>The file system sees the same file whether or not the path string was normalised
  first.\<close>

lemma resolve_normalize: "resolve cwd (normalize p) = resolve cwd p"
proof (cases "p = []")
  case True
  then show ?thesis
    by (simp add: normalize_def resolve_def is_absolute_def)
next
  case False
  let ?segs = "split_on CHR ''/'' p"
  have nosl: "\<forall>s\<in>set ?segs. CHR ''/'' \<notin> set s"
    by (simp add: split_on_no_sep)
  show ?thesis
  proof (cases "is_absolute p")
    case True
    let ?A = "foldl (norm_step False) [] ?segs"
    have pl: "list_all plain ?A"
      using nosl by (intro foldl_norm_step_abs_plain) simp_all
    then have ne: "\<forall>x\<in>set ?A. x \<noteq> []" and ns: "\<forall>x\<in>set ?A. CHR ''/'' \<notin> set x"
      by (auto simp: list_all_iff plain_def)
    have rp: "resolve cwd p = ?A"
      using True by (simp add: resolve_def)
    show ?thesis
    proof (cases "?A = []")
      case True
      then have "normalize p = ''/''"
        using False \<open>is_absolute p\<close> by (simp add: normalize_def Let_def)
      then show ?thesis
        using True rp by (simp add: resolve_def is_absolute_def)
    next
      case nonempty: False
      then have body: "join_with ''/'' ?A \<noteq> []"
        using join_with_Nil_iff[OF ne] by simp
      have sp: "split_on CHR ''/'' (join_with ''/'' ?A) = ?A"
        using nonempty ns by (rule split_on_join)
      have idem: "foldl (norm_step False) [] ?A = ?A"
        using pl by (simp add: foldl_norm_step_plain)
      have "normalize p = ''/'' @ join_with ''/'' ?A @ (if last p = CHR ''/'' then ''/'' else [])"
        using False True body by (simp add: normalize_def Let_def)
      then have "resolve cwd (normalize p) = ?A"
        using sp idem split_on_trailing[of "CHR ''/''" "join_with ''/'' ?A"]
        by (simp add: resolve_def is_absolute_def)
      then show ?thesis using rp by simp
    qed
  next
    case rel: False
    let ?A = "foldl (norm_step True) [] ?segs"
    have ok: "list_all seg_ok ?A"
      using nosl by (intro foldl_norm_step_seg_ok) simp_all
    then have ne: "\<forall>x\<in>set ?A. x \<noteq> []" and ns: "\<forall>x\<in>set ?A. CHR ''/'' \<notin> set x"
      by (auto simp: list_all_iff seg_ok_def)
    have rp: "resolve cwd p = foldl (norm_step False) cwd ?A"
      using rel nosl by (simp add: resolve_def resolve_after_normalize_segments)
    show ?thesis
    proof (cases "?A = []")
      case True
      then have "normalize p = ''.'' \<or> normalize p = ''./''"
        using False rel by (simp add: normalize_def Let_def)
      then show ?thesis
        using True rp by (auto simp: resolve_def is_absolute_def)
    next
      case nonempty: False
      then have body: "join_with ''/'' ?A \<noteq> []"
        using join_with_Nil_iff[OF ne] by simp
      have sp: "split_on CHR ''/'' (join_with ''/'' ?A) = ?A"
        using nonempty ns by (rule split_on_join)
      have "hd ?A \<noteq> [] \<and> CHR ''/'' \<notin> set (hd ?A)"
        using nonempty ne ns by simp
      then have "hd (hd ?A) \<noteq> CHR ''/''"
        by (cases "hd ?A") auto
      then have notabs: "\<not> is_absolute (join_with ''/'' ?A @ t)" for t
        using body join_with_hd[of ?A "''/''"] nonempty ne
        by (simp add: is_absolute_def)
      have "normalize p = join_with ''/'' ?A @ (if last p = CHR ''/'' then ''/'' else [])"
        using False rel body by (simp add: normalize_def Let_def)
      then have "resolve cwd (normalize p) = foldl (norm_step False) cwd ?A"
        using sp notabs[of "''/''"] notabs[of "[]"] split_on_trailing[of "CHR ''/''" "join_with ''/'' ?A"]
        by (simp add: resolve_def)
      then show ?thesis using rp by simp
    qed
  qed
qed

lemma resolve_dot: "resolve cwd ''.'' = cwd"
  by (simp add: resolve_def is_absolute_def)

lemma resolve_path_join:
  "resolve cwd (path_join parts) =
     (if filter (\<lambda>a. a \<noteq> []) parts = [] then cwd
      else resolve cwd (join_with ''/'' (filter (\<lambda>a. a \<noteq> []) parts)))"
  by (simp add: path_join_def Let_def resolve_dot resolve_normalize)

lemma resolve_append:
  "a \<noteq> [] \<Longrightarrow>
   resolve cwd (a @ CHR ''/'' # b) = foldl (norm_step False) (resolve cwd a) (split_on CHR ''/'' b)"
  by (simp add: resolve_def is_absolute_def split_on_append)

lemma resolve_join_child:
  "outputDir \<noteq> [] \<Longrightarrow> plain n \<Longrightarrow>
   resolve cwd (path_join [outputDir, n]) = resolve cwd outputDir @ [n]"
  by (simp add: resolve_path_join resolve_append plain_def split_on_single norm_step_def)

lemma resolve_join_grandchild:
  assumes "outputDir \<noteq> []" "plain d" "plain n"
  shows "resolve cwd (path_join [outputDir, d, n]) = resolve cwd outputDir @ [d, n]"
proof -
  have "resolve cwd (path_join [outputDir, d, n]) = resolve cwd ((outputDir @ CHR ''/'' # d) @ CHR ''/'' # n)"
    using assms by (simp add: resolve_path_join plain_def)
  also have "\<dots> = foldl (norm_step False) (resolve cwd (outputDir @ CHR ''/'' # d)) [n]"
    using assms(3) by (subst resolve_append) (simp_all add: plain_def split_on_single)
  also have "\<dots> = resolve cwd outputDir @ [d, n]"
    using assms by (simp add: resolve_append plain_def split_on_single norm_step_def)
  finally show ?thesis .
qed

lemma resolve_cwd_string:
  assumes "list_all plain cwd"
  shows "resolve cwd' (cwd_string cwd) = cwd"
proof (cases "cwd = []")
  case True
  then show ?thesis by (simp add: cwd_string_def resolve_def is_absolute_def)
next
  case False
  have "\<forall>x\<in>set cwd. CHR ''/'' \<notin> set x"
    using assms by (auto simp: list_all_iff plain_def)
  then have "split_on CHR ''/'' (join_with ''/'' cwd) = cwd"
    using False by (intro split_on_join) simp_all
  then show ?thesis
    using assms by (simp add: cwd_string_def resolve_def is_absolute_def foldl_norm_step_plain)
qed

lemma resolve_join_cwd:
  assumes "list_all plain cwd" "list_all plain (split_on CHR ''/'' rel)"
  shows "resolve cwd (path_join [cwd_string cwd, rel]) = cwd @ split_on CHR ''/'' rel"
proof -
  have ne: "rel \<noteq> []" using assms(2) by (auto simp: plain_def)
  have c: "cwd_string cwd \<noteq> []" by (simp add: cwd_string_def)
  have "resolve cwd (path_join [cwd_string cwd, rel]) = resolve cwd (cwd_string cwd @ CHR ''/'' # rel)"
    using ne c by (simp add: resolve_path_join)
  also have "\<dots> = foldl (norm_step False) cwd (split_on CHR ''/'' rel)"
    using resolve_append[OF c, of cwd rel] resolve_cwd_string[OF assms(1), of cwd] by simp
  finally show ?thesis using assms(2) by (simp add: foldl_norm_step_plain)
qed

lemma resolve_relative:
  assumes "list_all plain (split_on CHR ''/'' rel)"
  shows "resolve cwd rel = cwd @ split_on CHR ''/'' rel"
proof -
  have "\<not> is_absolute rel"
    using assms by (cases rel) (auto simp: is_absolute_def plain_def)
  then show ?thesis using assms by (simp add: resolve_def foldl_norm_step_plain)
qed

lemma basename_plain:
  "list_all plain (split_on CHR ''/'' p) \<Longrightarrow> basename p = last (split_on CHR ''/'' p)"
proof -
  assume a: "list_all plain (split_on CHR ''/'' p)"
  then have "filter (\<lambda>a. a \<noteq> []) (split_on CHR ''/'' p) = split_on CHR ''/'' p"
    by (auto simp: list_all_iff plain_def intro!: filter_True)
  then show ?thesis by (simp add: basename_def split_on_nonempty)
qed

section \<open>Actions and file-system calls\<close>

lemma seq_Done_iff:
  "seq a b w = (Done, w'') \<longleftrightarrow> (\<exists>w'. a w = (Done, w') \<and> b w' = (Done, w''))"
  by (auto simp: seq_def split: prod.splits signal.splits)

lemma fs_call_Done_iff:
  "fs_call f w = (Done, w') \<longleftrightarrow> (\<exists>fs'. f (disk w) = Inr fs' \<and> w' = w\<lparr>disk := fs'\<rparr>)"
  by (auto simp: fs_call_def split: sum.splits)

lemma log_eq: "log m c w = (Done, w\<lparr>console := console w @ [color_code c @ m @ color_code Reset]\<rparr>)"
  by (simp add: log_def)

lemma error_not_Done: "error m w \<noteq> (Done, w')"
  by (simp add: error_def seq_def log_def)

lemma when_fs_error_Done_iff:
  "when_fs cond (error m) w = (Done, w') \<longleftrightarrow> (\<not> cond (disk w) \<and> w' = w)"
  by (auto simp: when_fs_def error_not_Done)

lemma mkdirSync_Inr:
  "mkdirSync cwd p fs = Inr fs' \<Longrightarrow>
   fs' = fs\<lparr>dirs := dirs fs \<union> set (prefixes_of (resolve cwd p))\<rparr> \<and>
   \<not> list_ex (is_file fs) (prefixes_of (resolve cwd p))"
  by (auto simp: mkdirSync_def Let_def split: if_splits)

lemma writeFileSync_Inr:
  "writeFileSync cwd p c fs = Inr fs' \<Longrightarrow>
   fs' = fs\<lparr>files := (files fs)(resolve cwd p \<mapsto> c)\<rparr> \<and> write_check fs (resolve cwd p) = None"
  by (auto simp: writeFileSync_def Let_def split: option.splits)

lemma copyFileSync_Inr:
  "copyFileSync cwd src dest fs = Inr fs' \<Longrightarrow>
   \<exists>c. files fs (resolve cwd src) = Some c \<and> \<not> is_dir fs (resolve cwd src) \<and>
       fs' = fs\<lparr>files := (files fs)(resolve cwd dest \<mapsto> c)\<rparr> \<and>
       write_check fs (resolve cwd dest) = None"
  by (auto simp: copyFileSync_def readFileSync_def Let_def split: option.splits sum.splits js_error.splits if_splits)

lemma write_check_None_iff: "write_check fs q = None \<longleftrightarrow> writable (dirs fs) q"
  by (auto simp: write_check_def writable_def is_dir_def is_file_def)

section \<open>The standalone generator: a successful run\<close>

text \<open>What a normal completion of the \<^verbatim>\<open>try\<close> block says about the disk.\<close>

lemma create_example_try_Done:
  assumes "create_example_try cwd name cfg outputDir w = (Done, w')"
  shows "\<exists>c t.
     files (disk w) (resolve cwd (path_join [cwd_string cwd, contract cfg])) = Some c \<and>
     ((files (disk w))(resolve cwd (path_join [outputDir, ''contracts'', basename (contract cfg)]) \<mapsto> c))
        (resolve cwd (path_join [cwd_string cwd, test cfg])) = Some t \<and>
     files (disk w') = (files (disk w))
       (resolve cwd (path_join [outputDir, ''contracts'', basename (contract cfg)]) \<mapsto> c,
        resolve cwd (path_join [outputDir, ''test'', basename (test cfg)]) \<mapsto> t,
        resolve cwd (path_join [outputDir, ''README.md'']) \<mapsto> readmeContent name cfg,
        resolve cwd (path_join [outputDir, ''package.json'']) \<mapsto> packageJson name,
        resolve cwd (path_join [outputDir, ''hardhat.config.ts'']) \<mapsto> configContent,
        resolve cwd (path_join [outputDir, ''tsconfig.json'']) \<mapsto> tsConfig) \<and>
     dirs (disk w') = dirs (disk w) \<union> dirs_made cwd outputDir \<and>
     \<not> is_dir (disk w') (resolve cwd (path_join [cwd_string cwd, contract cfg])) \<and>
     \<not> is_dir (disk w') (resolve cwd (path_join [cwd_string cwd, test cfg])) \<and>
     writable (dirs (disk w')) (resolve cwd (path_join [outputDir, ''contracts'', basename (contract cfg)])) \<and>
     writable (dirs (disk w')) (resolve cwd (path_join [outputDir, ''test'', basename (test cfg)])) \<and>
     writable (dirs (disk w')) (resolve cwd (path_join [outputDir, ''README.md''])) \<and>
     writable (dirs (disk w')) (resolve cwd (path_join [outputDir, ''package.json''])) \<and>
     writable (dirs (disk w')) (resolve cwd (path_join [outputDir, ''hardhat.config.ts''])) \<and>
     writable (dirs (disk w')) (resolve cwd (path_join [outputDir, ''tsconfig.json'']))"
  using assms
  unfolding create_example_try_def Let_def block.simps success_def
    generateReadme_def generatePackageJson_def generateHardhatConfig_def generateTsConfig_def
  apply (simp only: seq_Done_iff fs_call_Done_iff when_fs_error_Done_iff log_eq skip_def)
  apply (elim exE conjE)
  apply (drule mkdirSync_Inr copyFileSync_Inr writeFileSync_Inr)+
  apply (elim exE conjE)
  apply (clarsimp simp: write_check_None_iff dirs_made_def is_dir_def Un_assoc)
  done

lemma EXAMPLES_MAP_well_formed: "list_all (\<lambda>(name, c). well_formed_config c) EXAMPLES_MAP"
  by (simp add: EXAMPLES_MAP_def well_formed_config_def plain_def basename_def generated_names_def)

lemma registered_well_formed:
  "map_of EXAMPLES_MAP name = Some cfg \<Longrightarrow> well_formed_config cfg"
  using EXAMPLES_MAP_well_formed by (auto simp: list_all_iff dest!: map_of_SomeD)

lemma prefixes_of_self: "q \<noteq> [] \<Longrightarrow> q \<in> set (prefixes_of q)"
  by (induction q) auto

lemma mkdirSync_again:
  assumes "set (prefixes_of (resolve cwd p)) \<subseteq> dirs F"
  shows "mkdirSync cwd p F = Inr F"
proof -
  have 1: "\<not> list_ex (is_file F) (prefixes_of (resolve cwd p))"
    using assms by (auto simp: list_ex_iff is_file_def is_dir_def)
  have 2: "\<not> is_file F (resolve cwd p)"
    using assms prefixes_of_self[of "resolve cwd p"] by (cases "resolve cwd p = []") (auto simp: is_file_def is_dir_def)
  have 3: "dirs F \<union> set (prefixes_of (resolve cwd p)) = dirs F"
    using assms by auto
  show ?thesis by (simp add: mkdirSync_def Let_def 1 2 3)
qed

lemma writeFileSync_again:
  "writable (dirs F) (resolve cwd p) \<Longrightarrow> files F (resolve cwd p) = Some c \<Longrightarrow>
   writeFileSync cwd p c F = Inr F"
  by (simp add: writeFileSync_def Let_def write_check_None_iff[symmetric] map_upd_triv)

lemma copyFileSync_again:
  "files F (resolve cwd src) = Some c \<Longrightarrow> \<not> is_dir F (resolve cwd src) \<Longrightarrow>
   writable (dirs F) (resolve cwd dest) \<Longrightarrow> files F (resolve cwd dest) = Some c \<Longrightarrow>
   copyFileSync cwd src dest F = Inr F"
  by (simp add: copyFileSync_def readFileSync_def Let_def write_check_None_iff[symmetric] map_upd_triv)

lemma existsSync_file:
  "files F (resolve cwd src) = Some c \<Longrightarrow> existsSync F cwd src"
  by (auto simp: existsSync_def is_file_def)

lemma basename_is_plain:
  "list_all plain (split_on CHR ''/'' p) \<Longrightarrow> plain (basename p)"
  using split_on_nonempty[of "CHR ''/''" p]
  by (simp add: basename_plain list_all_iff)

lemma plain_generated [simp]:
  "plain ''README.md''" "plain ''package.json''" "plain ''hardhat.config.ts''"
  "plain ''tsconfig.json''" "plain ''contracts''" "plain ''test''"
  by (simp_all add: plain_def)

lemma source_resolved:
  assumes "list_all plain cwd" "list_all plain (split_on CHR ''/'' rel)"
  shows "resolve cwd (path_join [cwd_string cwd, rel]) = cwd @ split_on CHR ''/'' rel"
    and "last (resolve cwd (path_join [cwd_string cwd, rel])) = basename rel"
  using assms split_on_nonempty[of "CHR ''/''" rel]
  by (simp_all add: resolve_join_cwd basename_plain)

lemma output_dir_arg_nonempty: "output_dir_arg args \<noteq> []"
  by (simp add: output_dir_arg_def)

lemma info_eq:
  "info m w = (Done, w\<lparr>console := console w @
     [color_code Blue @ ([CHR 0xE2, CHR 0x84, CHR 0xB9, CHR 0xEF, CHR 0xB8, CHR 0x8F] @ ''  '' @ m) @ color_code Reset]\<rparr>)"
  by (simp add: info_def log_def)

lemma error_eq:
  "error m w = (Exit 1, w\<lparr>console := console w @
     [color_code Red @ ([CHR 0xE2, CHR 0x9D, CHR 0x8C] @ '' Error: '' @ m) @ color_code Reset]\<rparr>)"
  by (simp add: error_def log_def seq_def)

lemma try_catch_create_Done_iff:
  "try_catch a create_example_catch w = (Done, w') \<longleftrightarrow> a w = (Done, w')"
  by (auto simp: try_catch_def create_example_catch_def error_eq split: prod.splits signal.splits)

lemma disk_announced [simp]: "disk (announced name outputDir w) = disk w"
  by (simp add: announced_def seq_def info_eq skip_def)

lemma main_registered:
  assumes "map_of EXAMPLES_MAP name = Some cfg"
  shows "create_fhevm_example_main cwd (name # rest) w =
         try_catch (create_example_try cwd name cfg (output_dir_arg (name # rest))) create_example_catch
           (announced name (output_dir_arg (name # rest)) w)"
  using assms
  by (simp add: create_fhevm_example_main_def get_property_def Let_def seq_def info_eq skip_def
      announced_def split: prod.splits signal.splits)

lemma destinations_resolved:
  assumes "well_formed_config cfg" "outputDir \<noteq> []"
  shows "resolve cwd (path_join [outputDir, ''contracts'', basename (contract cfg)]) =
           resolve cwd outputDir @ [''contracts'', basename (contract cfg)]"
    and "resolve cwd (path_join [outputDir, ''test'', basename (test cfg)]) =
           resolve cwd outputDir @ [''test'', basename (test cfg)]"
    and "resolve cwd (path_join [outputDir, ''README.md'']) = resolve cwd outputDir @ [''README.md'']"
    and "resolve cwd (path_join [outputDir, ''package.json'']) = resolve cwd outputDir @ [''package.json'']"
    and "resolve cwd (path_join [outputDir, ''hardhat.config.ts'']) = resolve cwd outputDir @ [''hardhat.config.ts'']"
    and "resolve cwd (path_join [outputDir, ''tsconfig.json'']) = resolve cwd outputDir @ [''tsconfig.json'']"
  using assms
  by (simp_all add: well_formed_config_def resolve_join_grandchild resolve_join_child basename_is_plain)

lemma last_neq: "last xs \<noteq> last ys \<Longrightarrow> xs \<noteq> ys"
  by auto

lemma registered_run_Done:
  assumes reg: "map_of EXAMPLES_MAP name = Some cfg"
    and run: "fst (create_fhevm_example_main cwd (name # rest) w) = Done"
  shows "create_example_try cwd name cfg (output_dir_arg (name # rest))
           (announced name (output_dir_arg (name # rest)) w) =
             (Done, snd (create_fhevm_example_main cwd (name # rest) w))"
proof -
  let ?r = "create_fhevm_example_main cwd (name # rest) w"
  have "?r = (Done, snd ?r)"
    using run by (simp add: prod_eq_iff)
  then show ?thesis
    unfolding main_registered[OF reg] try_catch_create_Done_iff .
qed

text \<open>
  C9. After a successful run for a registered example, the file
  \<^verbatim>\<open>outputDir/contracts/<basename of the contract path>\<close> holds exactly the bytes of the
  contract source, and \<^verbatim>\<open>outputDir/test/<basename of the test path>\<close> exactly the bytes
  of the test source; both sources existed.
\<close>

theorem copy_fidelity:
  assumes reg: "map_of EXAMPLES_MAP exampleName = Some exampleConfig"
    and cwd: "list_all plain cwd"
    and run: "fst (create_fhevm_example_main cwd (exampleName # rest) w) = Done"
  shows "files (disk (snd (create_fhevm_example_main cwd (exampleName # rest) w)))
           (resolve cwd (path_join [output_dir_arg (exampleName # rest), ''contracts'',
              basename (contract exampleConfig)])) =
         files (disk w) (resolve cwd (path_join [cwd_string cwd, contract exampleConfig]))
       \<and> files (disk w) (resolve cwd (path_join [cwd_string cwd, contract exampleConfig])) \<noteq> None
       \<and> files (disk (snd (create_fhevm_example_main cwd (exampleName # rest) w)))
           (resolve cwd (path_join [output_dir_arg (exampleName # rest), ''test'',
              basename (test exampleConfig)])) =
         files (disk w) (resolve cwd (path_join [cwd_string cwd, test exampleConfig]))
       \<and> files (disk w) (resolve cwd (path_join [cwd_string cwd, test exampleConfig])) \<noteq> None"
proof -
  let ?O = "output_dir_arg (exampleName # rest)"
  let ?w' = "snd (create_fhevm_example_main cwd (exampleName # rest) w)"
  have wf: "well_formed_config exampleConfig"
    using reg by (rule registered_well_formed)
  note tr = registered_run_Done[OF reg run]
  note d = destinations_resolved[OF wf output_dir_arg_nonempty, of cwd "exampleName # rest"]
  have lc: "last (resolve cwd (path_join [cwd_string cwd, contract exampleConfig])) = basename (contract exampleConfig)"
    and lt: "last (resolve cwd (path_join [cwd_string cwd, test exampleConfig])) = basename (test exampleConfig)"
    using wf source_resolved(2)[OF cwd] by (simp_all add: well_formed_config_def)
  have neq: "resolve cwd (path_join [cwd_string cwd, test exampleConfig]) \<noteq>
             resolve cwd ?O @ [''contracts'', basename (contract exampleConfig)]"
  proof
    assume "resolve cwd (path_join [cwd_string cwd, test exampleConfig]) =
             resolve cwd ?O @ [''contracts'', basename (contract exampleConfig)]"
    then have "last (resolve cwd (path_join [cwd_string cwd, test exampleConfig])) =
               basename (contract exampleConfig)"
      by simp
    then show False
      using wf lt by (simp add: well_formed_config_def)
  qed
  from create_example_try_Done[OF tr] obtain c t where
    c: "files (disk w) (resolve cwd (path_join [cwd_string cwd, contract exampleConfig])) = Some c"
    and t: "((files (disk w))(resolve cwd ?O @ [''contracts'', basename (contract exampleConfig)] \<mapsto> c))
        (resolve cwd (path_join [cwd_string cwd, test exampleConfig])) = Some t"
    and f: "files (disk ?w') = (files (disk w))
       (resolve cwd ?O @ [''contracts'', basename (contract exampleConfig)] \<mapsto> c,
        resolve cwd ?O @ [''test'', basename (test exampleConfig)] \<mapsto> t,
        resolve cwd ?O @ [''README.md''] \<mapsto> readmeContent exampleName exampleConfig,
        resolve cwd ?O @ [''package.json''] \<mapsto> packageJson exampleName,
        resolve cwd ?O @ [''hardhat.config.ts''] \<mapsto> configContent,
        resolve cwd ?O @ [''tsconfig.json''] \<mapsto> tsConfig)"
    unfolding d disk_announced by blast
  from t neq have t': "files (disk w) (resolve cwd (path_join [cwd_string cwd, test exampleConfig])) = Some t"
    by simp
  show ?thesis
    unfolding d f using c t' by simp
qed

lemma fhe_add_registered: "map_of EXAMPLES_MAP ''fhe-add'' = Some fhe_add_config"
  by (simp add: EXAMPLES_MAP_def fhe_add_config_def)

lemma repo_plain: "list_all plain [''repo'']"
  by (simp add: plain_def)

lemma sample_run_Done:
  "fst (create_fhevm_example_main [''repo''] [''fhe-add'', ''out''] sample_world) = Done"
  by code_simp

lemma sample_paths:
  "resolve [''repo''] (path_join [output_dir_arg [''fhe-add'', ''out''], ''contracts'', basename (contract fhe_add_config)])
     = [''repo'', ''out'', ''contracts'', ''FHEAdd.sol'']"
  "resolve [''repo''] (path_join [output_dir_arg [''fhe-add'', ''out''], ''test'', basename (test fhe_add_config)])
     = [''repo'', ''out'', ''test'', ''FHEAdd.ts'']"
  "resolve [''repo''] (path_join [cwd_string [''repo''], contract fhe_add_config])
     = [''repo'', ''contracts'', ''basic'', ''FHEAdd.sol'']"
  "resolve [''repo''] (path_join [cwd_string [''repo''], test fhe_add_config])
     = [''repo'', ''test'', ''basic'', ''FHEAdd.ts'']"
  "resolve [''repo''] (path_join [output_dir_arg [''fhe-add'', ''out''], ''README.md'']) = [''repo'', ''out'', ''README.md'']"
  "resolve [''repo''] (path_join [output_dir_arg [''fhe-add'', ''out''], ''package.json'']) = [''repo'', ''out'', ''package.json'']"
  "resolve [''repo''] (path_join [output_dir_arg [''fhe-add'', ''out''], ''hardhat.config.ts'']) = [''repo'', ''out'', ''hardhat.config.ts'']"
  "resolve [''repo''] (path_join [output_dir_arg [''fhe-add'', ''out''], ''tsconfig.json'']) = [''repo'', ''out'', ''tsconfig.json'']"
  by code_simp+

text \<open>C9, witness: the run for \<^verbatim>\<open>fhe-add\<close> into \<^verbatim>\<open>out\<close> on the sample disk.\<close>

theorem copy_fidelity_witness:
  "map_of EXAMPLES_MAP ''fhe-add'' = Some fhe_add_config \<and> list_all plain [''repo''] \<and>
   fst (create_fhevm_example_main [''repo''] [''fhe-add'', ''out''] sample_world) = Done \<and>
   files (disk (snd (create_fhevm_example_main [''repo''] [''fhe-add'', ''out''] sample_world)))
     [''repo'', ''out'', ''contracts'', ''FHEAdd.sol''] = Some ''contract FHEAdd {}'' \<and>
   files (disk (snd (create_fhevm_example_main [''repo''] [''fhe-add'', ''out''] sample_world)))
     [''repo'', ''out'', ''test'', ''FHEAdd.ts''] = Some ''describe()''"
  using copy_fidelity[OF fhe_add_registered repo_plain sample_run_Done]
    fhe_add_registered repo_plain sample_run_Done
  by (simp add: sample_paths sample_world_def sample_disk_def)

lemma create_example_try_again:
  assumes dm: "dirs_made cwd outputDir \<subseteq> dirs (disk w)"
    and c: "files (disk w) (resolve cwd (path_join [cwd_string cwd, contract cfg])) = Some c"
           "\<not> is_dir (disk w) (resolve cwd (path_join [cwd_string cwd, contract cfg]))"
           "writable (dirs (disk w)) (resolve cwd (path_join [outputDir, ''contracts'', basename (contract cfg)]))"
           "files (disk w) (resolve cwd (path_join [outputDir, ''contracts'', basename (contract cfg)])) = Some c"
    and t: "files (disk w) (resolve cwd (path_join [cwd_string cwd, test cfg])) = Some t"
           "\<not> is_dir (disk w) (resolve cwd (path_join [cwd_string cwd, test cfg]))"
           "writable (dirs (disk w)) (resolve cwd (path_join [outputDir, ''test'', basename (test cfg)]))"
           "files (disk w) (resolve cwd (path_join [outputDir, ''test'', basename (test cfg)])) = Some t"
    and g: "writable (dirs (disk w)) (resolve cwd (path_join [outputDir, ''README.md'']))"
           "files (disk w) (resolve cwd (path_join [outputDir, ''README.md''])) = Some (readmeContent name cfg)"
           "writable (dirs (disk w)) (resolve cwd (path_join [outputDir, ''package.json'']))"
           "files (disk w) (resolve cwd (path_join [outputDir, ''package.json''])) = Some (packageJson name)"
           "writable (dirs (disk w)) (resolve cwd (path_join [outputDir, ''hardhat.config.ts'']))"
           "files (disk w) (resolve cwd (path_join [outputDir, ''hardhat.config.ts''])) = Some configContent"
           "writable (dirs (disk w)) (resolve cwd (path_join [outputDir, ''tsconfig.json'']))"
           "files (disk w) (resolve cwd (path_join [outputDir, ''tsconfig.json''])) = Some tsConfig"
  shows "fst (create_example_try cwd name cfg outputDir w) = Done \<and>
         disk (snd (create_example_try cwd name cfg outputDir w)) = disk w"
proof -
  have m1: "mkdirSync cwd (path_join [outputDir, ''contracts'']) (disk w) = Inr (disk w)"
    and m2: "mkdirSync cwd (path_join [outputDir, ''test'']) (disk w) = Inr (disk w)"
    using dm by (simp_all add: dirs_made_def mkdirSync_again)
  have e1: "existsSync (disk w) cwd (path_join [cwd_string cwd, contract cfg])"
    and e2: "existsSync (disk w) cwd (path_join [cwd_string cwd, test cfg])"
    using c(1) t(1) by (simp_all add: existsSync_file)
  have c1: "copyFileSync cwd (path_join [cwd_string cwd, contract cfg])
              (path_join [outputDir, ''contracts'', basename (contract cfg)]) (disk w) = Inr (disk w)"
    using c by (rule copyFileSync_again)
  have c2: "copyFileSync cwd (path_join [cwd_string cwd, test cfg])
              (path_join [outputDir, ''test'', basename (test cfg)]) (disk w) = Inr (disk w)"
    using t by (rule copyFileSync_again)
  have g1: "generateReadme cwd name cfg outputDir (disk w) = Inr (disk w)"
    and g2: "generatePackageJson cwd name outputDir (disk w) = Inr (disk w)"
    and g3: "generateHardhatConfig cwd outputDir (disk w) = Inr (disk w)"
    and g4: "generateTsConfig cwd outputDir (disk w) = Inr (disk w)"
    using g by (simp_all add: generateReadme_def generatePackageJson_def generateHardhatConfig_def
        generateTsConfig_def writeFileSync_again)
  show ?thesis
    by (simp add: create_example_try_def Let_def seq_def fs_call_def when_fs_def log_def
        success_def skip_def m1 m2 e1 e2 c1 c2 g1 g2 g3 g4)
qed

lemma try_catch_Done_fst:
  "fst (a w) = Done \<Longrightarrow> try_catch a h w = a w"
  by (cases "a w") (simp add: try_catch_def)

lemma neq_by_last: "last xs \<noteq> y \<Longrightarrow> xs \<noteq> ys @ [y]"
  by auto

text \<open>
  C8. After a successful run for a registered example, a second run with the same
  arguments succeeds too and leaves the disk exactly as the first run left it. The four
  generated files hold texts that depend on the example name and its descriptor only.
\<close>

theorem regeneration_idempotent:
  assumes reg: "map_of EXAMPLES_MAP exampleName = Some exampleConfig"
    and cwd: "list_all plain cwd"
    and run: "fst (create_fhevm_example_main cwd (exampleName # rest) w) = Done"
  shows "fst (create_fhevm_example_main cwd (exampleName # rest)
                (snd (create_fhevm_example_main cwd (exampleName # rest) w))) = Done
       \<and> disk (snd (create_fhevm_example_main cwd (exampleName # rest)
                (snd (create_fhevm_example_main cwd (exampleName # rest) w)))) =
           disk (snd (create_fhevm_example_main cwd (exampleName # rest) w))
       \<and> files (disk (snd (create_fhevm_example_main cwd (exampleName # rest) w)))
             (resolve cwd (path_join [output_dir_arg (exampleName # rest), ''README.md''])) =
           Some (readmeContent exampleName exampleConfig)
       \<and> files (disk (snd (create_fhevm_example_main cwd (exampleName # rest) w)))
             (resolve cwd (path_join [output_dir_arg (exampleName # rest), ''package.json''])) =
           Some (packageJson exampleName)
       \<and> files (disk (snd (create_fhevm_example_main cwd (exampleName # rest) w)))
             (resolve cwd (path_join [output_dir_arg (exampleName # rest), ''hardhat.config.ts''])) =
           Some configContent
       \<and> files (disk (snd (create_fhevm_example_main cwd (exampleName # rest) w)))
             (resolve cwd (path_join [output_dir_arg (exampleName # rest), ''tsconfig.json''])) =
           Some tsConfig"
proof -
  let ?O = "output_dir_arg (exampleName # rest)"
  let ?w1 = "snd (create_fhevm_example_main cwd (exampleName # rest) w)"
  let ?SC = "resolve cwd (path_join [cwd_string cwd, contract exampleConfig])"
  let ?ST = "resolve cwd (path_join [cwd_string cwd, test exampleConfig])"
  let ?bc = "basename (contract exampleConfig)"
  let ?bt = "basename (test exampleConfig)"
  have wf: "well_formed_config exampleConfig"
    using reg by (rule registered_well_formed)
  note tr = registered_run_Done[OF reg run]
  note d = destinations_resolved[OF wf output_dir_arg_nonempty, of cwd "exampleName # rest"]
  have lc: "last ?SC = ?bc" and lt: "last ?ST = ?bt"
    using wf source_resolved(2)[OF cwd] by (simp_all add: well_formed_config_def)
  have names: "?bc \<noteq> ?bt" "?bc \<noteq> ''README.md''" "?bc \<noteq> ''package.json''"
    "?bc \<noteq> ''hardhat.config.ts''" "?bc \<noteq> ''tsconfig.json''"
    "?bt \<noteq> ''README.md''" "?bt \<noteq> ''package.json''"
    "?bt \<noteq> ''hardhat.config.ts''" "?bt \<noteq> ''tsconfig.json''"
    using wf by (simp_all add: well_formed_config_def generated_names_def)
  have sc: "?SC \<noteq> resolve cwd ?O @ [''test'', ?bt]" "?SC \<noteq> resolve cwd ?O @ [''README.md'']"
    "?SC \<noteq> resolve cwd ?O @ [''package.json'']" "?SC \<noteq> resolve cwd ?O @ [''hardhat.config.ts'']"
    "?SC \<noteq> resolve cwd ?O @ [''tsconfig.json'']"
    using neq_by_last[of ?SC _ "resolve cwd ?O @ [''test'']"] neq_by_last[of ?SC _ "resolve cwd ?O"]
      lc names by simp_all
  have st: "?ST \<noteq> resolve cwd ?O @ [''contracts'', ?bc]" "?ST \<noteq> resolve cwd ?O @ [''README.md'']"
    "?ST \<noteq> resolve cwd ?O @ [''package.json'']" "?ST \<noteq> resolve cwd ?O @ [''hardhat.config.ts'']"
    "?ST \<noteq> resolve cwd ?O @ [''tsconfig.json'']"
    using neq_by_last[of ?ST _ "resolve cwd ?O @ [''contracts'']"] neq_by_last[of ?ST _ "resolve cwd ?O"]
      lt names by simp_all
  from create_example_try_Done[OF tr] obtain c t where
    c: "files (disk w) ?SC = Some c"
    and t: "((files (disk w))(resolve cwd ?O @ [''contracts'', ?bc] \<mapsto> c)) ?ST = Some t"
    and f: "files (disk ?w1) = (files (disk w))
       (resolve cwd ?O @ [''contracts'', ?bc] \<mapsto> c,
        resolve cwd ?O @ [''test'', ?bt] \<mapsto> t,
        resolve cwd ?O @ [''README.md''] \<mapsto> readmeContent exampleName exampleConfig,
        resolve cwd ?O @ [''package.json''] \<mapsto> packageJson exampleName,
        resolve cwd ?O @ [''hardhat.config.ts''] \<mapsto> configContent,
        resolve cwd ?O @ [''tsconfig.json''] \<mapsto> tsConfig)"
    and dd: "dirs (disk ?w1) = dirs (disk w) \<union> dirs_made cwd ?O"
    and nd: "\<not> is_dir (disk ?w1) ?SC" "\<not> is_dir (disk ?w1) ?ST"
    and wr: "writable (dirs (disk ?w1)) (resolve cwd ?O @ [''contracts'', ?bc])"
      "writable (dirs (disk ?w1)) (resolve cwd ?O @ [''test'', ?bt])"
      "writable (dirs (disk ?w1)) (resolve cwd ?O @ [''README.md''])"
      "writable (dirs (disk ?w1)) (resolve cwd ?O @ [''package.json''])"
      "writable (dirs (disk ?w1)) (resolve cwd ?O @ [''hardhat.config.ts''])"
      "writable (dirs (disk ?w1)) (resolve cwd ?O @ [''tsconfig.json''])"
    unfolding d disk_announced by blast
  from t st(1) have t': "files (disk w) ?ST = Some t"
    by simp
  have fc: "files (disk ?w1) ?SC = Some c"
    unfolding f using c sc by simp
  have ft: "files (disk ?w1) ?ST = Some t"
    unfolding f using t' st by simp
  have fd: "files (disk ?w1) (resolve cwd ?O @ [''contracts'', ?bc]) = Some c"
    "files (disk ?w1) (resolve cwd ?O @ [''test'', ?bt]) = Some t"
    "files (disk ?w1) (resolve cwd ?O @ [''README.md'']) = Some (readmeContent exampleName exampleConfig)"
    "files (disk ?w1) (resolve cwd ?O @ [''package.json'']) = Some (packageJson exampleName)"
    "files (disk ?w1) (resolve cwd ?O @ [''hardhat.config.ts'']) = Some configContent"
    "files (disk ?w1) (resolve cwd ?O @ [''tsconfig.json'']) = Some tsConfig"
    unfolding f using names by simp_all
  let ?w2 = "announced exampleName ?O ?w1"
  have again: "fst (create_example_try cwd exampleName exampleConfig ?O ?w2) = Done \<and>
         disk (snd (create_example_try cwd exampleName exampleConfig ?O ?w2)) = disk ?w2"
  proof (rule create_example_try_again[where c = c and t = t])
    show "dirs_made cwd ?O \<subseteq> dirs (disk ?w2)"
      using dd by simp
  qed (simp_all add: d fc ft fd nd wr)
  have second: "create_fhevm_example_main cwd (exampleName # rest) ?w1 =
                create_example_try cwd exampleName exampleConfig ?O ?w2"
    using main_registered[OF reg, of cwd rest ?w1] again by (simp add: try_catch_Done_fst)
  show ?thesis
    unfolding second using again fd by (simp add: d)
qed

text \<open>C8, witness: two runs for \<^verbatim>\<open>fhe-add\<close> into \<^verbatim>\<open>out\<close> on the sample disk.\<close>

theorem regeneration_idempotent_witness:
  "map_of EXAMPLES_MAP ''fhe-add'' = Some fhe_add_config \<and> list_all plain [''repo''] \<and>
   fst (create_fhevm_example_main [''repo''] [''fhe-add'', ''out''] sample_world) = Done \<and>
   fst (create_fhevm_example_main [''repo''] [''fhe-add'', ''out'']
          (snd (create_fhevm_example_main [''repo''] [''fhe-add'', ''out''] sample_world))) = Done \<and>
   disk (snd (create_fhevm_example_main [''repo''] [''fhe-add'', ''out'']
          (snd (create_fhevm_example_main [''repo''] [''fhe-add'', ''out''] sample_world)))) =
   disk (snd (create_fhevm_example_main [''repo''] [''fhe-add'', ''out''] sample_world)) \<and>
   files (disk (snd (create_fhevm_example_main [''repo''] [''fhe-add'', ''out''] sample_world)))
     [''repo'', ''out'', ''README.md''] = Some (readmeContent ''fhe-add'' fhe_add_config) \<and>
   files (disk (snd (create_fhevm_example_main [''repo''] [''fhe-add'', ''out''] sample_world)))
     [''repo'', ''out'', ''package.json''] = Some (packageJson ''fhe-add'')"
  using regeneration_idempotent[OF fhe_add_registered repo_plain sample_run_Done]
    fhe_add_registered repo_plain sample_run_Done
  by (simp add: sample_paths)

section \<open>The standalone generator: a missing source file\<close>

lemma seq_assoc: "seq (seq a b) c = seq a (seq b c)"
  by (auto simp: seq_def fun_eq_iff split: prod.splits signal.splits)

lemma seq_skip [simp]: "seq a skip = a"
  by (auto simp: seq_def skip_def fun_eq_iff split: prod.splits signal.splits)

lemma create_example_try_split:
  "create_example_try cwd name cfg outputDir =
     seq (copy_sources cwd cfg outputDir)
       (block
         [fs_call (generateReadme cwd name cfg outputDir),
          fs_call (generatePackageJson cwd name outputDir),
          fs_call (generateHardhatConfig cwd outputDir),
          fs_call (generateTsConfig cwd outputDir),
          success ''Example created successfully!'',
          log ([CHR 0x0A] @ ''Next steps:'') Yellow,
          log (''1. cd '' @ outputDir) Reset,
          log ''2. npm install'' Reset,
          log ''3. npm run compile'' Reset,
          log ''4. npm run test'' Reset])"
  by (simp add: create_example_try_def copy_sources_def Let_def seq_assoc)

lemma hoare_seq: "hoare P a M X \<Longrightarrow> hoare M b N X \<Longrightarrow> hoare P (seq a b) N X"
  by (auto simp: hoare_def seq_def split: prod.splits signal.splits)

lemma hoare_skip: "hoare P skip P X"
  by (simp add: hoare_def skip_def)

lemma hoare_fs_call:
  assumes "\<And>w fs'. P w \<Longrightarrow> f (disk w) = Inr fs' \<Longrightarrow> N (w\<lparr>disk := fs'\<rparr>)"
    and "\<And>w e. P w \<Longrightarrow> f (disk w) = Inl e \<Longrightarrow> X (Throw e) w"
  shows "hoare P (fs_call f) N X"
  using assms by (auto simp: hoare_def fs_call_def split: sum.splits)

lemma hoare_when_error:
  assumes "\<And>w. P w \<Longrightarrow> \<not> cond (disk w) \<Longrightarrow> N w"
    and "\<And>w. P w \<Longrightarrow> cond (disk w) \<Longrightarrow>
           X (Exit 1) (w\<lparr>console := console w @
             [color_code Red @ ([CHR 0xE2, CHR 0x9D, CHR 0x8C] @ '' Error: '' @ m) @ color_code Reset]\<rparr>)"
  shows "hoare P (when_fs cond (error m)) N X"
  using assms by (auto simp: hoare_def when_fs_def error_eq)

lemma hoareD:
  "hoare P a N X \<Longrightarrow> P w \<Longrightarrow>
   (case a w of (Done, w') \<Rightarrow> N w' | (Exit n, w') \<Rightarrow> X (Exit n) w' | (Throw e, w') \<Rightarrow> X (Throw e) w')"
  by (simp add: hoare_def)

lemma existsSync_iff:
  "existsSync fs cwd p \<longleftrightarrow> resolve cwd p = [] \<or> resolve cwd p \<in> dirs fs \<or> files fs (resolve cwd p) \<noteq> None"
  by (auto simp: existsSync_def is_file_def is_dir_def)

lemma mkdirSync_cases:
  "(\<exists>e. mkdirSync cwd p fs = Inl e) \<or>
   mkdirSync cwd p fs = Inr (fs\<lparr>dirs := dirs fs \<union> set (prefixes_of (resolve cwd p))\<rparr>)"
  by (simp add: mkdirSync_def Let_def)

lemma copyFileSync_cases:
  "(\<exists>e. copyFileSync cwd src dest fs = Inl e) \<or>
   (\<exists>c. files fs (resolve cwd src) = Some c \<and>
        copyFileSync cwd src dest fs = Inr (fs\<lparr>files := (files fs)(resolve cwd dest \<mapsto> c)\<rparr>))"
  by (auto simp: copyFileSync_def readFileSync_def Let_def split: option.splits js_error.splits)

lemma copy_sources_missing:
  assumes missing: "files (disk w0) (resolve cwd (path_join [cwd_string cwd, contract cfg])) = None \<or>
                    files (disk w0) (resolve cwd (path_join [cwd_string cwd, test cfg])) = None"
    and neq: "resolve cwd (path_join [cwd_string cwd, test cfg]) \<noteq>
              resolve cwd (path_join [outputDir, ''contracts'', basename (contract cfg)])"
  shows "hoare (\<lambda>w. w = w0) (copy_sources cwd cfg outputDir) (\<lambda>w. False)
           (stopped (files (disk w0)) (dirs (disk w0) \<union> dirs_made cwd outputDir) (console w0)
              (resolve cwd (path_join [cwd_string cwd, contract cfg]))
              (resolve cwd (path_join [outputDir, ''contracts'', basename (contract cfg)])))"
proof -
  let ?m0 = "files (disk w0)" and ?k0 = "console w0"
  let ?SC = "resolve cwd (path_join [cwd_string cwd, contract cfg])"
  let ?ST = "resolve cwd (path_join [cwd_string cwd, test cfg])"
  let ?D1 = "resolve cwd (path_join [outputDir, ''contracts'', basename (contract cfg)])"
  let ?ds = "dirs (disk w0) \<union> dirs_made cwd outputDir"
  let ?X = "stopped ?m0 ?ds ?k0 ?SC ?D1"
  let ?A = "\<lambda>w. files (disk w) = ?m0 \<and> dirs (disk w) \<subseteq> ?ds \<and> console w = ?k0"
  let ?A1 = "\<lambda>w. files (disk w) = ?m0 \<and>
     dirs (disk w) = dirs (disk w0) \<union> set (prefixes_of (resolve cwd (path_join [outputDir, ''contracts'']))) \<and>
     console w = ?k0"
  let ?B = "\<lambda>w. ?m0 ?SC \<noteq> None \<and> files (disk w) = ?m0(?D1 := ?m0 ?SC) \<and> dirs (disk w) \<subseteq> ?ds \<and> console w = ?k0"
  have 1: "hoare (\<lambda>w. w = w0) (fs_call (mkdirSync cwd (path_join [outputDir, ''contracts'']))) ?A1 ?X"
    using mkdirSync_cases[of cwd "path_join [outputDir, ''contracts'']" "disk w0"]
    by (intro hoare_fs_call) (auto simp: stopped_def)
  have 2: "hoare ?A1 (fs_call (mkdirSync cwd (path_join [outputDir, ''test'']))) ?A ?X"
  proof (rule hoare_fs_call)
    fix w :: world and fs' assume "?A1 w" "mkdirSync cwd (path_join [outputDir, ''test'']) (disk w) = Inr fs'"
    then show "?A (w\<lparr>disk := fs'\<rparr>)"
      using mkdirSync_cases[of cwd "path_join [outputDir, ''test'']" "disk w"]
      by (auto simp: dirs_made_def)
  next
    fix w :: world and e :: js_error assume "?A1 w"
    then show "?X (Throw e) w"
      by (auto simp: stopped_def dirs_made_def)
  qed
  have 3: "hoare ?A (when_fs (\<lambda>fs. \<not> existsSync fs cwd (path_join [cwd_string cwd, contract cfg]))
             (error (''Contract file not found: '' @ path_join [cwd_string cwd, contract cfg]))) ?A ?X"
    by (rule hoare_when_error) (auto simp: stopped_def error_prefix_def)
  have 4: "hoare ?A (fs_call (copyFileSync cwd (path_join [cwd_string cwd, contract cfg])
             (path_join [outputDir, ''contracts'', basename (contract cfg)]))) ?B ?X"
  proof (rule hoare_fs_call)
    fix w :: world and fs' assume a: "?A w" and c: "copyFileSync cwd (path_join [cwd_string cwd, contract cfg])
             (path_join [outputDir, ''contracts'', basename (contract cfg)]) (disk w) = Inr fs'"
    show "?B (w\<lparr>disk := fs'\<rparr>)"
      using a c copyFileSync_cases[of cwd "path_join [cwd_string cwd, contract cfg]"
          "path_join [outputDir, ''contracts'', basename (contract cfg)]" "disk w"]
      by auto
  next
    fix w :: world and e :: js_error assume "?A w"
    then show "?X (Throw e) w"
      by (auto simp: stopped_def)
  qed
  have 5: "hoare ?B (when_fs (\<lambda>fs. \<not> existsSync fs cwd (path_join [cwd_string cwd, test cfg]))
             (error (''Test file not found: '' @ path_join [cwd_string cwd, test cfg]))) ?B ?X"
    by (rule hoare_when_error) (auto simp: stopped_def error_prefix_def)
  have 6: "hoare ?B (fs_call (copyFileSync cwd (path_join [cwd_string cwd, test cfg])
             (path_join [outputDir, ''test'', basename (test cfg)]))) (\<lambda>w. False) ?X"
  proof (rule hoare_fs_call)
    fix w :: world and fs' assume b: "?B w" and c: "copyFileSync cwd (path_join [cwd_string cwd, test cfg])
             (path_join [outputDir, ''test'', basename (test cfg)]) (disk w) = Inr fs'"
    from c obtain t where "files (disk w) ?ST = Some t"
      using copyFileSync_cases[of cwd "path_join [cwd_string cwd, test cfg]"
          "path_join [outputDir, ''test'', basename (test cfg)]" "disk w"]
      by auto
    with b neq have "?m0 ?ST \<noteq> None" "?m0 ?SC \<noteq> None"
      by auto
    with missing show False by simp
  next
    fix w :: world and e :: js_error assume "?B w"
    then show "?X (Throw e) w"
      by (auto simp: stopped_def)
  qed
  show ?thesis
    unfolding copy_sources_def block.simps
    by (intro hoare_seq[OF 1] hoare_seq[OF 2] hoare_seq[OF 3] hoare_seq[OF 4] hoare_seq[OF 5]
        hoare_seq[OF 6] hoare_skip)
qed

lemma is_prefix_append: "is_prefix p (p @ m)"
  by (induction p) auto

lemma seq_stops: "fst (a w) \<noteq> Done \<Longrightarrow> seq a b w = a w"
  by (cases "a w") (auto simp: seq_def split: signal.splits)

lemma console_announced_nonempty: "console (announced name outputDir w) \<noteq> []"
  by (simp add: announced_def seq_def info_eq skip_def)

text \<open>
  C2 (as amended). When the contract or the test file of a registered example is absent,
  the run prints an error and exits with status 1 before any of the four generated
  files is written. The only changes on disk are the directories made before the check
  and, when the contract file is present, at most the copy of the contract.
\<close>

theorem missing_source_aborts:
  assumes reg: "map_of EXAMPLES_MAP exampleName = Some exampleConfig"
    and cwd: "list_all plain cwd"
    and missing: "\<not> existsSync (disk w) cwd (path_join [cwd_string cwd, contract exampleConfig]) \<or>
                  \<not> existsSync (disk w) cwd (path_join [cwd_string cwd, test exampleConfig])"
  shows "fst (create_fhevm_example_main cwd (exampleName # rest) w) = Exit 1
       \<and> is_prefix error_prefix (last (console (snd (create_fhevm_example_main cwd (exampleName # rest) w))))
       \<and> (files (disk (snd (create_fhevm_example_main cwd (exampleName # rest) w))) = files (disk w) \<or>
          files (disk (snd (create_fhevm_example_main cwd (exampleName # rest) w))) =
            (files (disk w))
              (resolve cwd (path_join [output_dir_arg (exampleName # rest), ''contracts'',
                 basename (contract exampleConfig)]) :=
               files (disk w) (resolve cwd (path_join [cwd_string cwd, contract exampleConfig]))))
       \<and> (\<not> existsSync (disk w) cwd (path_join [cwd_string cwd, contract exampleConfig]) \<longrightarrow>
          files (disk (snd (create_fhevm_example_main cwd (exampleName # rest) w))) = files (disk w))
       \<and> dirs (disk (snd (create_fhevm_example_main cwd (exampleName # rest) w))) \<subseteq>
          dirs (disk w) \<union> dirs_made cwd (output_dir_arg (exampleName # rest))"
proof -
  let ?O = "output_dir_arg (exampleName # rest)"
  let ?SC = "resolve cwd (path_join [cwd_string cwd, contract exampleConfig])"
  let ?ST = "resolve cwd (path_join [cwd_string cwd, test exampleConfig])"
  let ?D1 = "resolve cwd (path_join [?O, ''contracts'', basename (contract exampleConfig)])"
  let ?w0 = "announced exampleName ?O w"
  let ?rest = "block
         [fs_call (generateReadme cwd exampleName exampleConfig ?O),
          fs_call (generatePackageJson cwd exampleName ?O),
          fs_call (generateHardhatConfig cwd ?O),
          fs_call (generateTsConfig cwd ?O),
          success ''Example created successfully!'',
          log ([CHR 0x0A] @ ''Next steps:'') Yellow,
          log (''1. cd '' @ ?O) Reset,
          log ''2. npm install'' Reset,
          log ''3. npm run compile'' Reset,
          log ''4. npm run test'' Reset]"
  have wf: "well_formed_config exampleConfig"
    using reg by (rule registered_well_formed)
  have lt: "last ?ST = basename (test exampleConfig)"
    using wf source_resolved(2)[OF cwd] by (simp add: well_formed_config_def)
  have neq: "?ST \<noteq> ?D1"
  proof
    assume "?ST = ?D1"
    then have "last ?ST = basename (contract exampleConfig)"
      by (simp add: destinations_resolved[OF wf output_dir_arg_nonempty])
    then show False
      using wf lt by (simp add: well_formed_config_def)
  qed
  have none: "files (disk ?w0) ?SC = None \<or> files (disk ?w0) ?ST = None"
    using missing by (auto simp: existsSync_iff)
  obtain s w' where r: "copy_sources cwd exampleConfig ?O ?w0 = (s, w')"
    by fastforce
  have st: "stopped (files (disk w)) (dirs (disk w) \<union> dirs_made cwd ?O) (console ?w0) ?SC ?D1 s w'"
    using hoareD[OF copy_sources_missing[OF none neq], of ?w0] r
    by (cases s) simp_all
  then have nd: "s \<noteq> Done"
    by (auto simp: stopped_def)
  have tr: "create_example_try cwd exampleName exampleConfig ?O ?w0 = (s, w')"
    unfolding create_example_try_split using seq_stops[of "copy_sources cwd exampleConfig ?O" ?w0 ?rest] r nd
    by simp
  have main: "create_fhevm_example_main cwd (exampleName # rest) w =
              (case s of Throw e \<Rightarrow> create_example_catch e w' | _ \<Rightarrow> (s, w'))"
    unfolding main_registered[OF reg] using tr nd
    by (cases s) (simp_all add: try_catch_def)
  show ?thesis
  proof (cases s)
    case Done
    with nd show ?thesis by simp
  next
    case (Exit n)
    with st main show ?thesis
      by (auto simp: stopped_def is_prefix_append existsSync_iff)
  next
    case (Throw e)
    with st main show ?thesis
      by (auto simp: stopped_def create_example_catch_def error_eq error_prefix_def
          is_prefix_append existsSync_iff)
  qed
qed

lemma empty_missing:
  "\<not> existsSync (disk empty_world) [''repo''] (path_join [cwd_string [''repo''], contract fhe_add_config]) \<or>
   \<not> existsSync (disk empty_world) [''repo''] (path_join [cwd_string [''repo''], test fhe_add_config])"
  by code_simp

text \<open>C2 (as amended), witness: \<^verbatim>\<open>fhe-add\<close> in an empty working directory.\<close>

theorem missing_source_aborts_witness:
  "map_of EXAMPLES_MAP ''fhe-add'' = Some fhe_add_config \<and> list_all plain [''repo''] \<and>
   \<not> existsSync (disk empty_world) [''repo''] (path_join [cwd_string [''repo''], contract fhe_add_config]) \<and>
   fst (create_fhevm_example_main [''repo''] [''fhe-add''] empty_world) = Exit 1 \<and>
   files (disk (snd (create_fhevm_example_main [''repo''] [''fhe-add''] empty_world))) = Map.empty"
proof -
  have m: "\<not> existsSync (disk empty_world) [''repo''] (path_join [cwd_string [''repo''], contract fhe_add_config])"
    by code_simp
  have f: "files (disk empty_world) = Map.empty"
    by (simp add: empty_world_def)
  show ?thesis
    using missing_source_aborts[OF fhe_add_registered repo_plain empty_missing, of "[]"]
      fhe_add_registered repo_plain m f
    by simp
qed

text \<open>
  C2 (as stated) fails: with no source file on disk, the run for \<^verbatim>\<open>fhe-add\<close> has made
  the directory \<^verbatim>\<open>fhe-add/contracts\<close> by the time it exits.
\<close>

theorem missing_source_creates_directories_counterexample:
  "map_of EXAMPLES_MAP ''fhe-add'' = Some fhe_add_config \<and>
   \<not> existsSync (disk empty_world) [''repo''] (path_join [cwd_string [''repo''], contract fhe_add_config]) \<and>
   [''repo'', ''fhe-add'', ''contracts''] \<notin> dirs (disk empty_world) \<and>
   [''repo'', ''fhe-add'', ''contracts''] \<in>
     dirs (disk (snd (create_fhevm_example_main [''repo''] [''fhe-add''] empty_world)))"
  using fhe_add_registered by (simp, code_simp)

text \<open>
  With the contract present and only the test file missing, the run exits with status 1
  after the contract has been copied: the copy stays, and no generated file is written.
\<close>

lemma missing_test_leaves_contract_copy:
  "fst (create_fhevm_example_main [''repo''] [''fhe-add''] contract_only_world) = Exit 1"
  "files (disk (snd (create_fhevm_example_main [''repo''] [''fhe-add''] contract_only_world)))
     [''repo'', ''fhe-add'', ''contracts'', ''FHEAdd.sol''] = Some ''contract FHEAdd {}''"
  "files (disk (snd (create_fhevm_example_main [''repo''] [''fhe-add''] contract_only_world)))
     [''repo'', ''fhe-add'', ''README.md''] = None"
  by code_simp+

section \<open>Unknown example names\<close>

lemma throw_eq: "throw e w = (Throw e, w)"
  by (simp add: throw_def)

lemma create_main_undefined:
  assumes "map_of EXAMPLES_MAP name = None" "name \<notin> set object_prototype_keys"
  shows "create_fhevm_example_main cwd (name # rest) w =
         (Exit 1, w\<lparr>console := console w @ [unknown_example_line name]\<rparr>)"
  using assms
  by (simp add: create_fhevm_example_main_def get_property_def Let_def error_eq
      unknown_example_line_def error_prefix_def)

lemma create_example_try_inherited_result:
  "\<exists>e w'. create_example_try_inherited cwd outputDir w = (Throw e, w') \<and>
          files (disk w') = files (disk w) \<and> console w' = console w"
  using mkdirSync_cases[of cwd "path_join [outputDir, ''contracts'']" "disk w"]
    mkdirSync_cases[of cwd "path_join [outputDir, ''test'']"
      "(disk w)\<lparr>dirs := dirs (disk w) \<union> set (prefixes_of (resolve cwd (path_join [outputDir, ''contracts''])))\<rparr>"]
  by (auto simp: create_example_try_inherited_def seq_def fs_call_def throw_eq skip_def)

lemma create_main_inherited:
  assumes "map_of EXAMPLES_MAP name = None" "name \<in> set object_prototype_keys"
  shows "fst (create_fhevm_example_main cwd (name # rest) w) = Exit 1 \<and>
         files (disk (snd (create_fhevm_example_main cwd (name # rest) w))) = files (disk w)"
proof -
  let ?w0 = "announced name (output_dir_arg (name # rest)) w"
  obtain e w' where t: "create_example_try_inherited cwd (output_dir_arg (name # rest)) ?w0 = (Throw e, w')"
    and f: "files (disk w') = files (disk w)"
    using create_example_try_inherited_result[of cwd "output_dir_arg (name # rest)" ?w0] by auto
  have "create_fhevm_example_main cwd (name # rest) w = create_example_catch e w'"
    using assms t
    by (simp add: create_fhevm_example_main_def get_property_def Let_def seq_def info_eq skip_def
        announced_def try_catch_def)
  then show ?thesis
    using f by (simp add: create_example_catch_def error_eq)
qed

lemma docs_main_undefined:
  assumes "map_of EXAMPLES_CONFIG name = None" "name \<notin> set object_prototype_keys" "name \<noteq> ''--all''"
  shows "generate_docs_main cwd (name # rest) w =
     (if existsSync (disk w) cwd ''docs'' then
        (Exit 1, w\<lparr>console := console w @ [unknown_example_line name]\<rparr>)
      else case mkdirSync cwd ''docs'' (disk w) of
             Inl e \<Rightarrow> (Throw e, w)
           | Inr fs' \<Rightarrow> (Exit 1, w\<lparr>disk := fs', console := console w @ [unknown_example_line name]\<rparr>))"
  using assms
  by (simp add: generate_docs_main_def get_property_def Let_def error_eq seq_def when_fs_def
      fs_call_def unknown_example_line_def error_prefix_def split: sum.splits)

lemma docs_main_inherited:
  assumes "map_of EXAMPLES_CONFIG name = None" "name \<in> set object_prototype_keys" "name \<noteq> ''--all''"
  shows "\<exists>e. fst (generate_docs_main cwd (name # rest) w) = Throw e"
    and "files (disk (snd (generate_docs_main cwd (name # rest) w))) = files (disk w)"
    and "dirs (disk (snd (generate_docs_main cwd (name # rest) w))) \<subseteq>
         dirs (disk w) \<union> set (prefixes_of (resolve cwd ''docs''))"
  using assms mkdirSync_cases[of cwd "''docs''" "disk w"]
  by (auto simp: generate_docs_main_def get_property_def Let_def info_eq seq_def when_fs_def
      fs_call_def throw_eq skip_def split: sum.splits)

lemma same_keys: "map fst EXAMPLES_CONFIG = map fst EXAMPLES_MAP"
  by (simp add: EXAMPLES_MAP_def EXAMPLES_CONFIG_def)

lemma not_registered:
  assumes "name \<notin> set (object_keys EXAMPLES_MAP)"
  shows "map_of EXAMPLES_MAP name = None" "map_of EXAMPLES_CONFIG name = None"
proof -
  have "fst ` set EXAMPLES_CONFIG = fst ` set EXAMPLES_MAP"
    using arg_cong[OF same_keys, of set] by simp
  then show "map_of EXAMPLES_MAP name = None" "map_of EXAMPLES_CONFIG name = None"
    using assms by (simp_all add: object_keys_def map_of_eq_None_iff)
qed

text \<open>
  C3 (as amended). For a name that is not in the registry, both tools exit with status 1
  (the documentation generator unless the name is \<^verbatim>\<open>--all\<close>) and neither creates or
  overwrites a file. The standalone generator leaves the whole disk unchanged when the
  name is not an inherited property name; the documentation generator may have made
  the \<^verbatim>\<open>docs\<close> directory, which it does before it looks the name up.
\<close>

theorem unknown_name_writes_no_file:
  assumes "name \<notin> set (object_keys EXAMPLES_MAP)"
  shows "exit_status (fst (create_fhevm_example_main cwd (name # rest) w)) = 1
       \<and> files (disk (snd (create_fhevm_example_main cwd (name # rest) w))) = files (disk w)
       \<and> (name \<notin> set object_prototype_keys \<longrightarrow>
            disk (snd (create_fhevm_example_main cwd (name # rest) w)) = disk w)
       \<and> (name \<noteq> ''--all'' \<longrightarrow>
            exit_status (fst (generate_docs_main cwd (name # rest) w)) = 1
          \<and> files (disk (snd (generate_docs_main cwd (name # rest) w))) = files (disk w)
          \<and> dirs (disk (snd (generate_docs_main cwd (name # rest) w))) \<subseteq>
              dirs (disk w) \<union> set (prefixes_of (resolve cwd ''docs'')))"
proof (cases "name \<in> set object_prototype_keys")
  case True
  show ?thesis
    using create_main_inherited[OF not_registered(1)[OF assms] True, of cwd rest w]
      docs_main_inherited[OF not_registered(2)[OF assms] True, of cwd rest w] True
    by auto
next
  case False
  have "name \<noteq> ''--all'' \<Longrightarrow>
        exit_status (fst (generate_docs_main cwd (name # rest) w)) = 1
          \<and> files (disk (snd (generate_docs_main cwd (name # rest) w))) = files (disk w)
          \<and> dirs (disk (snd (generate_docs_main cwd (name # rest) w))) \<subseteq>
              dirs (disk w) \<union> set (prefixes_of (resolve cwd ''docs''))"
    using mkdirSync_cases[of cwd "''docs''" "disk w"]
    by (auto simp: docs_main_undefined[OF not_registered(2)[OF assms] False] split: sum.splits)
  then show ?thesis
    by (simp add: create_main_undefined[OF not_registered(1)[OF assms] False])
qed

lemma nope_unregistered: "''nope'' \<notin> set (object_keys EXAMPLES_MAP)"
  by (simp add: object_keys_def EXAMPLES_MAP_def)

text \<open>C3 (as amended), witness: the name \<^verbatim>\<open>nope\<close> in an empty working directory.\<close>

theorem unknown_name_writes_no_file_witness:
  "''nope'' \<notin> set (object_keys EXAMPLES_MAP) \<and>
   exit_status (fst (create_fhevm_example_main [''repo''] [''nope''] empty_world)) = 1 \<and>
   disk (snd (create_fhevm_example_main [''repo''] [''nope''] empty_world)) = disk empty_world \<and>
   exit_status (fst (generate_docs_main [''repo''] [''nope''] empty_world)) = 1 \<and>
   files (disk (snd (generate_docs_main [''repo''] [''nope''] empty_world))) = Map.empty"
proof -
  have p: "''nope'' \<notin> set object_prototype_keys" "''nope'' \<noteq> ''--all''"
    by (simp_all add: object_prototype_keys_def)
  have f: "files (disk empty_world) = Map.empty"
    by (simp add: empty_world_def)
  show ?thesis
    using unknown_name_writes_no_file[OF nope_unregistered, of "[''repo'']" "[]" empty_world]
      nope_unregistered p f
    by simp
qed

text \<open>
  C3 (as stated) fails: given the unknown name \<^verbatim>\<open>nope\<close>, the documentation generator
  has made the directory \<^verbatim>\<open>docs\<close> by the time it exits.
\<close>

theorem unknown_name_creates_docs_directory_counterexample:
  "''nope'' \<notin> set (object_keys EXAMPLES_CONFIG) \<and>
   [''repo'', ''docs''] \<notin> dirs (disk empty_world) \<and>
   [''repo'', ''docs''] \<in> dirs (disk (snd (generate_docs_main [''repo''] [''nope''] empty_world)))"
  by code_simp

text \<open>
  A name that \<^verbatim>\<open>Object.prototype\<close> defines passes the registry check of the standalone
  generator, which then makes its two directories before it fails.
\<close>

lemma inherited_name_creates_directories:
  "''constructor'' \<notin> set (object_keys EXAMPLES_MAP) \<and>
   fst (create_fhevm_example_main [''repo''] [''constructor''] empty_world) = Exit 1 \<and>
   dirs (disk (snd (create_fhevm_example_main [''repo''] [''constructor''] empty_world))) =
     {[''repo''], [''repo'', ''constructor''], [''repo'', ''constructor'', ''contracts''],
      [''repo'', ''constructor'', ''test'']}"
  by code_simp

text \<open>
  C5 (as amended). For a name that is not in the registry, both tools exit with status 1
  (the documentation generator unless the name is \<^verbatim>\<open>--all\<close>). When the name is not an
  inherited property name, the one line printed is the error
  \<^verbatim>\<open>Unknown example: <name>\<close>; the list of names is not printed.
\<close>

theorem unknown_name_reported:
  assumes "name \<notin> set (object_keys EXAMPLES_MAP)"
  shows "exit_status (fst (create_fhevm_example_main cwd (name # rest) w)) = 1
       \<and> (name \<noteq> ''--all'' \<longrightarrow> exit_status (fst (generate_docs_main cwd (name # rest) w)) = 1)
       \<and> (name \<notin> set object_prototype_keys \<longrightarrow>
            console (snd (create_fhevm_example_main cwd (name # rest) w)) =
              console w @ [unknown_example_line name])
       \<and> (name \<notin> set object_prototype_keys \<and> name \<noteq> ''--all'' \<and>
          fst (generate_docs_main cwd (name # rest) w) = Exit 1 \<longrightarrow>
            console (snd (generate_docs_main cwd (name # rest) w)) =
              console w @ [unknown_example_line name])"
proof (cases "name \<in> set object_prototype_keys")
  case True
  show ?thesis
    using create_main_inherited[OF not_registered(1)[OF assms] True, of cwd rest w]
      docs_main_inherited(1)[OF not_registered(2)[OF assms] True, of cwd rest w] True
    by auto
next
  case False
  have "name \<noteq> ''--all'' \<Longrightarrow>
        exit_status (fst (generate_docs_main cwd (name # rest) w)) = 1 \<and>
        (fst (generate_docs_main cwd (name # rest) w) = Exit 1 \<longrightarrow>
            console (snd (generate_docs_main cwd (name # rest) w)) =
              console w @ [unknown_example_line name])"
    by (auto simp: docs_main_undefined[OF not_registered(2)[OF assms] False] split: sum.splits)
  then show ?thesis
    using False by (simp add: create_main_undefined[OF not_registered(1)[OF assms] False])
qed

text \<open>C5 (as amended), witness: the name \<^verbatim>\<open>nope\<close> in an empty working directory.\<close>

theorem unknown_name_reported_witness:
  "''nope'' \<notin> set (object_keys EXAMPLES_MAP) \<and>
   exit_status (fst (create_fhevm_example_main [''repo''] [''nope''] empty_world)) = 1 \<and>
   exit_status (fst (generate_docs_main [''repo''] [''nope''] empty_world)) = 1 \<and>
   console (snd (create_fhevm_example_main [''repo''] [''nope''] empty_world)) =
     [unknown_example_line ''nope''] \<and>
   fst (generate_docs_main [''repo''] [''nope''] empty_world) = Exit 1 \<and>
   console (snd (generate_docs_main [''repo''] [''nope''] empty_world)) =
     [unknown_example_line ''nope'']"
proof -
  have p: "''nope'' \<notin> set object_prototype_keys" "''nope'' \<noteq> ''--all''"
    by (simp_all add: object_prototype_keys_def)
  have c: "console empty_world = []"
    by (simp add: empty_world_def)
  have e: "fst (generate_docs_main [''repo''] [''nope''] empty_world) = Exit 1"
    by code_simp
  show ?thesis
    using unknown_name_reported[OF nope_unregistered, of "[''repo'']" "[]" empty_world]
      nope_unregistered p c e
    by simp
qed

text \<open>
  C5 (as stated) fails: given the unknown name \<^verbatim>\<open>nope\<close>, the standalone generator
  prints the error line and nothing else.
\<close>

theorem unknown_name_prints_no_list_counterexample:
  "''nope'' \<notin> set (object_keys EXAMPLES_MAP) \<and>
   console (snd (create_fhevm_example_main [''repo''] [''nope''] empty_world)) =
     [color_code Red @ [CHR 0xE2, CHR 0x9D, CHR 0x8C] @ '' Error: Unknown example: nope'' @ color_code Reset]"
  by code_simp

section \<open>The two registries\<close>

text \<open>
  C7 (as amended). The two scripts keep one registry each. The registries list the same
  names in the same order, and for every name they agree on the contract path, the
  test path and the category.
\<close>

theorem registries_agree_on_paths_and_category:
  "map (\<lambda>(name, c). (name, contract c, test c, category c)) EXAMPLES_MAP =
   map (\<lambda>(name, c). (name, contract c, test c, category c)) EXAMPLES_CONFIG"
  by (simp add: EXAMPLES_MAP_def EXAMPLES_CONFIG_def)

text \<open>
  C7 (as stated) fails on the description: the two entries for \<^verbatim>\<open>fhe-add\<close> carry
  different description texts.
\<close>

theorem registries_description_counterexample:
  "map_of EXAMPLES_MAP ''fhe-add'' \<noteq> None \<and> map_of EXAMPLES_CONFIG ''fhe-add'' \<noteq> None \<and>
   map_option description (map_of EXAMPLES_MAP ''fhe-add'') \<noteq>
   map_option description (map_of EXAMPLES_CONFIG ''fhe-add'')"
  by (simp add: EXAMPLES_MAP_def EXAMPLES_CONFIG_def)

section \<open>The output directory argument\<close>

lemma EXAMPLES_MAP_names_plain: "list_all (\<lambda>(name, c). plain name) EXAMPLES_MAP"
  by (simp add: EXAMPLES_MAP_def plain_def)

lemma registered_name_plain:
  "map_of EXAMPLES_MAP name = Some cfg \<Longrightarrow> plain name"
  using EXAMPLES_MAP_names_plain by (auto simp: list_all_iff dest!: map_of_SomeD)

lemma resolve_default_dir:
  "plain name \<Longrightarrow> resolve cwd (''./'' @ name) = cwd @ [name]"
  using resolve_append[of "''.''" cwd name]
  by (simp add: resolve_dot plain_def split_on_single norm_step_def)

text \<open>
  C10. An empty string as the output-directory argument is treated as absent. The run
  is the run without that argument, whatever the disk; the output directory is
  \<^verbatim>\<open>./\<close> followed by the example name, which is the directory of that name in the
  working directory; and a successful run for a registered example writes there: it
  makes \<^verbatim>\<open>contracts\<close> and \<^verbatim>\<open>test\<close> under it, copies the two sources into them,
  writes the four generated files next to them, and changes nothing else on disk.
\<close>

theorem empty_output_dir_is_default:
  assumes reg: "map_of EXAMPLES_MAP exampleName = Some exampleConfig"
    and cwd: "list_all plain cwd"
    and run: "fst (create_fhevm_example_main cwd [exampleName, []] w) = Done"
  shows "create_fhevm_example_main cwd [exampleName, []] = create_fhevm_example_main cwd [exampleName]
       \<and> output_dir_arg [exampleName, []] = ''./'' @ exampleName
       \<and> resolve cwd (output_dir_arg [exampleName, []]) = cwd @ [exampleName]
       \<and> dirs (disk (snd (create_fhevm_example_main cwd [exampleName, []] w))) =
           dirs (disk w) \<union> set (prefixes_of (cwd @ [exampleName, ''contracts'']))
                        \<union> set (prefixes_of (cwd @ [exampleName, ''test'']))
       \<and> (\<exists>c t. files (disk w) (cwd @ split_on CHR ''/'' (contract exampleConfig)) = Some c
              \<and> files (disk w) (cwd @ split_on CHR ''/'' (test exampleConfig)) = Some t
              \<and> files (disk (snd (create_fhevm_example_main cwd [exampleName, []] w))) =
                  (files (disk w))
                    (cwd @ [exampleName, ''contracts'', basename (contract exampleConfig)] \<mapsto> c,
                     cwd @ [exampleName, ''test'', basename (test exampleConfig)] \<mapsto> t,
                     cwd @ [exampleName, ''README.md''] \<mapsto> readmeContent exampleName exampleConfig,
                     cwd @ [exampleName, ''package.json''] \<mapsto> packageJson exampleName,
                     cwd @ [exampleName, ''hardhat.config.ts''] \<mapsto> configContent,
                     cwd @ [exampleName, ''tsconfig.json''] \<mapsto> tsConfig))"
proof -
  let ?args = "[exampleName, []]"
  let ?O = "output_dir_arg ?args"
  let ?w' = "snd (create_fhevm_example_main cwd ?args w)"
  let ?SC = "resolve cwd (path_join [cwd_string cwd, contract exampleConfig])"
  let ?ST = "resolve cwd (path_join [cwd_string cwd, test exampleConfig])"
  have same: "create_fhevm_example_main cwd ?args = create_fhevm_example_main cwd [exampleName]"
    and O: "?O = ''./'' @ exampleName"
    by (simp_all add: create_fhevm_example_main_def output_dir_arg_def)
  have wf: "well_formed_config exampleConfig"
    using reg by (rule registered_well_formed)
  have pn: "plain exampleName"
    using reg by (rule registered_name_plain)
  have rO: "resolve cwd ?O = cwd @ [exampleName]"
    unfolding O using pn by (rule resolve_default_dir)
  note tr = registered_run_Done[OF reg run]
  note d = destinations_resolved[OF wf output_dir_arg_nonempty, of cwd ?args]
  have sc: "?SC = cwd @ split_on CHR ''/'' (contract exampleConfig)"
    and st: "?ST = cwd @ split_on CHR ''/'' (test exampleConfig)"
    using wf source_resolved(1)[OF cwd] by (simp_all add: well_formed_config_def)
  have lt: "last ?ST = basename (test exampleConfig)"
    using wf source_resolved(2)[OF cwd] by (simp add: well_formed_config_def)
  have neq: "?ST \<noteq> resolve cwd ?O @ [''contracts'', basename (contract exampleConfig)]"
  proof
    assume "?ST = resolve cwd ?O @ [''contracts'', basename (contract exampleConfig)]"
    then have "last ?ST = basename (contract exampleConfig)"
      by simp
    then show False
      using wf lt by (simp add: well_formed_config_def)
  qed
  have made: "dirs_made cwd ?O =
      set (prefixes_of (cwd @ [exampleName, ''contracts''])) \<union>
      set (prefixes_of (cwd @ [exampleName, ''test'']))"
    using rO by (simp add: dirs_made_def resolve_join_child output_dir_arg_nonempty)
  from create_example_try_Done[OF tr] obtain c t where
    c: "files (disk w) ?SC = Some c"
    and t: "((files (disk w))(resolve cwd ?O @ [''contracts'', basename (contract exampleConfig)] \<mapsto> c))
        ?ST = Some t"
    and f: "files (disk ?w') = (files (disk w))
       (resolve cwd ?O @ [''contracts'', basename (contract exampleConfig)] \<mapsto> c,
        resolve cwd ?O @ [''test'', basename (test exampleConfig)] \<mapsto> t,
        resolve cwd ?O @ [''README.md''] \<mapsto> readmeContent exampleName exampleConfig,
        resolve cwd ?O @ [''package.json''] \<mapsto> packageJson exampleName,
        resolve cwd ?O @ [''hardhat.config.ts''] \<mapsto> configContent,
        resolve cwd ?O @ [''tsconfig.json''] \<mapsto> tsConfig)"
    and dd: "dirs (disk ?w') = dirs (disk w) \<union> dirs_made cwd ?O"
    unfolding d disk_announced by blast
  from t neq have t': "files (disk w) ?ST = Some t"
    by simp
  have files: "\<exists>c t. files (disk w) (cwd @ split_on CHR ''/'' (contract exampleConfig)) = Some c
              \<and> files (disk w) (cwd @ split_on CHR ''/'' (test exampleConfig)) = Some t
              \<and> files (disk ?w') =
                  (files (disk w))
                    (cwd @ [exampleName, ''contracts'', basename (contract exampleConfig)] \<mapsto> c,
                     cwd @ [exampleName, ''test'', basename (test exampleConfig)] \<mapsto> t,
                     cwd @ [exampleName, ''README.md''] \<mapsto> readmeContent exampleName exampleConfig,
                     cwd @ [exampleName, ''package.json''] \<mapsto> packageJson exampleName,
                     cwd @ [exampleName, ''hardhat.config.ts''] \<mapsto> configContent,
                     cwd @ [exampleName, ''tsconfig.json''] \<mapsto> tsConfig)"
    using c t' f unfolding sc st rO by (intro exI[of _ c] exI[of _ t]) simp
  have dirs: "dirs (disk ?w') =
           dirs (disk w) \<union> set (prefixes_of (cwd @ [exampleName, ''contracts'']))
                        \<union> set (prefixes_of (cwd @ [exampleName, ''test'']))"
    unfolding dd made by (simp add: Un_assoc)
  show ?thesis
    using same O rO dirs files by (intro conjI)
qed

lemma sample_default_run_Done:
  "fst (create_fhevm_example_main [''repo''] [''fhe-add'', []] sample_world) = Done"
  by code_simp

lemma fhe_add_basenames:
  "basename (contract fhe_add_config) = ''FHEAdd.sol''" "basename (test fhe_add_config) = ''FHEAdd.ts''"
  "split_on CHR ''/'' (contract fhe_add_config) = [''contracts'', ''basic'', ''FHEAdd.sol'']"
  "split_on CHR ''/'' (test fhe_add_config) = [''test'', ''basic'', ''FHEAdd.ts'']"
  by code_simp+

text \<open>C10, witness: \<^verbatim>\<open>fhe-add\<close> with an empty second argument on the sample disk.\<close>

theorem empty_output_dir_is_default_witness:
  "map_of EXAMPLES_MAP ''fhe-add'' = Some fhe_add_config \<and> list_all plain [''repo''] \<and>
   fst (create_fhevm_example_main [''repo''] [''fhe-add'', []] sample_world) = Done \<and>
   create_fhevm_example_main [''repo''] [''fhe-add'', []] = create_fhevm_example_main [''repo''] [''fhe-add''] \<and>
   [''repo'', ''fhe-add'', ''contracts''] \<in>
     dirs (disk (snd (create_fhevm_example_main [''repo''] [''fhe-add'', []] sample_world))) \<and>
   files (disk (snd (create_fhevm_example_main [''repo''] [''fhe-add'', []] sample_world)))
     [''repo'', ''fhe-add'', ''contracts'', ''FHEAdd.sol''] = Some ''contract FHEAdd {}'' \<and>
   files (disk (snd (create_fhevm_example_main [''repo''] [''fhe-add'', []] sample_world)))
     [''repo'', ''fhe-add'', ''test'', ''FHEAdd.ts''] = Some ''describe()'' \<and>
   files (disk (snd (create_fhevm_example_main [''repo''] [''fhe-add'', []] sample_world)))
     [''repo'', ''fhe-add'', ''README.md''] = Some (readmeContent ''fhe-add'' fhe_add_config) \<and>
   files (disk (snd (create_fhevm_example_main [''repo''] [''fhe-add'', []] sample_world)))
     [''repo'', ''fhe-add'', ''package.json''] = Some (packageJson ''fhe-add'') \<and>
   files (disk (snd (create_fhevm_example_main [''repo''] [''fhe-add'', []] sample_world)))
     [''repo'', ''fhe-add'', ''hardhat.config.ts''] = Some configContent \<and>
   files (disk (snd (create_fhevm_example_main [''repo''] [''fhe-add'', []] sample_world)))
     [''repo'', ''fhe-add'', ''tsconfig.json''] = Some tsConfig \<and>
   files (disk sample_world) [''repo'', ''fhe-add'', ''README.md''] = None"
proof -
  note t = empty_output_dir_is_default[OF fhe_add_registered repo_plain sample_default_run_Done]
  from t have same: "create_fhevm_example_main [''repo''] [''fhe-add'', []] = create_fhevm_example_main [''repo''] [''fhe-add'']"
    by blast
  from t have d: "dirs (disk (snd (create_fhevm_example_main [''repo''] [''fhe-add'', []] sample_world))) =
           dirs (disk sample_world) \<union> set (prefixes_of ([''repo''] @ [''fhe-add'', ''contracts'']))
                        \<union> set (prefixes_of ([''repo''] @ [''fhe-add'', ''test'']))"
    by blast
  from t obtain c t' where
    c: "files (disk sample_world) ([''repo''] @ split_on CHR ''/'' (contract fhe_add_config)) = Some c"
    and t': "files (disk sample_world) ([''repo''] @ split_on CHR ''/'' (test fhe_add_config)) = Some t'"
    and f: "files (disk (snd (create_fhevm_example_main [''repo''] [''fhe-add'', []] sample_world))) =
                  (files (disk sample_world))
                    ([''repo''] @ [''fhe-add'', ''contracts'', basename (contract fhe_add_config)] \<mapsto> c,
                     [''repo''] @ [''fhe-add'', ''test'', basename (test fhe_add_config)] \<mapsto> t',
                     [''repo''] @ [''fhe-add'', ''README.md''] \<mapsto> readmeContent ''fhe-add'' fhe_add_config,
                     [''repo''] @ [''fhe-add'', ''package.json''] \<mapsto> packageJson ''fhe-add'',
                     [''repo''] @ [''fhe-add'', ''hardhat.config.ts''] \<mapsto> configContent,
                     [''repo''] @ [''fhe-add'', ''tsconfig.json''] \<mapsto> tsConfig)"
    by blast
  have cv: "c = ''contract FHEAdd {}''" and tv: "t' = ''describe()''"
    using c t' by (simp_all add: fhe_add_basenames sample_world_def sample_disk_def)
  have none: "files (disk sample_world) [''repo'', ''fhe-add'', ''README.md''] = None"
    by (simp add: sample_world_def sample_disk_def)
  let ?w' = "snd (create_fhevm_example_main [''repo''] [''fhe-add'', []] sample_world)"
  have r1: "[''repo'', ''fhe-add'', ''contracts''] \<in> dirs (disk ?w')"
    by (simp add: d)
  have r2: "files (disk ?w') [''repo'', ''fhe-add'', ''contracts'', ''FHEAdd.sol''] = Some ''contract FHEAdd {}''"
    and r3: "files (disk ?w') [''repo'', ''fhe-add'', ''test'', ''FHEAdd.ts''] = Some ''describe()''"
    and r4: "files (disk ?w') [''repo'', ''fhe-add'', ''README.md''] = Some (readmeContent ''fhe-add'' fhe_add_config)"
    and r5: "files (disk ?w') [''repo'', ''fhe-add'', ''package.json''] = Some (packageJson ''fhe-add'')"
    and r6: "files (disk ?w') [''repo'', ''fhe-add'', ''hardhat.config.ts''] = Some configContent"
    and r7: "files (disk ?w') [''repo'', ''fhe-add'', ''tsconfig.json''] = Some tsConfig"
    by (simp_all add: f cv tv fhe_add_basenames)
  show ?thesis
    using fhe_add_registered repo_plain sample_default_run_Done same r1 r2 r3 r4 r5 r6 r7 none
    by (intro conjI)
qed

section \<open>The documentation generator: the batch\<close>

lemma readFileContent_cong:
  "dirs fs' = dirs fs \<Longrightarrow> files fs' (resolve cwd p) = files fs (resolve cwd p) \<Longrightarrow>
   readFileContent fs' cwd p = readFileContent fs cwd p"
  by (simp add: readFileContent_def readFileSync_def is_dir_def Let_def split: option.splits)

lemma generateDocumentation_cong:
  assumes "dirs fs' = dirs fs"
    and "files fs' (resolve cwd (contract config)) = files fs (resolve cwd (contract config))"
    and "files fs' (resolve cwd (test config)) = files fs (resolve cwd (test config))"
  shows "generateDocumentation fs' cwd name config = generateDocumentation fs cwd name config"
proof -
  have c: "readFileContent fs' cwd (contract config) = readFileContent fs cwd (contract config)"
    and t: "readFileContent fs' cwd (test config) = readFileContent fs cwd (test config)"
    using readFileContent_cong[OF assms(1) assms(2)] readFileContent_cong[OF assms(1) assms(3)]
    by simp_all
  show ?thesis
    unfolding generateDocumentation_def by (simp only: c t)
qed

lemma utf8_decoder_ascii:
  "list_all (\<lambda>c. (of_char c :: nat) < 0x80) s \<Longrightarrow> utf8_decoder [] 0 lower upper s = s"
  by (induction s arbitrary: lower upper) simp_all

text \<open>ASCII text is decoded to itself; a byte that cannot start a character is replaced.\<close>

lemma decode_utf8_ascii:
  "list_all (\<lambda>c. (of_char c :: nat) < 0x80) s \<Longrightarrow> decode_utf8 s = s"
  by (simp add: decode_utf8_def utf8_decoder_ascii)

lemma readFileContent_invalid_utf8:
  "readFileContent \<lparr>dirs = {}, files = [[''a.sol''] \<mapsto> [CHR 0x41, CHR 0xFF, CHR 0x42]]\<rparr> [] ''a.sol'' =
     [CHR 0x41] @ replacement_character @ [CHR 0x42]"
  by code_simp

text \<open>What \<^verbatim>\<open>readFileContent\<close> returns: the decoded bytes of a regular file, and the
  placeholder for anything else (a missing file, a directory).\<close>

lemma readFileContent_cases:
  "readFileContent fs cwd p =
     (if is_file fs (resolve cwd p) then decode_utf8 (the (files fs (resolve cwd p)))
      else ''File not found: '' @ p)"
  by (auto simp: readFileContent_def readFileSync_def is_file_def Let_def split: option.splits)

lemma documentation_source_sections:
  "concat (documentation_parts config contractContent testContent) =
     concat (take 21 (documentation_parts config [] [])) @
     source_sections contractContent testContent @
     concat (drop 31 (documentation_parts config [] []))"
  by (simp add: documentation_parts_def source_sections_def)

text \<open>
  A document is a fixed text around the two source sections, and each section shows the
  decoded source when it is a regular file and the placeholder otherwise.
\<close>

lemma generateDocumentation_text:
  "generateDocumentation fs cwd name config =
     concat (take 21 (documentation_parts config [] [])) @
     source_sections
       (if is_file fs (resolve cwd (contract config))
        then decode_utf8 (the (files fs (resolve cwd (contract config))))
        else ''File not found: '' @ contract config)
       (if is_file fs (resolve cwd (test config))
        then decode_utf8 (the (files fs (resolve cwd (test config))))
        else ''File not found: '' @ test config) @
     concat (drop 31 (documentation_parts config [] []))"
  unfolding generateDocumentation_def Let_def
  by (simp only: documentation_source_sections readFileContent_cases)

text \<open>The error codes of a write below a regular file, and the message of a failed copy.\<close>

lemma write_below_file:
  "write_check \<lparr>dirs = {}, files = [[''a''] \<mapsto> ''x'']\<rparr> [''a'', ''b'', ''c''] = Some ''ENOTDIR''"
  "write_check \<lparr>dirs = {}, files = Map.empty\<rparr> [''a'', ''b'', ''c''] = Some ''ENOENT''"
  by code_simp+

lemma copy_error_message:
  "copyFileSync [] ''a'' ''b'' \<lparr>dirs = {}, files = Map.empty\<rparr> =
     Inl (SystemErrorDest ''ENOENT'' ''copyfile'' ''a'' ''b'')"
  "error_message (SystemErrorDest ''ENOENT'' ''copyfile'' ''a'' ''b'') =
     ''ENOENT: no such file or directory, copyfile '' @ [CHR 0x27] @ ''a'' @ [CHR 0x27] @ '' -> '' @
     [CHR 0x27] @ ''b'' @ [CHR 0x27]"
  by (simp_all add: copyFileSync_def readFileSync_def Let_def resolve_relative plain_def is_dir_def
      errno_text_def)

lemma seq_after_Done:
  "fst (a w) = Done \<Longrightarrow> seq a b w = b (snd (a w))"
  by (cases "a w") (simp add: seq_def)

lemma write_documentation_writable:
  assumes "writable (dirs (disk w)) (doc_target cwd outputDir config)"
  shows "write_documentation cwd outputDir name config w =
      (Done, w\<lparr>disk := (disk w)\<lparr>files := (files (disk w))(doc_target cwd outputDir config \<mapsto>
            generateDocumentation (disk w) cwd name config)\<rparr>\<rparr>)"
proof -
  have "write_check (disk w) (resolve cwd (path_join [outputDir, output' config])) = None"
    using assms by (simp add: write_check_None_iff doc_target_def)
  then show ?thesis
    by (simp add: write_documentation_def fs_call_def writeFileSync_def doc_target_def)
qed

lemma log_result [simp]: "fst (log m c w) = Done" "disk (snd (log m c w)) = disk w"
  by (simp_all add: log_def)

lemma info_result [simp]: "fst (info m w) = Done" "disk (snd (info m w)) = disk w"
  by (simp_all add: info_def)

lemma success_result [simp]: "fst (success m w) = Done" "disk (snd (success m w)) = disk w"
  by (simp_all add: success_def)

lemma generate_entry_writable:
  assumes "writable (dirs (disk w)) (doc_target cwd outputDir config)"
  shows "fst (generate_entry cwd outputDir (name, config) w) = Done"
    and "disk (snd (generate_entry cwd outputDir (name, config) w)) =
         (disk w)\<lparr>files := (files (disk w))(doc_target cwd outputDir config \<mapsto>
            generateDocumentation (disk w) cwd name config)\<rparr>"
proof -
  define i where "i = info (''Generating '' @ name @ ''...'')"
  define s where "s = success (''Generated '' @ output' config)"
  define w0 where "w0 = snd (i w)"
  have i: "fst (i w) = Done" and d0: "disk w0 = disk w"
    by (simp_all add: i_def w0_def)
  have wr: "writable (dirs (disk w0)) (doc_target cwd outputDir config)"
    using assms d0 by simp
  note wd = write_documentation_writable[OF wr, of name]
  have "generate_entry cwd outputDir (name, config) w =
        seq i (seq (write_documentation cwd outputDir name config) (seq s skip)) w"
    by (simp only: generate_entry_def block.simps prod.case i_def s_def)
  also have "\<dots> = seq (write_documentation cwd outputDir name config) (seq s skip) w0"
    unfolding w0_def using i by (rule seq_after_Done)
  also have "\<dots> = seq s skip (snd (write_documentation cwd outputDir name config w0))"
    by (rule seq_after_Done) (simp only: wd fst_conv)
  also have "\<dots> = s (snd (write_documentation cwd outputDir name config w0))"
    by (simp only: seq_skip)
  finally have eq: "generate_entry cwd outputDir (name, config) w =
      s (snd (write_documentation cwd outputDir name config w0))" .
  show "fst (generate_entry cwd outputDir (name, config) w) = Done"
    unfolding eq by (simp add: s_def)
  show "disk (snd (generate_entry cwd outputDir (name, config) w)) =
         (disk w)\<lparr>files := (files (disk w))(doc_target cwd outputDir config \<mapsto>
            generateDocumentation (disk w) cwd name config)\<rparr>"
    unfolding eq by (simp add: s_def wd d0)
qed

lemma generate_all_Cons:
  "generate_all cwd outputDir (e # es) = seq (generate_entry cwd outputDir e) (generate_all cwd outputDir es)"
  by (simp add: generate_all_def)

lemma generate_all_Nil: "generate_all cwd outputDir [] w = (Done, w)"
  by (simp add: generate_all_def skip_def)

text \<open>
  The loop over the entries, when every target can be written, the targets are distinct
  and no target is a source: every document is written, with the sources read as they
  were before the loop.
\<close>

lemma generate_all_result:
  assumes "\<forall>e\<in>set entries. writable (dirs (disk w)) (doc_target cwd outputDir (snd e))"
    and "distinct (map (\<lambda>e. doc_target cwd outputDir (snd e)) entries)"
    and "\<forall>e\<in>set entries. \<forall>e'\<in>set entries.
           doc_target cwd outputDir (snd e) \<noteq> resolve cwd (contract (snd e')) \<and>
           doc_target cwd outputDir (snd e) \<noteq> resolve cwd (test (snd e'))"
  shows "fst (generate_all cwd outputDir entries w) = Done \<and>
         dirs (disk (snd (generate_all cwd outputDir entries w))) = dirs (disk w) \<and>
         (\<forall>e\<in>set entries. files (disk (snd (generate_all cwd outputDir entries w)))
              (doc_target cwd outputDir (snd e)) =
            Some (generateDocumentation (disk w) cwd (fst e) (snd e))) \<and>
         (\<forall>p. p \<notin> (\<lambda>e. doc_target cwd outputDir (snd e)) ` set entries \<longrightarrow>
              files (disk (snd (generate_all cwd outputDir entries w))) p = files (disk w) p)"
  using assms
proof (induction entries arbitrary: w)
  case Nil
  then show ?case by (simp add: generate_all_Nil)
next
  case (Cons e es)
  obtain name config where e: "e = (name, config)"
    by (cases e)
  let ?T = "doc_target cwd outputDir config"
  let ?w1 = "snd (generate_entry cwd outputDir (name, config) w)"
  have wr: "writable (dirs (disk w)) ?T"
    using Cons.prems(1) e by simp
  note ge = generate_entry_writable[OF wr, of name]
  have d1: "dirs (disk ?w1) = dirs (disk w)"
    and f1: "files (disk ?w1) = (files (disk w))(?T \<mapsto> generateDocumentation (disk w) cwd name config)"
    using ge(2) by simp_all
  have run: "generate_all cwd outputDir (e # es) w = generate_all cwd outputDir es ?w1"
    using ge(1) by (simp add: generate_all_Cons e seq_after_Done)
  have same: "generateDocumentation (disk ?w1) cwd (fst e') (snd e') =
              generateDocumentation (disk w) cwd (fst e') (snd e')" if "e' \<in> set es" for e'
  proof (rule generateDocumentation_cong[OF d1])
    have "?T \<noteq> resolve cwd (contract (snd e'))" "?T \<noteq> resolve cwd (test (snd e'))"
      using Cons.prems(3) that e by auto
    then show "files (disk ?w1) (resolve cwd (contract (snd e'))) = files (disk w) (resolve cwd (contract (snd e')))"
      "files (disk ?w1) (resolve cwd (test (snd e'))) = files (disk w) (resolve cwd (test (snd e')))"
      by (simp_all add: f1)
  qed
  have ih: "fst (generate_all cwd outputDir es ?w1) = Done \<and>
         dirs (disk (snd (generate_all cwd outputDir es ?w1))) = dirs (disk ?w1) \<and>
         (\<forall>e\<in>set es. files (disk (snd (generate_all cwd outputDir es ?w1)))
              (doc_target cwd outputDir (snd e)) =
            Some (generateDocumentation (disk ?w1) cwd (fst e) (snd e))) \<and>
         (\<forall>p. p \<notin> (\<lambda>e. doc_target cwd outputDir (snd e)) ` set es \<longrightarrow>
              files (disk (snd (generate_all cwd outputDir es ?w1))) p = files (disk ?w1) p)"
    using Cons.prems by (intro Cons.IH) (simp_all add: d1)
  have notin: "?T \<notin> (\<lambda>e. doc_target cwd outputDir (snd e)) ` set es"
    using Cons.prems(2) e by auto
  let ?w2 = "snd (generate_all cwd outputDir es ?w1)"
  have c1: "fst (generate_all cwd outputDir es ?w1) = Done"
    and c2: "dirs (disk ?w2) = dirs (disk w)"
    using ih d1 by simp_all
  have c3: "files (disk ?w2) (doc_target cwd outputDir (snd e')) =
            Some (generateDocumentation (disk w) cwd (fst e') (snd e'))" if "e' \<in> set (e # es)" for e'
  proof (cases "e' \<in> set es")
    case True
    then show ?thesis using ih same[OF True] by simp
  next
    case False
    with that have "e' = e" by simp
    moreover have "files (disk ?w2) ?T = files (disk ?w1) ?T"
      using ih notin by blast
    ultimately show ?thesis
      by (simp add: e f1)
  qed
  have c4: "files (disk ?w2) p = files (disk w) p"
    if "p \<notin> (\<lambda>e. doc_target cwd outputDir (snd e)) ` set (e # es)" for p
  proof -
    have "p \<notin> (\<lambda>e. doc_target cwd outputDir (snd e)) ` set es" and "p \<noteq> ?T"
      using that e by auto
    then show ?thesis
      using ih by (simp add: f1)
  qed
  show ?case
    unfolding run using c1 c2 c3 c4 by blast
qed

lemma EXAMPLES_CONFIG_well_formed: "list_all (\<lambda>e. well_formed_docs (snd e)) EXAMPLES_CONFIG"
  by (simp add: EXAMPLES_CONFIG_def well_formed_docs_def plain_def)

lemma EXAMPLES_CONFIG_outputs_distinct:
  "distinct (map (\<lambda>e. split_on CHR ''/'' (output' (snd e))) EXAMPLES_CONFIG)"
  by (simp add: EXAMPLES_CONFIG_def)

lemma summary_entries_all:
  "summary_entries (object_keys EXAMPLES_CONFIG) = Inr (concat (map summary_line EXAMPLES_CONFIG))"
  by code_simp

lemma resolve_docs: "resolve cwd ''docs'' = cwd @ [''docs'']"
  by (simp add: resolve_relative plain_def)

lemma doc_target_resolved:
  assumes "well_formed_docs c"
  shows "doc_target cwd ''docs'' c = cwd @ ''docs'' # split_on CHR ''/'' (output' c)"
proof -
  have pl: "list_all plain (split_on CHR ''/'' (output' c))"
    using assms by (simp add: well_formed_docs_def)
  then have ne: "output' c \<noteq> []"
    by (auto simp: plain_def)
  have "doc_target cwd ''docs'' c = resolve cwd (''docs'' @ CHR ''/'' # output' c)"
    using ne by (simp add: doc_target_def resolve_path_join)
  also have "\<dots> = foldl (norm_step False) (resolve cwd ''docs'') (split_on CHR ''/'' (output' c))"
    by (rule resolve_append) simp
  finally show ?thesis
    using pl by (simp add: resolve_docs foldl_norm_step_plain)
qed

lemma summary_path_resolved:
  "resolve cwd (path_join [''docs'', ''SUMMARY.md'']) = cwd @ [''docs'', ''SUMMARY.md'']"
  by (simp add: resolve_join_child resolve_docs plain_def)

lemma concat_contains: "x \<in> set xs \<Longrightarrow> \<exists>pre post. concat xs = pre @ x @ post"
  by (metis concat.simps(2) concat_append split_list)

lemma documentation_embeds_contract:
  "\<exists>pre post. generateDocumentation fs cwd name config =
     pre @ readFileContent fs cwd (contract config) @ post"
  unfolding generateDocumentation_def documentation_parts_def Let_def
  by (rule concat_contains) simp

lemma documentation_embeds_test:
  "\<exists>pre post. generateDocumentation fs cwd name config =
     pre @ readFileContent fs cwd (test config) @ post"
  unfolding generateDocumentation_def documentation_parts_def Let_def
  by (rule concat_contains) simp

lemma readFileContent_missing:
  "\<not> existsSync fs cwd p \<Longrightarrow> readFileContent fs cwd p = ''File not found: '' @ p"
  by (auto simp: readFileContent_def readFileSync_def existsSync_def is_file_def Let_def
      split: option.splits)

lemma seq_when_false: "\<not> cond (disk w) \<Longrightarrow> seq (when_fs cond a) b w = b w"
  by (simp add: seq_def when_fs_def)

lemma targets_distinct:
  "distinct (map (\<lambda>e. doc_target cwd ''docs'' (snd e)) EXAMPLES_CONFIG)"
proof -
  have "map (\<lambda>e. doc_target cwd ''docs'' (snd e)) EXAMPLES_CONFIG =
        map (\<lambda>s. cwd @ ''docs'' # s) (map (\<lambda>e. split_on CHR ''/'' (output' (snd e))) EXAMPLES_CONFIG)"
    using EXAMPLES_CONFIG_well_formed
    by (simp add: list_all_iff doc_target_resolved)
  moreover have "inj_on (\<lambda>s. cwd @ ''docs'' # s) A" for A
    by (simp add: inj_on_def)
  ultimately show ?thesis
    using EXAMPLES_CONFIG_outputs_distinct by (simp only: distinct_map)
qed

lemma targets_not_sources:
  assumes "e \<in> set EXAMPLES_CONFIG" "e' \<in> set EXAMPLES_CONFIG"
  shows "doc_target cwd ''docs'' (snd e) \<noteq> resolve cwd (contract (snd e'))"
    and "doc_target cwd ''docs'' (snd e) \<noteq> resolve cwd (test (snd e'))"
proof -
  have wf: "well_formed_docs (snd e)" "well_formed_docs (snd e')"
    using assms EXAMPLES_CONFIG_well_formed by (simp_all add: list_all_iff)
  have c: "resolve cwd (contract (snd e')) = cwd @ split_on CHR ''/'' (contract (snd e'))"
    and t: "resolve cwd (test (snd e')) = cwd @ split_on CHR ''/'' (test (snd e'))"
    using wf(2) by (simp_all add: well_formed_docs_def resolve_relative)
  have hd_neq: "''docs'' # xs \<noteq> ys" if "hd ys \<noteq> ''docs''" for xs ys :: "string list"
    using that by auto
  show "doc_target cwd ''docs'' (snd e) \<noteq> resolve cwd (contract (snd e'))"
    using wf hd_neq[of "split_on CHR ''/'' (contract (snd e'))"]
    by (simp add: doc_target_resolved c well_formed_docs_def)
  show "doc_target cwd ''docs'' (snd e) \<noteq> resolve cwd (test (snd e'))"
    using wf hd_neq[of "split_on CHR ''/'' (test (snd e'))"]
    by (simp add: doc_target_resolved t well_formed_docs_def)
qed

lemma target_not_summary:
  assumes "e \<in> set EXAMPLES_CONFIG"
  shows "doc_target cwd ''docs'' (snd e) \<noteq> resolve cwd (path_join [''docs'', ''SUMMARY.md''])"
proof -
  have wf: "well_formed_docs (snd e)"
    using assms EXAMPLES_CONFIG_well_formed by (simp add: list_all_iff)
  then show ?thesis
    by (auto simp: doc_target_resolved summary_path_resolved well_formed_docs_def)
qed

text \<open>
  The batch on a disk where the files can be written (the directory of each target
  exists and no target is itself a directory): the run completes whichever source
  files are missing. Every registered example gets its document, built from the
  sources as they were; a missing contract or test file appears in the document as
  \<^verbatim>\<open>File not found: <path>\<close>; and \<^verbatim>\<open>SUMMARY.md\<close> holds one line per registered
  example, in registry order.
\<close>

lemma batch_completes_when_writable:
  assumes docs: "\<forall>(name, config) \<in> set EXAMPLES_CONFIG.
                   writable (dirs (disk w)) (resolve cwd (path_join [''docs'', output' config]))"
    and summary: "writable (dirs (disk w)) (resolve cwd (path_join [''docs'', ''SUMMARY.md'']))"
  shows "fst (generate_docs_main cwd (''--all'' # rest) w) = Done
       \<and> (\<forall>(name, config) \<in> set EXAMPLES_CONFIG.
            files (disk (snd (generate_docs_main cwd (''--all'' # rest) w)))
              (resolve cwd (path_join [''docs'', output' config])) =
            Some (generateDocumentation (disk w) cwd name config))
       \<and> files (disk (snd (generate_docs_main cwd (''--all'' # rest) w)))
              (resolve cwd (path_join [''docs'', ''SUMMARY.md''])) =
            Some (summary_header @ concat (map summary_line EXAMPLES_CONFIG) @ summary_footer)
       \<and> (\<forall>(name, config) \<in> set EXAMPLES_CONFIG.
            (\<not> existsSync (disk w) cwd (contract config) \<longrightarrow>
               (\<exists>pre post. generateDocumentation (disk w) cwd name config =
                  pre @ (''File not found: '' @ contract config) @ post)) \<and>
            (\<not> existsSync (disk w) cwd (test config) \<longrightarrow>
               (\<exists>pre post. generateDocumentation (disk w) cwd name config =
                  pre @ (''File not found: '' @ test config) @ post)))"
proof -
  define i where "i = info ''Generating documentation for all examples...''"
  define l where "l = log ([CHR 0x0A] @ ''Documentation generation completed!'') Green"
  define SP where "SP = resolve cwd (path_join [''docs'', ''SUMMARY.md''])"
  define body where "body = summary_header @ concat (map summary_line EXAMPLES_CONFIG) @ summary_footer"
  let ?ga = "generate_all cwd ''docs'' EXAMPLES_CONFIG"
  let ?gs = "fs_call (generateSummary cwd (object_keys EXAMPLES_CONFIG) ''docs'')"
  have "butlast (cwd @ [''docs'', ''SUMMARY.md'']) = cwd @ [''docs'']"
    by (simp add: butlast_append)
  then have "cwd @ [''docs''] \<in> dirs (disk w)"
    using summary by (simp add: writable_def summary_path_resolved)
  then have ex: "existsSync (disk w) cwd ''docs''"
    by (simp add: existsSync_iff resolve_docs)
  have main: "generate_docs_main cwd (''--all'' # rest) w =
              seq (seq i (seq ?ga (seq ?gs skip))) (seq l skip) w"
    using ex by (simp add: generate_docs_main_def Let_def i_def l_def seq_when_false)
  define w0 where "w0 = snd (i w)"
  have i: "fst (i w) = Done" and d0: "disk w0 = disk w"
    by (simp_all add: i_def w0_def)
  have wr0: "\<forall>e\<in>set EXAMPLES_CONFIG. writable (dirs (disk w0)) (doc_target cwd ''docs'' (snd e))"
    using docs by (auto simp: d0 doc_target_def)
  have src0: "\<forall>e\<in>set EXAMPLES_CONFIG. \<forall>e'\<in>set EXAMPLES_CONFIG.
           doc_target cwd ''docs'' (snd e) \<noteq> resolve cwd (contract (snd e')) \<and>
           doc_target cwd ''docs'' (snd e) \<noteq> resolve cwd (test (snd e'))"
    using targets_not_sources by blast
  define w1 where "w1 = snd (?ga w0)"
  have ga: "fst (?ga w0) = Done"
    and d1: "dirs (disk w1) = dirs (disk w)"
    and f1: "\<And>e. e \<in> set EXAMPLES_CONFIG \<Longrightarrow>
          files (disk w1) (doc_target cwd ''docs'' (snd e)) =
            Some (generateDocumentation (disk w) cwd (fst e) (snd e))"
    using generate_all_result[OF wr0 targets_distinct src0] by (simp_all add: w1_def d0)
  have gs: "generateSummary cwd (object_keys EXAMPLES_CONFIG) ''docs'' (disk w1) =
            Inr ((disk w1)\<lparr>files := (files (disk w1))(SP \<mapsto> body)\<rparr>)"
    using summary
    by (simp add: generateSummary_def summary_entries_all writeFileSync_def Let_def
        write_check_None_iff[symmetric] d1[symmetric] SP_def body_def)
  define w2 where "w2 = w1\<lparr>disk := (disk w1)\<lparr>files := (files (disk w1))(SP \<mapsto> body)\<rparr>\<rparr>"
  have gs': "?gs w1 = (Done, w2)"
    by (simp add: fs_call_def gs w2_def)
  have "seq (seq i (seq ?ga (seq ?gs skip))) (seq l skip) w = seq l skip (snd (seq i (seq ?ga (seq ?gs skip)) w))"
    if "fst (seq i (seq ?ga (seq ?gs skip)) w) = Done"
    using that by (rule seq_after_Done)
  moreover have inner: "seq i (seq ?ga (seq ?gs skip)) w = (Done, w2)"
  proof -
    have "seq i (seq ?ga (seq ?gs skip)) w = seq ?ga (seq ?gs skip) w0"
      unfolding w0_def using i by (rule seq_after_Done)
    also have "\<dots> = seq ?gs skip w1"
      unfolding w1_def using ga by (rule seq_after_Done)
    also have "\<dots> = (Done, w2)"
      by (simp only: seq_skip gs')
    finally show ?thesis .
  qed
  ultimately have run: "generate_docs_main cwd (''--all'' # rest) w = l w2"
    by (simp add: main)
  have r1: "fst (l w2) = Done" and r2: "disk (snd (l w2)) = disk w2"
    by (simp_all add: l_def)
  have f2: "files (disk w2) = (files (disk w1))(SP \<mapsto> body)"
    by (simp add: w2_def)
  have summary_there: "files (disk w2) SP = Some body"
    by (simp add: f2)
  have docs_there: "files (disk w2) (resolve cwd (path_join [''docs'', output' config])) =
            Some (generateDocumentation (disk w) cwd name config)"
    if "(name, config) \<in> set EXAMPLES_CONFIG" for name config
    using f1[OF that] target_not_summary[OF that, of cwd]
    by (simp add: f2 SP_def doc_target_def)
  have embeds_contract: "\<exists>pre post. generateDocumentation (disk w) cwd name config =
                  pre @ (''File not found: '' @ contract config) @ post"
    if "\<not> existsSync (disk w) cwd (contract config)" for name config
    using documentation_embeds_contract[of "disk w" cwd name config] readFileContent_missing[OF that]
    by simp
  have embeds_test: "\<exists>pre post. generateDocumentation (disk w) cwd name config =
                  pre @ (''File not found: '' @ test config) @ post"
    if "\<not> existsSync (disk w) cwd (test config)" for name config
    using documentation_embeds_test[of "disk w" cwd name config] readFileContent_missing[OF that]
    by simp
  show ?thesis
    unfolding run r2 using r1 docs_there embeds_contract embeds_test summary_there
    by (auto simp: SP_def body_def)
qed

lemma fhe_subtract_docs_registered: "(''fhe-subtract'', fhe_subtract_docs) \<in> set EXAMPLES_CONFIG"
  by (simp add: EXAMPLES_CONFIG_def fhe_subtract_docs_def)

lemma docs_world_writable:
  "\<forall>(name, config) \<in> set EXAMPLES_CONFIG.
      writable (dirs (disk docs_world)) (resolve [''repo''] (path_join [''docs'', output' config]))"
  "writable (dirs (disk docs_world)) (resolve [''repo''] (path_join [''docs'', ''SUMMARY.md'']))"
  by code_simp+

section \<open>The documentation generator: a write failure\<close>

lemma block_append: "block (xs @ ys) = seq (block xs) (block ys)"
proof (induction xs)
  case Nil
  show ?case by (simp add: seq_def skip_def fun_eq_iff)
next
  case (Cons a xs)
  then show ?case by (simp add: seq_assoc)
qed

lemma generate_all_append:
  "generate_all cwd outputDir (xs @ ys) = seq (generate_all cwd outputDir xs) (generate_all cwd outputDir ys)"
  by (simp add: generate_all_def block_append)

lemma write_documentation_fails:
  assumes "writeFileSync cwd (path_join [outputDir, output' config])
             (generateDocumentation (disk w) cwd name config) (disk w) = Inl e"
  shows "write_documentation cwd outputDir name config w = (Throw e, w)"
  using assms by (simp add: write_documentation_def fs_call_def)

lemma generate_entry_fails:
  assumes "writeFileSync cwd (path_join [outputDir, output' config])
             (generateDocumentation (disk w) cwd name config) (disk w) = Inl e"
  shows "fst (generate_entry cwd outputDir (name, config) w) = Throw e"
    and "disk (snd (generate_entry cwd outputDir (name, config) w)) = disk w"
proof -
  define i where "i = info (''Generating '' @ name @ ''...'')"
  define s where "s = success (''Generated '' @ output' config)"
  define w0 where "w0 = snd (i w)"
  have i: "fst (i w) = Done" and d0: "disk w0 = disk w"
    by (simp_all add: i_def w0_def)
  have wd: "write_documentation cwd outputDir name config w0 = (Throw e, w0)"
    using assms by (intro write_documentation_fails) (simp add: d0)
  have "generate_entry cwd outputDir (name, config) w =
        seq i (seq (write_documentation cwd outputDir name config) (seq s skip)) w"
    by (simp only: generate_entry_def block.simps prod.case i_def s_def)
  also have "\<dots> = seq (write_documentation cwd outputDir name config) (seq s skip) w0"
    unfolding w0_def using i by (rule seq_after_Done)
  also have "\<dots> = (Throw e, w0)"
    using seq_stops[of "write_documentation cwd outputDir name config" w0 "seq s skip"] wd by simp
  finally have eq: "generate_entry cwd outputDir (name, config) w = (Throw e, w0)" .
  show "fst (generate_entry cwd outputDir (name, config) w) = Throw e"
    and "disk (snd (generate_entry cwd outputDir (name, config) w)) = disk w"
    by (simp_all add: eq d0)
qed

lemma generate_all_stops:
  assumes "fst (generate_all cwd outputDir before w) = Done"
    and "writeFileSync cwd (path_join [outputDir, output' config])
           (generateDocumentation (disk (snd (generate_all cwd outputDir before w))) cwd name config)
           (disk (snd (generate_all cwd outputDir before w))) = Inl e"
  shows "fst (generate_all cwd outputDir (before @ (name, config) # after) w) = Throw e"
    and "disk (snd (generate_all cwd outputDir (before @ (name, config) # after) w)) =
         disk (snd (generate_all cwd outputDir before w))"
proof -
  let ?w1 = "snd (generate_all cwd outputDir before w)"
  note ge = generate_entry_fails[OF assms(2)]
  have "generate_all cwd outputDir (before @ (name, config) # after) w =
        seq (generate_entry cwd outputDir (name, config)) (generate_all cwd outputDir after) ?w1"
    using assms(1) by (simp add: generate_all_append generate_all_Cons seq_after_Done)
  also have "\<dots> = generate_entry cwd outputDir (name, config) ?w1"
    by (rule seq_stops) (simp add: ge(1))
  finally show "fst (generate_all cwd outputDir (before @ (name, config) # after) w) = Throw e"
    and "disk (snd (generate_all cwd outputDir (before @ (name, config) # after) w)) =
         disk (snd (generate_all cwd outputDir before w))"
    using ge by simp_all
qed

lemma docs_main_all_throws:
  assumes docs: "existsSync (disk w) cwd ''docs''"
    and ga: "fst (generate_all cwd ''docs'' EXAMPLES_CONFIG
                (snd (info ''Generating documentation for all examples...'' w))) = Throw e"
  shows "generate_docs_main cwd (''--all'' # rest) w =
         generate_all cwd ''docs'' EXAMPLES_CONFIG
           (snd (info ''Generating documentation for all examples...'' w))"
proof -
  define i where "i = info ''Generating documentation for all examples...''"
  define l where "l = log ([CHR 0x0A] @ ''Documentation generation completed!'') Green"
  define w0 where "w0 = snd (i w)"
  let ?ga = "generate_all cwd ''docs'' EXAMPLES_CONFIG"
  let ?gs = "fs_call (generateSummary cwd (object_keys EXAMPLES_CONFIG) ''docs'')"
  have i: "fst (i w) = Done"
    by (simp add: i_def)
  have main: "generate_docs_main cwd (''--all'' # rest) w =
              seq (seq i (seq ?ga (seq ?gs skip))) (seq l skip) w"
    using docs by (simp add: generate_docs_main_def Let_def i_def l_def seq_when_false)
  have ga': "fst (?ga w0) = Throw e"
    using ga by (simp add: w0_def i_def)
  have "seq i (seq ?ga (seq ?gs skip)) w = seq ?ga (seq ?gs skip) w0"
    unfolding w0_def using i by (rule seq_after_Done)
  also have "\<dots> = ?ga w0"
    by (rule seq_stops) (simp add: ga')
  finally have inner: "seq i (seq ?ga (seq ?gs skip)) w = ?ga w0" .
  have "generate_docs_main cwd (''--all'' # rest) w = ?ga w0"
    unfolding main using seq_stops[of "seq i (seq ?ga (seq ?gs skip))" w "seq l skip"] inner ga'
    by simp
  then show ?thesis
    by (simp add: w0_def i_def)
qed

text \<open>
  C4 (as amended). In \<^verbatim>\<open>--all\<close> mode the documents are written in registry order with
  nothing to catch an exception: when the documents of the earlier entries were
  written and the write of one entry fails, the run ends with that exception, and the
  disk stays as the earlier entries left it. No later document and no summary is
  written.
\<close>

theorem batch_stops_at_first_write_failure:
  assumes split: "EXAMPLES_CONFIG = before @ (name, config) # after"
    and docs: "existsSync (disk w) cwd ''docs''"
    and earlier: "fst (generate_all cwd ''docs'' before
                    (snd (info ''Generating documentation for all examples...'' w))) = Done"
    and fails: "writeFileSync cwd (path_join [''docs'', output' config])
           (generateDocumentation
              (disk (snd (generate_all cwd ''docs'' before
                 (snd (info ''Generating documentation for all examples...'' w))))) cwd name config)
           (disk (snd (generate_all cwd ''docs'' before
                 (snd (info ''Generating documentation for all examples...'' w))))) = Inl e"
  shows "fst (generate_docs_main cwd (''--all'' # rest) w) = Throw e
       \<and> disk (snd (generate_docs_main cwd (''--all'' # rest) w)) =
           disk (snd (generate_all cwd ''docs'' before
                  (snd (info ''Generating documentation for all examples...'' w))))"
proof -
  note st = generate_all_stops[OF earlier fails, of after, folded split]
  show ?thesis
    unfolding docs_main_all_throws[OF docs st(1)] using st by simp
qed

lemma fhe_add_docs_first: "EXAMPLES_CONFIG = [] @ (''fhe-add'', fhe_add_docs) # tl EXAMPLES_CONFIG"
  by (simp add: EXAMPLES_CONFIG_def fhe_add_docs_def)

lemma fhe_add_docs_path:
  "path_join [''docs'', output' fhe_add_docs] = ''docs/docs/fhe-add.md''"
  "resolve [''repo''] ''docs/docs/fhe-add.md'' = [''repo'', ''docs'', ''docs'', ''fhe-add.md'']"
  by code_simp+

lemma blocked_world_facts:
  "existsSync (disk blocked_world) [''repo''] ''docs''"
  "write_check (disk blocked_world) [''repo'', ''docs'', ''docs'', ''fhe-add.md''] = Some ''EISDIR''"
  "writable (dirs (disk blocked_world)) [''repo'', ''docs'', ''docs'', ''fhe-subtract.md'']"
  "resolve [''repo''] (path_join [''docs'', output' fhe_subtract_docs]) =
     [''repo'', ''docs'', ''docs'', ''fhe-subtract.md'']"
  by code_simp+

lemma blocked_first_write_fails:
  "writeFileSync [''repo''] (path_join [''docs'', output' fhe_add_docs])
           (generateDocumentation
              (disk (snd (generate_all [''repo''] ''docs'' []
                 (snd (info ''Generating documentation for all examples...'' blocked_world)))))
              [''repo''] ''fhe-add'' fhe_add_docs)
           (disk (snd (generate_all [''repo''] ''docs'' []
                 (snd (info ''Generating documentation for all examples...'' blocked_world))))) =
           Inl (SystemError ''EISDIR'' ''open'' ''docs/docs/fhe-add.md'')"
  by (simp add: generate_all_Nil writeFileSync_def Let_def fhe_add_docs_path blocked_world_facts)

lemma blocked_earlier:
  "fst (generate_all [''repo''] ''docs'' []
          (snd (info ''Generating documentation for all examples...'' blocked_world))) = Done"
  "disk (snd (generate_all [''repo''] ''docs'' []
          (snd (info ''Generating documentation for all examples...'' blocked_world)))) = disk blocked_world"
  by (simp_all add: generate_all_Nil)

text \<open>C4 (as amended), witness: the first write fails on the blocked world.\<close>

theorem batch_stops_at_first_write_failure_witness:
  "EXAMPLES_CONFIG = [] @ (''fhe-add'', fhe_add_docs) # tl EXAMPLES_CONFIG \<and>
   existsSync (disk blocked_world) [''repo''] ''docs'' \<and>
   fst (generate_all [''repo''] ''docs'' []
          (snd (info ''Generating documentation for all examples...'' blocked_world))) = Done \<and>
   fst (generate_docs_main [''repo''] [''--all''] blocked_world) =
     Throw (SystemError ''EISDIR'' ''open'' ''docs/docs/fhe-add.md'') \<and>
   disk (snd (generate_docs_main [''repo''] [''--all''] blocked_world)) = disk blocked_world"
  using batch_stops_at_first_write_failure[OF fhe_add_docs_first blocked_world_facts(1)
      blocked_earlier(1) blocked_first_write_fails, of "[]"]
    fhe_add_docs_first blocked_world_facts(1) blocked_earlier
  by simp

lemma blocked_run:
  "fst (generate_docs_main [''repo''] [''--all''] blocked_world) =
     Throw (SystemError ''EISDIR'' ''open'' ''docs/docs/fhe-add.md'')"
  "disk (snd (generate_docs_main [''repo''] [''--all''] blocked_world)) = disk blocked_world"
proof -
  note st = generate_all_stops[OF blocked_earlier(1) blocked_first_write_fails, of "tl EXAMPLES_CONFIG"]
  have eq: "generate_all [''repo''] ''docs'' EXAMPLES_CONFIG =
            generate_all [''repo''] ''docs'' ([] @ (''fhe-add'', fhe_add_docs) # tl EXAMPLES_CONFIG)"
    by (subst fhe_add_docs_first) (rule refl)
  have ga: "fst (generate_all [''repo''] ''docs'' EXAMPLES_CONFIG
                (snd (info ''Generating documentation for all examples...'' blocked_world))) =
            Throw (SystemError ''EISDIR'' ''open'' ''docs/docs/fhe-add.md'')"
    unfolding eq by (rule st(1))
  note main = docs_main_all_throws[OF blocked_world_facts(1) ga, of "[]"]
  show "fst (generate_docs_main [''repo''] [''--all''] blocked_world) =
     Throw (SystemError ''EISDIR'' ''open'' ''docs/docs/fhe-add.md'')"
    unfolding main by (rule ga)
  show "disk (snd (generate_docs_main [''repo''] [''--all''] blocked_world)) = disk blocked_world"
    unfolding main eq using st(2) blocked_earlier(2) by simp
qed

text \<open>
  C4 (as stated) fails: when the first document cannot be written (its place is taken
  by a directory), the run ends there, and the document of \<^verbatim>\<open>fhe-subtract\<close>, which
  could have been written, is not.
\<close>

theorem batch_aborts_counterexample:
  "fst (generate_docs_main [''repo''] [''--all''] blocked_world) =
     Throw (SystemError ''EISDIR'' ''open'' ''docs/docs/fhe-add.md'') \<and>
   resolve [''repo''] (path_join [''docs'', output' fhe_subtract_docs]) =
     [''repo'', ''docs'', ''docs'', ''fhe-subtract.md''] \<and>
   writable (dirs (disk blocked_world)) [''repo'', ''docs'', ''docs'', ''fhe-subtract.md''] \<and>
   files (disk (snd (generate_docs_main [''repo''] [''--all''] blocked_world)))
     [''repo'', ''docs'', ''docs'', ''fhe-subtract.md''] = None"
  by (simp add: blocked_run blocked_world_facts) (simp add: blocked_world_def sample_disk_def)

section \<open>The documentation generator: where a document is written\<close>

text \<open>A run for one registered example: the directory step, then the write.\<close>

lemma docs_main_single:
  assumes "map_of EXAMPLES_CONFIG name = Some config" "name \<noteq> ''--all''"
    and "(if existsSync (disk w) cwd ''docs'' then Inr (disk w) else mkdirSync cwd ''docs'' (disk w)) = Inr fs1"
  shows "fst (generate_docs_main cwd (name # rest) w) =
           (case writeFileSync cwd (path_join [''docs'', output' config])
                   (generateDocumentation fs1 cwd name config) fs1 of
              Inl e \<Rightarrow> Throw e | Inr fs2 \<Rightarrow> Done)"
    and "disk (snd (generate_docs_main cwd (name # rest) w)) =
           (case writeFileSync cwd (path_join [''docs'', output' config])
                   (generateDocumentation fs1 cwd name config) fs1 of
              Inl e \<Rightarrow> fs1 | Inr fs2 \<Rightarrow> fs2)"
  using assms
  by (auto simp: generate_docs_main_def get_property_def Let_def seq_def when_fs_def fs_call_def
      info_eq success_def log_eq skip_def write_documentation_def
      split: sum.splits if_splits)

lemma fhe_add_docs_registered: "map_of EXAMPLES_CONFIG ''fhe-add'' = Some fhe_add_docs"
  by (simp add: EXAMPLES_CONFIG_def fhe_add_docs_def)

lemma sample_world_docs_facts:
  "\<not> existsSync (disk sample_world) [''repo''] ''docs''"
  "\<not> is_file (disk sample_world) (resolve [''repo''] ''docs'')"
  "\<not> list_ex (is_file (disk sample_world)) (prefixes_of (resolve [''repo''] ''docs''))"
  "write_check ((disk sample_world)\<lparr>dirs := dirs (disk sample_world) \<union>
       set (prefixes_of (resolve [''repo''] ''docs''))\<rparr>)
     [''repo'', ''docs'', ''docs'', ''fhe-add.md''] = Some ''ENOENT''"
  "existsSync (disk docs_world) [''repo''] ''docs''"
  "write_check (disk docs_world) [''repo'', ''docs'', ''docs'', ''fhe-add.md''] = None"
  by code_simp+

text \<open>
  C1, the code at a failing input. The document of \<^verbatim>\<open>fhe-add\<close> is written to
  \<^verbatim>\<open>docs/docs/fhe-add.md\<close>, not to \<^verbatim>\<open>docs/fhe-add.md\<close>: where \<^verbatim>\<open>docs/docs\<close> is missing
  the run ends with an exception and writes nothing, and where it exists the document
  lands there.
\<close>

theorem documentation_written_under_docs_docs:
  "path_join [''docs'', output' fhe_add_docs] = ''docs/docs/fhe-add.md'' \<and>
   fst (generate_docs_main [''repo''] [''fhe-add''] sample_world) =
     Throw (SystemError ''ENOENT'' ''open'' ''docs/docs/fhe-add.md'') \<and>
   files (disk (snd (generate_docs_main [''repo''] [''fhe-add''] sample_world))) = files (disk sample_world) \<and>
   fst (generate_docs_main [''repo''] [''fhe-add''] docs_world) = Done \<and>
   files (disk (snd (generate_docs_main [''repo''] [''fhe-add''] docs_world))) =
     (files (disk docs_world))([''repo'', ''docs'', ''docs'', ''fhe-add.md''] \<mapsto>
        generateDocumentation (disk docs_world) [''repo''] ''fhe-add'' fhe_add_docs) \<and>
   files (disk docs_world) [''repo'', ''docs'', ''fhe-add.md''] = None"
proof -
  let ?fs1 = "(disk sample_world)\<lparr>dirs := dirs (disk sample_world) \<union>
       set (prefixes_of (resolve [''repo''] ''docs''))\<rparr>"
  have neq: "''fhe-add'' \<noteq> ''--all''"
    by simp
  have mk: "(if existsSync (disk sample_world) [''repo''] ''docs'' then Inr (disk sample_world)
             else mkdirSync [''repo''] ''docs'' (disk sample_world)) = Inr ?fs1"
    by (simp add: sample_world_docs_facts mkdirSync_def Let_def)
  have w1: "writeFileSync [''repo''] ''docs/docs/fhe-add.md''
              (generateDocumentation ?fs1 [''repo''] ''fhe-add'' fhe_add_docs) ?fs1 =
            Inl (SystemError ''ENOENT'' ''open'' ''docs/docs/fhe-add.md'')"
    by (simp add: writeFileSync_def Let_def fhe_add_docs_path sample_world_docs_facts)
  have ex: "(if existsSync (disk docs_world) [''repo''] ''docs'' then Inr (disk docs_world)
             else mkdirSync [''repo''] ''docs'' (disk docs_world)) = Inr (disk docs_world)"
    by (simp add: sample_world_docs_facts)
  have w2: "writeFileSync [''repo''] ''docs/docs/fhe-add.md''
              (generateDocumentation (disk docs_world) [''repo''] ''fhe-add'' fhe_add_docs) (disk docs_world) =
            Inr ((disk docs_world)\<lparr>files := (files (disk docs_world))
              ([''repo'', ''docs'', ''docs'', ''fhe-add.md''] \<mapsto>
                 generateDocumentation (disk docs_world) [''repo''] ''fhe-add'' fhe_add_docs)\<rparr>)"
    by (simp add: writeFileSync_def Let_def fhe_add_docs_path sample_world_docs_facts)
  have none: "files (disk docs_world) [''repo'', ''docs'', ''fhe-add.md''] = None"
    by (simp add: docs_world_def sample_disk_def)
  show ?thesis
    using docs_main_single[OF fhe_add_docs_registered neq mk, of "[]"]
      docs_main_single[OF fhe_add_docs_registered neq ex, of "[]"] none
    by (simp add: w1 w2 fhe_add_docs_path)
qed

section \<open>The documentation generator: the batch without \<^verbatim>\<open>docs/docs\<close>\<close>

lemma docs_main_after_mkdir:
  assumes "\<not> existsSync (disk w) cwd ''docs''"
    and "mkdirSync cwd ''docs'' (disk w) = Inr fs1"
  shows "generate_docs_main cwd (arg # rest) w = generate_docs_main cwd (arg # rest) (w\<lparr>disk := fs1\<rparr>)"
proof -
  have fs1: "fs1 = (disk w)\<lparr>dirs := dirs (disk w) \<union> set (prefixes_of (resolve cwd ''docs''))\<rparr>"
    using mkdirSync_Inr[OF assms(2)] by simp
  have "cwd @ [''docs''] \<in> set (prefixes_of (cwd @ [''docs'']))"
    by (rule prefixes_of_self) simp
  then have ex: "existsSync fs1 cwd ''docs''"
    by (simp add: fs1 existsSync_iff resolve_docs)
  have step: "when_fs (\<lambda>fs. \<not> existsSync fs cwd ''docs'') (fs_call (mkdirSync cwd ''docs'')) w =
              (Done, w\<lparr>disk := fs1\<rparr>)"
    using assms by (simp add: when_fs_def fs_call_def)
  have skipped: "when_fs (\<lambda>fs. \<not> existsSync fs cwd ''docs'') (fs_call (mkdirSync cwd ''docs''))
                   (w\<lparr>disk := fs1\<rparr>) = (Done, w\<lparr>disk := fs1\<rparr>)"
    using ex by (simp add: when_fs_def)
  show ?thesis
    unfolding generate_docs_main_def Let_def by (simp add: seq_def step skipped)
qed

lemma fhe_add_docs_member: "(''fhe-add'', fhe_add_docs) \<in> set EXAMPLES_CONFIG"
  by (simp add: EXAMPLES_CONFIG_def fhe_add_docs_def)

lemma docs_world_sources:
  "readFileContent (disk docs_world) [''repo''] (contract fhe_add_docs) = ''contract FHEAdd {}''"
  "readFileContent (disk docs_world) [''repo''] (test fhe_add_docs) = ''describe()''"
  "readFileContent (disk docs_world) [''repo''] (contract fhe_subtract_docs) =
     ''File not found: contracts/basic/FHESubtract.sol''"
  "readFileContent (disk docs_world) [''repo''] (test fhe_subtract_docs) =
     ''File not found: test/basic/FHESubtract.ts''"
  by code_simp+

lemma sample_world_missing:
  "\<not> existsSync (disk sample_world) [''repo''] (contract fhe_subtract_docs)"
  "\<not> existsSync (disk sample_world) [''repo''] (test fhe_subtract_docs)"
  "\<not> existsSync (disk docs_world) [''repo''] (contract fhe_subtract_docs)"
  "\<not> existsSync (disk docs_world) [''repo''] (test fhe_subtract_docs)"
  by code_simp+

lemma sample_all_run:
  "fst (generate_docs_main [''repo''] [''--all''] sample_world) =
     Throw (SystemError ''ENOENT'' ''open'' ''docs/docs/fhe-add.md'')"
  "files (disk (snd (generate_docs_main [''repo''] [''--all''] sample_world))) = files (disk sample_world)"
  "dirs (disk (snd (generate_docs_main [''repo''] [''--all''] sample_world))) =
     insert [''repo'', ''docs''] (dirs (disk sample_world))"
proof -
  let ?fs1 = "(disk sample_world)\<lparr>dirs := dirs (disk sample_world) \<union>
       set (prefixes_of (resolve [''repo''] ''docs''))\<rparr>"
  let ?w1 = "sample_world\<lparr>disk := ?fs1\<rparr>"
  let ?i = "info ''Generating documentation for all examples...''"
  have mk: "mkdirSync [''repo''] ''docs'' (disk sample_world) = Inr ?fs1"
    by (simp add: sample_world_docs_facts mkdirSync_def Let_def)
  note after = docs_main_after_mkdir[OF sample_world_docs_facts(1) mk, of "''--all''" "[]"]
  have ex: "existsSync (disk ?w1) [''repo''] ''docs''"
    by (simp add: existsSync_iff resolve_docs)
  have earlier: "fst (generate_all [''repo''] ''docs'' [] (snd (?i ?w1))) = Done"
    and d0: "disk (snd (generate_all [''repo''] ''docs'' [] (snd (?i ?w1)))) = ?fs1"
    by (simp_all add: generate_all_Nil)
  have fails: "writeFileSync [''repo''] (path_join [''docs'', output' fhe_add_docs])
           (generateDocumentation (disk (snd (generate_all [''repo''] ''docs'' [] (snd (?i ?w1)))))
              [''repo''] ''fhe-add'' fhe_add_docs)
           (disk (snd (generate_all [''repo''] ''docs'' [] (snd (?i ?w1))))) =
           Inl (SystemError ''ENOENT'' ''open'' ''docs/docs/fhe-add.md'')"
    unfolding d0 by (simp add: writeFileSync_def Let_def fhe_add_docs_path sample_world_docs_facts)
  note st = generate_all_stops[OF earlier fails, of "tl EXAMPLES_CONFIG"]
  have eq: "generate_all [''repo''] ''docs'' EXAMPLES_CONFIG =
            generate_all [''repo''] ''docs'' ([] @ (''fhe-add'', fhe_add_docs) # tl EXAMPLES_CONFIG)"
    by (subst fhe_add_docs_first) (rule refl)
  have ga: "fst (generate_all [''repo''] ''docs'' EXAMPLES_CONFIG (snd (?i ?w1))) =
            Throw (SystemError ''ENOENT'' ''open'' ''docs/docs/fhe-add.md'')"
    unfolding eq by (rule st(1))
  note main = docs_main_all_throws[OF ex ga, of "[]"]
  have dsk: "disk (snd (generate_docs_main [''repo''] [''--all''] sample_world)) = ?fs1"
    unfolding after main eq using st(2) d0 by simp
  show "fst (generate_docs_main [''repo''] [''--all''] sample_world) =
     Throw (SystemError ''ENOENT'' ''open'' ''docs/docs/fhe-add.md'')"
    unfolding after main by (rule ga)
  show "files (disk (snd (generate_docs_main [''repo''] [''--all''] sample_world))) = files (disk sample_world)"
    unfolding dsk by simp
  show "dirs (disk (snd (generate_docs_main [''repo''] [''--all''] sample_world))) =
     insert [''repo'', ''docs''] (dirs (disk sample_world))"
    unfolding dsk by (auto simp: resolve_docs sample_world_def sample_disk_def)
qed

lemma write_check_no_parent:
  "butlast q \<noteq> [] \<Longrightarrow> butlast q \<notin> dirs fs \<Longrightarrow> write_check fs q \<noteq> None"
  by (simp add: write_check_def is_dir_def)

lemma fhe_add_docs_target:
  "resolve cwd (path_join [''docs'', output' fhe_add_docs]) = cwd @ [''docs'', ''docs'', ''fhe-add.md'']"
proof -
  have wf: "well_formed_docs fhe_add_docs"
    using EXAMPLES_CONFIG_well_formed fhe_add_docs_member by (auto simp: list_all_iff)
  have "split_on CHR ''/'' (output' fhe_add_docs) = [''docs'', ''fhe-add.md'']"
    by code_simp
  then show ?thesis
    using doc_target_resolved[OF wf, of cwd] by (simp add: doc_target_def)
qed

lemma first_write_fails:
  assumes "cwd @ [''docs'', ''docs''] \<notin> dirs fs"
  shows "\<exists>code. writeFileSync cwd (path_join [''docs'', output' fhe_add_docs]) content fs =
           Inl (SystemError code ''open'' (path_join [''docs'', output' fhe_add_docs]))"
proof -
  have "butlast (cwd @ [''docs'', ''docs'', ''fhe-add.md'']) = cwd @ [''docs'', ''docs'']"
    by (simp add: butlast_append)
  then have "write_check fs (cwd @ [''docs'', ''docs'', ''fhe-add.md'']) \<noteq> None"
    using assms by (intro write_check_no_parent) simp_all
  then show ?thesis
    by (auto simp: writeFileSync_def Let_def fhe_add_docs_target)
qed

lemma batch_throws_when_docs_exists:
  assumes docs: "existsSync (disk w) cwd ''docs''"
    and nodir: "cwd @ [''docs'', ''docs''] \<notin> dirs (disk w)"
  shows "\<exists>e. fst (generate_docs_main cwd (''--all'' # rest) w) = Throw e"
    and "disk (snd (generate_docs_main cwd (''--all'' # rest) w)) = disk w"
proof -
  let ?i = "info ''Generating documentation for all examples...''"
  let ?w0 = "snd (generate_all cwd ''docs'' [] (snd (?i w)))"
  have earlier: "fst (generate_all cwd ''docs'' [] (snd (?i w))) = Done"
    and d0: "disk ?w0 = disk w"
    by (simp_all add: generate_all_Nil)
  from first_write_fails[of cwd "disk ?w0" "generateDocumentation (disk ?w0) cwd ''fhe-add'' fhe_add_docs"]
  obtain code where fails: "writeFileSync cwd (path_join [''docs'', output' fhe_add_docs])
           (generateDocumentation (disk ?w0) cwd ''fhe-add'' fhe_add_docs) (disk ?w0) =
           Inl (SystemError code ''open'' (path_join [''docs'', output' fhe_add_docs]))"
    using nodir d0 by auto
  note st = generate_all_stops[OF earlier fails, of "tl EXAMPLES_CONFIG"]
  have eq: "generate_all cwd ''docs'' EXAMPLES_CONFIG =
            generate_all cwd ''docs'' ([] @ (''fhe-add'', fhe_add_docs) # tl EXAMPLES_CONFIG)"
    by (subst fhe_add_docs_first) (rule refl)
  have ga: "fst (generate_all cwd ''docs'' EXAMPLES_CONFIG (snd (?i w))) =
            Throw (SystemError code ''open'' (path_join [''docs'', output' fhe_add_docs]))"
    unfolding eq by (rule st(1))
  note main = docs_main_all_throws[OF docs ga, of rest]
  show "\<exists>e. fst (generate_docs_main cwd (''--all'' # rest) w) = Throw e"
    unfolding main using ga by blast
  show "disk (snd (generate_docs_main cwd (''--all'' # rest) w)) = disk w"
    unfolding main eq using st(2) d0 by simp
qed

lemma docs_main_mkdir_fails:
  assumes "\<not> existsSync (disk w) cwd ''docs''"
    and "mkdirSync cwd ''docs'' (disk w) = Inl e"
  shows "generate_docs_main cwd (arg # rest) w = (Throw e, w)"
proof -
  have step: "when_fs (\<lambda>fs. \<not> existsSync fs cwd ''docs'') (fs_call (mkdirSync cwd ''docs'')) w = (Throw e, w)"
    using assms by (simp add: when_fs_def fs_call_def)
  show ?thesis
    unfolding generate_docs_main_def Let_def by (simp add: seq_def step)
qed

lemma prefixes_of_length: "p \<in> set (prefixes_of q) \<Longrightarrow> length p \<le> length q"
  by (induction q arbitrary: p) auto

text \<open>
  Without a directory \<^verbatim>\<open>docs/docs\<close> the batch never gets past its first document: the
  run ends with an exception, and no file is written.
\<close>

lemma batch_throws_without_docs_docs:
  assumes nodir: "cwd @ [''docs'', ''docs''] \<notin> dirs (disk w)"
  shows "\<exists>e. fst (generate_docs_main cwd (''--all'' # rest) w) = Throw e"
    and "files (disk (snd (generate_docs_main cwd (''--all'' # rest) w))) = files (disk w)"
proof -
  have both: "(\<exists>e. fst (generate_docs_main cwd (''--all'' # rest) w) = Throw e) \<and>
              files (disk (snd (generate_docs_main cwd (''--all'' # rest) w))) = files (disk w)"
  proof (cases "existsSync (disk w) cwd ''docs''")
    case True
    then show ?thesis
      using batch_throws_when_docs_exists[OF True nodir, of rest] by simp
  next
    case False
    show ?thesis
    proof (cases "mkdirSync cwd ''docs'' (disk w)")
      case (Inl e)
      then show ?thesis
        by (simp add: docs_main_mkdir_fails[OF False Inl])
    next
      case (Inr fs1)
      have fs1: "fs1 = (disk w)\<lparr>dirs := dirs (disk w) \<union> set (prefixes_of (resolve cwd ''docs''))\<rparr>"
        using mkdirSync_Inr[OF Inr] by simp
      let ?w1 = "w\<lparr>disk := fs1\<rparr>"
      have "cwd @ [''docs''] \<in> set (prefixes_of (cwd @ [''docs'']))"
        by (rule prefixes_of_self) simp
      then have ex: "existsSync (disk ?w1) cwd ''docs''"
        by (simp add: fs1 existsSync_iff resolve_docs)
      have "cwd @ [''docs'', ''docs''] \<notin> set (prefixes_of (cwd @ [''docs'']))"
        using prefixes_of_length[of "cwd @ [''docs'', ''docs'']" "cwd @ [''docs'']"] by auto
      then have nodir1: "cwd @ [''docs'', ''docs''] \<notin> dirs (disk ?w1)"
        using nodir by (simp add: fs1 resolve_docs)
      show ?thesis
        unfolding docs_main_after_mkdir[OF False Inr, of "''--all''" rest]
        using batch_throws_when_docs_exists[OF ex nodir1, of rest] by (simp add: fs1)
    qed
  qed
  show "\<exists>e. fst (generate_docs_main cwd (''--all'' # rest) w) = Throw e"
    and "files (disk (snd (generate_docs_main cwd (''--all'' # rest) w))) = files (disk w)"
    using both by simp_all
qed


lemma docs_world_run:
  "fst (generate_docs_main [''repo''] [''--all''] docs_world) = Done"
  "files (disk (snd (generate_docs_main [''repo''] [''--all''] docs_world)))
     [''repo'', ''docs'', ''docs'', ''fhe-subtract.md''] =
     Some (concat (documentation_parts fhe_subtract_docs
       ''File not found: contracts/basic/FHESubtract.sol''
       ''File not found: test/basic/FHESubtract.ts''))"
  "files (disk (snd (generate_docs_main [''repo''] [''--all''] docs_world)))
     [''repo'', ''docs'', ''docs'', ''fhe-add.md''] =
     Some (concat (documentation_parts fhe_add_docs ''contract FHEAdd {}'' ''describe()''))"
  "files (disk (snd (generate_docs_main [''repo''] [''--all''] docs_world)))
     [''repo'', ''docs'', ''SUMMARY.md''] =
     Some (summary_header @ concat (map summary_line EXAMPLES_CONFIG) @ summary_footer)"
proof -
  have p: "resolve [''repo''] (path_join [''docs'', output' fhe_subtract_docs]) =
           [''repo'', ''docs'', ''docs'', ''fhe-subtract.md'']"
    "resolve [''repo''] (path_join [''docs'', output' fhe_add_docs]) =
           [''repo'', ''docs'', ''docs'', ''fhe-add.md'']"
    "resolve [''repo''] (path_join [''docs'', ''SUMMARY.md'']) = [''repo'', ''docs'', ''SUMMARY.md'']"
    by code_simp+
  note t = batch_completes_when_writable[OF docs_world_writable, of "[]"]
  from t show "fst (generate_docs_main [''repo''] [''--all''] docs_world) = Done"
    by blast
  from t fhe_subtract_docs_registered
  have "files (disk (snd (generate_docs_main [''repo''] [''--all''] docs_world)))
     (resolve [''repo''] (path_join [''docs'', output' fhe_subtract_docs])) =
     Some (generateDocumentation (disk docs_world) [''repo''] ''fhe-subtract'' fhe_subtract_docs)"
    by blast
  then show "files (disk (snd (generate_docs_main [''repo''] [''--all''] docs_world)))
     [''repo'', ''docs'', ''docs'', ''fhe-subtract.md''] =
     Some (concat (documentation_parts fhe_subtract_docs
       ''File not found: contracts/basic/FHESubtract.sol''
       ''File not found: test/basic/FHESubtract.ts''))"
    by (simp only: p generateDocumentation_def Let_def docs_world_sources)
  from t fhe_add_docs_member
  have "files (disk (snd (generate_docs_main [''repo''] [''--all''] docs_world)))
     (resolve [''repo''] (path_join [''docs'', output' fhe_add_docs])) =
     Some (generateDocumentation (disk docs_world) [''repo''] ''fhe-add'' fhe_add_docs)"
    by blast
  then show "files (disk (snd (generate_docs_main [''repo''] [''--all''] docs_world)))
     [''repo'', ''docs'', ''docs'', ''fhe-add.md''] =
     Some (concat (documentation_parts fhe_add_docs ''contract FHEAdd {}'' ''describe()''))"
    by (simp only: p generateDocumentation_def Let_def docs_world_sources)
  from t
  have "files (disk (snd (generate_docs_main [''repo''] [''--all''] docs_world)))
     (resolve [''repo''] (path_join [''docs'', ''SUMMARY.md''])) =
     Some (summary_header @ concat (map summary_line EXAMPLES_CONFIG) @ summary_footer)"
    by blast
  then show "files (disk (snd (generate_docs_main [''repo''] [''--all''] docs_world)))
     [''repo'', ''docs'', ''SUMMARY.md''] =
     Some (summary_header @ concat (map summary_line EXAMPLES_CONFIG) @ summary_footer)"
    by (simp only: p)
qed

text \<open>
  C6, the code at a failing input. The working directory holds the sources of
  \<^verbatim>\<open>fhe-add\<close> only, so those of \<^verbatim>\<open>fhe-subtract\<close> are missing, and it has no directory
  \<^verbatim>\<open>docs/docs\<close>. The \<^verbatim>\<open>--all\<close> run ends with an exception at its first document and
  leaves the files as they were: there is no document for any example and no
  \<^verbatim>\<open>SUMMARY.md\<close>. The cause is the doubled \<^verbatim>\<open>docs\<close> in the output paths, not the
  missing source: on the same disk with \<^verbatim>\<open>docs/docs\<close> made beforehand the run
  completes, the document of \<^verbatim>\<open>fhe-subtract\<close> holds the placeholder in place of each
  source, the document of \<^verbatim>\<open>fhe-add\<close> holds its sources, and \<^verbatim>\<open>SUMMARY.md\<close> has a line
  for every registered example. Each document is the fixed text before the source
  sections, the two sections, and the fixed text after them.
\<close>

theorem batch_writes_nothing_without_docs_docs:
  "\<not> existsSync (disk sample_world) [''repo''] (contract fhe_subtract_docs) \<and>
   [''repo'', ''docs'', ''docs''] \<notin> dirs (disk sample_world) \<and>
   fst (generate_docs_main [''repo''] [''--all''] sample_world) =
     Throw (SystemError ''ENOENT'' ''open'' ''docs/docs/fhe-add.md'') \<and>
   files (disk (snd (generate_docs_main [''repo''] [''--all''] sample_world))) = files (disk sample_world) \<and>
   files (disk sample_world) [''repo'', ''docs'', ''docs'', ''fhe-subtract.md''] = None \<and>
   files (disk sample_world) [''repo'', ''docs'', ''SUMMARY.md''] = None \<and>
   dirs (disk docs_world) = insert [''repo'', ''docs''] (insert [''repo'', ''docs'', ''docs''] (dirs (disk sample_world))) \<and>
   files (disk docs_world) = files (disk sample_world) \<and>
   fst (generate_docs_main [''repo''] [''--all''] docs_world) = Done \<and>
   files (disk (snd (generate_docs_main [''repo''] [''--all''] docs_world)))
     [''repo'', ''docs'', ''docs'', ''fhe-subtract.md''] =
     Some (concat (take 21 (documentation_parts fhe_subtract_docs [] [])) @
           source_sections ''File not found: contracts/basic/FHESubtract.sol''
             ''File not found: test/basic/FHESubtract.ts'' @
           concat (drop 31 (documentation_parts fhe_subtract_docs [] []))) \<and>
   files (disk (snd (generate_docs_main [''repo''] [''--all''] docs_world)))
     [''repo'', ''docs'', ''docs'', ''fhe-add.md''] =
     Some (concat (take 21 (documentation_parts fhe_add_docs [] [])) @
           source_sections ''contract FHEAdd {}'' ''describe()'' @
           concat (drop 31 (documentation_parts fhe_add_docs [] []))) \<and>
   files (disk (snd (generate_docs_main [''repo''] [''--all''] docs_world)))
     [''repo'', ''docs'', ''SUMMARY.md''] =
     Some (summary_header @ concat (map summary_line EXAMPLES_CONFIG) @ summary_footer)"
proof -
  have a: "[''repo'', ''docs'', ''docs''] \<notin> dirs (disk sample_world)"
    "files (disk sample_world) [''repo'', ''docs'', ''docs'', ''fhe-subtract.md''] = None"
    "files (disk sample_world) [''repo'', ''docs'', ''SUMMARY.md''] = None"
    "dirs (disk docs_world) = insert [''repo'', ''docs''] (insert [''repo'', ''docs'', ''docs''] (dirs (disk sample_world)))"
    "files (disk docs_world) = files (disk sample_world)"
    by (auto simp: sample_world_def sample_disk_def docs_world_def)
  show ?thesis
    using sample_world_missing(1) a sample_all_run(1,2)
      docs_world_run(1) docs_world_run(2,3)[unfolded documentation_source_sections] docs_world_run(4)
    by (intro conjI)
qed

end
